theory Spec2Isabelle
  imports Complex_Main "HOL-Library.Sublist"
begin

section \<open>Numbers\<close>

text \<open>
  A JavaScript \<^verbatim>\<open>number\<close> is modelled as a \<^typ>\<open>real\<close>: arithmetic is exact, and
  rounding of IEEE doubles is outside the model, with one exception. The result of
  \<^verbatim>\<open>interpolateBounds\<close> is compared with its arguments for equality, which rounding
  decides, so its three operations round as binary64 arithmetic does (below). The one place
  where the map code divides by a value that nothing guards (\<^verbatim>\<open>w / effW\<close> in the
  projection) is modelled with the outcomes that IEEE division has at a zero divisor, so
  that a quotient which JavaScript evaluates to \<^verbatim>\<open>Infinity\<close> or \<^verbatim>\<open>NaN\<close> is never read
  as the number 0.
\<close>

datatype jsnum = Fin real | PInf | NInf | NaN

definition jsdiv :: "real \<Rightarrow> real \<Rightarrow> jsnum" where
  "jsdiv a b =
     (if b \<noteq> 0 then Fin (a / b)
      else if 0 < a then PInf
      else if a < 0 then NInf
      else NaN)"

text \<open>\<^verbatim>\<open>Math.min\<close> of two numbers: \<^verbatim>\<open>NaN\<close> if either is, otherwise the smaller.\<close>

fun jsmin :: "jsnum \<Rightarrow> jsnum \<Rightarrow> jsnum" where
  "jsmin NaN _ = NaN"
| "jsmin _ NaN = NaN"
| "jsmin NInf _ = NInf"
| "jsmin _ NInf = NInf"
| "jsmin PInf b = b"
| "jsmin a PInf = a"
| "jsmin (Fin a) (Fin b) = Fin (min a b)"

subsection \<open>Binary64 arithmetic\<close>

text \<open>
  The value that IEEE 754 binary64 arithmetic returns for an operation whose exact result is
  the real \<open>x\<close>: \<open>x\<close> rounded to the nearest multiple of the spacing of doubles around it,
  ties to the even multiple. \<open>exponent x\<close> is the binary exponent of \<open>x\<close>, not below that of
  the subnormal range, and \<open>quantum x\<close> the spacing of the doubles with that exponent
  (53 significant bits). A rounded value of magnitude \<open>2 ^ 1024\<close> or more is an infinity.
  The two zeros of binary64 are one number here, as they are for \<^verbatim>\<open>===\<close>.
\<close>

definition pow2 :: "int \<Rightarrow> real" where
  "pow2 k = (if 0 \<le> k then 2 ^ nat k else 1 / 2 ^ nat (- k))"

definition roundTiesToEven :: "real \<Rightarrow> int" where
  "roundTiesToEven y =
     (let n = \<lfloor>y\<rfloor>; r = y - of_int n
      in if r < 1 / 2 then n
         else if 1 / 2 < r then n + 1
         else if even n then n else n + 1)"

definition exponent :: "real \<Rightarrow> int" where
  "exponent x = max \<lfloor>log 2 \<bar>x\<bar>\<rfloor> (- 1022)"

definition quantum :: "real \<Rightarrow> real" where
  "quantum x = pow2 (exponent x - 52)"

definition fl :: "real \<Rightarrow> jsnum" where
  "fl x =
     (if x = 0 then Fin 0
      else
        (let r = of_int (roundTiesToEven (x / quantum x)) * quantum x
         in if 2 ^ 1024 \<le> \<bar>r\<bar> then (if 0 < x then PInf else NInf) else Fin r))"

text \<open>A real is a binary64 value when rounding leaves it as it is.\<close>

definition isDouble :: "real \<Rightarrow> bool" where
  "isDouble x \<longleftrightarrow> fl x = Fin x"

text \<open>
  \<^verbatim>\<open>a + b\<close>, \<^verbatim>\<open>a - b\<close> and \<^verbatim>\<open>a * b\<close> on numbers: the exact result rounded when both operands
  are finite, and the IEEE rules for infinities and \<^verbatim>\<open>NaN\<close> otherwise.
\<close>

fun jsadd :: "jsnum \<Rightarrow> jsnum \<Rightarrow> jsnum" where
  "jsadd NaN _ = NaN"
| "jsadd _ NaN = NaN"
| "jsadd PInf NInf = NaN"
| "jsadd NInf PInf = NaN"
| "jsadd PInf _ = PInf"
| "jsadd _ PInf = PInf"
| "jsadd NInf _ = NInf"
| "jsadd _ NInf = NInf"
| "jsadd (Fin a) (Fin b) = fl (a + b)"

fun jssub :: "jsnum \<Rightarrow> jsnum \<Rightarrow> jsnum" where
  "jssub NaN _ = NaN"
| "jssub _ NaN = NaN"
| "jssub PInf PInf = NaN"
| "jssub NInf NInf = NaN"
| "jssub PInf _ = PInf"
| "jssub _ PInf = NInf"
| "jssub NInf _ = NInf"
| "jssub _ NInf = PInf"
| "jssub (Fin a) (Fin b) = fl (a - b)"

fun jsmul :: "jsnum \<Rightarrow> jsnum \<Rightarrow> jsnum" where
  "jsmul NaN _ = NaN"
| "jsmul _ NaN = NaN"
| "jsmul (Fin a) (Fin b) = fl (a * b)"
| "jsmul (Fin a) PInf = (if a = 0 then NaN else if 0 < a then PInf else NInf)"
| "jsmul (Fin a) NInf = (if a = 0 then NaN else if 0 < a then NInf else PInf)"
| "jsmul PInf (Fin b) = (if b = 0 then NaN else if 0 < b then PInf else NInf)"
| "jsmul NInf (Fin b) = (if b = 0 then NaN else if 0 < b then NInf else PInf)"
| "jsmul PInf PInf = PInf"
| "jsmul PInf NInf = NInf"
| "jsmul NInf PInf = NInf"
| "jsmul NInf NInf = PInf"

definition isFin :: "jsnum \<Rightarrow> bool" where
  "isFin v = (case v of Fin a \<Rightarrow> True | _ \<Rightarrow> False)"

section \<open>Map geometry (map-visualization component)\<close>

subsection \<open>Bounds\<close>

text \<open>The object that \<^verbatim>\<open>calculateBounds\<close> returns; \<^verbatim>\<open>null\<close> is \<open>None\<close>.\<close>

record Bounds =
  minLon :: real
  maxLon :: real
  minLat :: real
  maxLat :: real
  width :: real
  height :: real
  centerX :: real
  centerY :: real

text \<open>
  \<^verbatim>\<open>
  const interpolateBounds = (b1, b2, p) => {
      if (!b1 || !b2) return b2 || b1;
      return { minLon: b1.minLon + (b2.minLon - b1.minLon) * p, ... };
  };
  \<close>
  Each field of the object returned is the result of three binary64 operations, so it is a
  \<^typ>\<open>jsnum\<close>; the fields of a bounds object that is returned as it was given are its
  numbers. The fields of the arguments and \<open>p\<close> are taken to be finite numbers, as the
  bounds that \<^verbatim>\<open>calculateBounds\<close> computes from numeric positions and the eased progress
  of the zoom are.
\<close>

record InterpolatedBounds =
  minLon_js :: jsnum
  maxLon_js :: jsnum
  minLat_js :: jsnum
  maxLat_js :: jsnum
  width_js :: jsnum
  height_js :: jsnum
  centerX_js :: jsnum
  centerY_js :: jsnum

definition given :: "Bounds \<Rightarrow> InterpolatedBounds" where
  "given b =
     \<lparr> minLon_js = Fin (minLon b), maxLon_js = Fin (maxLon b),
       minLat_js = Fin (minLat b), maxLat_js = Fin (maxLat b),
       width_js = Fin (width b), height_js = Fin (height b),
       centerX_js = Fin (centerX b), centerY_js = Fin (centerY b) \<rparr>"

definition interpolateBounds ::
  "Bounds option \<Rightarrow> Bounds option \<Rightarrow> real \<Rightarrow> InterpolatedBounds option" where
  "interpolateBounds b1 b2 p =
     (case (b1, b2) of
        (Some x, Some y) \<Rightarrow>
          Some
            \<lparr> minLon_js = jsadd (Fin (minLon x)) (jsmul (jssub (Fin (minLon y)) (Fin (minLon x))) (Fin p)),
              maxLon_js = jsadd (Fin (maxLon x)) (jsmul (jssub (Fin (maxLon y)) (Fin (maxLon x))) (Fin p)),
              minLat_js = jsadd (Fin (minLat x)) (jsmul (jssub (Fin (minLat y)) (Fin (minLat x))) (Fin p)),
              maxLat_js = jsadd (Fin (maxLat x)) (jsmul (jssub (Fin (maxLat y)) (Fin (maxLat x))) (Fin p)),
              width_js = jsadd (Fin (width x)) (jsmul (jssub (Fin (width y)) (Fin (width x))) (Fin p)),
              height_js = jsadd (Fin (height x)) (jsmul (jssub (Fin (height y)) (Fin (height x))) (Fin p)),
              centerX_js = jsadd (Fin (centerX x)) (jsmul (jssub (Fin (centerX y)) (Fin (centerX x))) (Fin p)),
              centerY_js = jsadd (Fin (centerY x)) (jsmul (jssub (Fin (centerY y)) (Fin (centerY x))) (Fin p)) \<rparr>
      | _ \<Rightarrow> map_option given (case b2 of Some y \<Rightarrow> Some y | None \<Rightarrow> b1))"

text \<open>The eight numbers of a bounds object, and the exact differences of two of them.\<close>

definition fieldsOf :: "Bounds \<Rightarrow> real list" where
  "fieldsOf b = [minLon b, maxLon b, minLat b, maxLat b, width b, height b, centerX b, centerY b]"

definition differences :: "Bounds \<Rightarrow> Bounds \<Rightarrow> real list" where
  "differences b1 b2 = map2 (\<lambda>x y. y - x) (fieldsOf b1) (fieldsOf b2)"

text \<open>The interpolated value of one field, with every intermediate result exact.\<close>

definition lerp :: "real \<Rightarrow> real \<Rightarrow> real \<Rightarrow> real" where
  "lerp x y p = x + (y - x) * p"

subsection \<open>Projection onto the canvas\<close>

text \<open>
  A position is a longitude/latitude pair (\<^verbatim>\<open>c[0]\<close>, \<^verbatim>\<open>c[1]\<close>); a ring is a list of
  positions. \<^verbatim>\<open>ringToPath\<close> returns the text of an SVG path; the model keeps its
  structure, one segment per position with the command letter and the two coordinates,
  and leaves out the rendering of numbers as decimal text. \<open>EmptyPath\<close> is the empty
  string returned for \<^verbatim>\<open>null\<close> bounds, and \<open>NonFinitePath\<close> a path whose coordinates
  are \<^verbatim>\<open>NaN\<close> or infinite because the scale factor is.
\<close>

type_synonym position = "real \<times> real"

datatype cmd = MoveTo | LineTo

datatype path = EmptyPath | NonFinitePath | Segments "(cmd \<times> real \<times> real) list"

datatype projected = NoPoint | NonFinitePoint | Point real real

text \<open>
  \<^verbatim>\<open>
  const ringToPath = (ring, bounds, w, h) => {
      if (!bounds) return "";
      const px = bounds.width * 0.02, py = bounds.height * 0.02;
      const minLon = bounds.minLon - px, maxLon = bounds.maxLon + px;
      const minLat = bounds.minLat - py, maxLat = bounds.maxLat + py;
      const effW = maxLon - minLon, effH = maxLat - minLat;
      const scale = Math.min(w / effW, h / effH);
      const ox = (w - effW * scale) / 2, oy = (h - effH * scale) / 2;
      return ring.map((c, i) => {
          const x = (c[0] - minLon) * scale + ox;
          const y = h - ((c[1] - minLat) * scale + oy);
          return `${i === 0 ? "M" : "L"} ${x} ${y}`;
      }).join(" ") + " Z";
  };
  \<close>
  With a scale that is not finite every \<open>x\<close> and \<open>y\<close> is \<^verbatim>\<open>NaN\<close> or infinite, whatever
  the position; an empty ring has no coordinates at all.
\<close>

definition ringToPath :: "position list \<Rightarrow> Bounds option \<Rightarrow> real \<Rightarrow> real \<Rightarrow> path" where
  "ringToPath ring bounds w h =
     (case bounds of
        None \<Rightarrow> EmptyPath
      | Some b \<Rightarrow>
          (let px = width b * 0.02; py = height b * 0.02;
               minLon' = minLon b - px; maxLon' = maxLon b + px;
               minLat' = minLat b - py; maxLat' = maxLat b + py;
               effW = maxLon' - minLon'; effH = maxLat' - minLat'
           in case jsmin (jsdiv w effW) (jsdiv h effH) of
                Fin scale \<Rightarrow>
                  (let ox = (w - effW * scale) / 2; oy = (h - effH * scale) / 2
                   in Segments
                        (map (\<lambda>(i, c).
                                (if i = 0 then MoveTo else LineTo,
                                 (fst c - minLon') * scale + ox,
                                 h - ((snd c - minLat') * scale + oy)))
                             (enumerate 0 ring)))
              | _ \<Rightarrow> (if ring = [] then Segments [] else NonFinitePath)))"

text \<open>
  \<^verbatim>\<open>
  const projectPoint = (c, bounds, w, h) => {
      if (!bounds) return null;
      const px = bounds.width * 0.02, py = bounds.height * 0.02;
      const minLon = bounds.minLon - px, minLat = bounds.minLat - py;
      const effW = bounds.maxLon + px - minLon, effH = bounds.maxLat + py - minLat;
      const scale = Math.min(w / effW, h / effH);
      const ox = (w - effW * scale) / 2, oy = (h - effH * scale) / 2;
      return { x: (c[0] - minLon) * scale + ox, y: h - ((c[1] - minLat) * scale + oy) };
  };
  \<close>
\<close>

definition projectPoint :: "position \<Rightarrow> Bounds option \<Rightarrow> real \<Rightarrow> real \<Rightarrow> projected" where
  "projectPoint c bounds w h =
     (case bounds of
        None \<Rightarrow> NoPoint
      | Some b \<Rightarrow>
          (let px = width b * 0.02; py = height b * 0.02;
               minLon' = minLon b - px; minLat' = minLat b - py;
               effW = maxLon b + px - minLon'; effH = maxLat b + py - minLat'
           in case jsmin (jsdiv w effW) (jsdiv h effH) of
                Fin scale \<Rightarrow>
                  (let ox = (w - effW * scale) / 2; oy = (h - effH * scale) / 2
                   in Point ((fst c - minLon') * scale + ox)
                            (h - ((snd c - minLat') * scale + oy)))
              | _ \<Rightarrow> NonFinitePoint))"

text \<open>The coordinates of the \<open>i\<close>-th segment of a path, read back as a projected point.\<close>

fun pathPoint :: "path \<Rightarrow> nat \<Rightarrow> projected" where
  "pathPoint EmptyPath i = NoPoint"
| "pathPoint NonFinitePath i = NonFinitePoint"
| "pathPoint (Segments segs) i = (case segs ! i of (_, x, y) \<Rightarrow> Point x y)"

subsection \<open>Bounding box\<close>

text \<open>
  The \<^verbatim>\<open>coordinates\<close> of a GeoJSON geometry are arrays nested to any depth whose
  innermost arrays are positions: \<open>Pt lon lat\<close> is an array that starts with two numbers
  (\<^verbatim>\<open>typeof coords[0] === "number"\<close>; the destructuring reads the first two and ignores
  an altitude), \<open>Nest\<close> any other array.
  \<^verbatim>\<open>
  const calculateBounds = (features) => {
      let minLon = Infinity, maxLon = -Infinity, minLat = Infinity, maxLat = -Infinity;
      const traverse = (coords) => {
          if (typeof coords[0] === "number") {
              const [lon, lat] = coords;
              if (lon < minLon) minLon = lon;
              if (lon > maxLon) maxLon = lon;
              if (lat < minLat) minLat = lat;
              if (lat > maxLat) maxLat = lat;
          } else {
              coords.forEach(traverse);
          }
      };
      features.forEach(f => traverse(f.geometry.coordinates));
      if (minLon === Infinity) return null;
      const width = maxLon - minLon;
      const height = maxLat - minLat;
      return { minLon, maxLon, minLat, maxLat, width, height,
               centerX: minLon + width / 2, centerY: minLat + height / 2 };
  };
  \<close>
  The four variables that \<^verbatim>\<open>traverse\<close> updates are passed as state. They start at
  \<open>\<plusminus>\<close>\<^verbatim>\<open>Infinity\<close> together and the first position makes all four finite, so the state
  is \<open>None\<close> (all four still infinite) or the four numbers.
\<close>

datatype coords = Pt real real | Nest "coords list"

record GeoJsonFeature =
  coordinates :: coords

type_synonym extent = "real \<times> real \<times> real \<times> real"

fun traverse :: "coords \<Rightarrow> extent option \<Rightarrow> extent option" where
  "traverse (Pt lon lat) acc =
     (case acc of
        None \<Rightarrow> Some (lon, lon, lat, lat)
      | Some (minLon', maxLon', minLat', maxLat') \<Rightarrow>
          Some (if lon < minLon' then lon else minLon',
                if lon > maxLon' then lon else maxLon',
                if lat < minLat' then lat else minLat',
                if lat > maxLat' then lat else maxLat'))"
| "traverse (Nest cs) acc = fold traverse cs acc"

definition calculateBounds :: "GeoJsonFeature list \<Rightarrow> Bounds option" where
  "calculateBounds features =
     (case fold (\<lambda>f. traverse (coordinates f)) features None of
        None \<Rightarrow> None
      | Some (minLon', maxLon', minLat', maxLat') \<Rightarrow>
          (let width' = maxLon' - minLon'; height' = maxLat' - minLat'
           in Some \<lparr> minLon = minLon', maxLon = maxLon', minLat = minLat', maxLat = maxLat',
                      width = width', height = height',
                      centerX = minLon' + width' / 2, centerY = minLat' + height' / 2 \<rparr>))"

text \<open>
  \<^verbatim>\<open>
  const calculateFeatureCenter = (f) => {
      const b = calculateBounds([f]);
      return b ? [b.centerX, b.centerY] : null;
  };
  \<close>
\<close>

definition calculateFeatureCenter :: "GeoJsonFeature \<Rightarrow> position option" where
  "calculateFeatureCenter f =
     (case calculateBounds [f] of Some b \<Rightarrow> Some (centerX b, centerY b) | None \<Rightarrow> None)"



section \<open>Strings\<close>

text \<open>
  A JavaScript string is the list of its UTF-16 code units; \<open>lit\<close> embeds an ASCII
  literal. White space is the set that both \<^verbatim>\<open>String.prototype.trim\<close> and the regular
  expression class \<^verbatim>\<open>\s\<close> use. \<^verbatim>\<open>toLowerCase\<close> follows the Unicode case tables and is
  not modelled: the functions that call it take it as the parameter \<open>lc\<close>, and
  \<open>asciiLower\<close> (lower case on A to Z only) is the instance used for concrete inputs.
\<close>

type_synonym jsstring = "nat list"

definition lit :: "string \<Rightarrow> jsstring" where
  "lit s = map of_char s"

definition isWhiteSpace :: "nat \<Rightarrow> bool" where
  "isWhiteSpace c \<longleftrightarrow>
     c \<in> {0x09, 0x0A, 0x0B, 0x0C, 0x0D, 0x20, 0xA0, 0x1680, 0x2028, 0x2029, 0x202F, 0x205F,
          0x3000, 0xFEFF}
     \<or> (0x2000 \<le> c \<and> c \<le> 0x200A)"

definition trim :: "jsstring \<Rightarrow> jsstring" where
  "trim s = rev (dropWhile isWhiteSpace (rev (dropWhile isWhiteSpace s)))"

text \<open>\<^verbatim>\<open>s.replace(/\s+/g, " ")\<close>: every maximal run of white space becomes one space.\<close>

function collapseSpaces :: "jsstring \<Rightarrow> jsstring" where
  "collapseSpaces [] = []"
| "collapseSpaces (c # cs) =
     (if isWhiteSpace c then 0x20 # collapseSpaces (dropWhile isWhiteSpace cs)
      else c # collapseSpaces cs)"
  by pat_completeness auto
termination
  by (relation "measure length") (auto simp: length_dropWhile_le less_Suc_eq_le)

text \<open>
  \<^verbatim>\<open>s.split(/\s+/)\<close>: the pieces between the maximal runs of white space, with an empty
  piece before a leading run and after a trailing one.
\<close>

function splitSpaces :: "jsstring \<Rightarrow> jsstring list" where
  "splitSpaces s =
     (let piece = takeWhile (\<lambda>c. \<not> isWhiteSpace c) s;
          rest = dropWhile (\<lambda>c. \<not> isWhiteSpace c) s
      in if rest = [] then [piece] else piece # splitSpaces (dropWhile isWhiteSpace rest))"
  by pat_completeness auto
termination
proof (relation "measure length")
  fix s piece rest :: jsstring
  assume rest: "rest = dropWhile (\<lambda>c. \<not> isWhiteSpace c) s" and ne: "rest \<noteq> []"
  from ne obtain c cs where cs: "rest = c # cs" by (cases rest) auto
  have "isWhiteSpace c"
    using hd_dropWhile [of "\<lambda>c. \<not> isWhiteSpace c" s] ne rest cs
    by (metis list.sel(1))
  then have "length (dropWhile isWhiteSpace rest) \<le> length cs"
    by (simp add: cs length_dropWhile_le)
  moreover have "length rest \<le> length s" by (simp add: rest length_dropWhile_le)
  ultimately show "(dropWhile isWhiteSpace rest, s) \<in> measure length" by (simp add: cs)
qed simp

text \<open>\<^verbatim>\<open>s.includes(t)\<close>: \<open>t\<close> occurs in \<open>s\<close> as a contiguous run.\<close>

fun includesStr :: "jsstring \<Rightarrow> jsstring \<Rightarrow> bool" where
  "includesStr [] t = (t = [])"
| "includesStr (c # cs) t = (prefix t (c # cs) \<or> includesStr cs t)"

definition asciiLower :: "jsstring \<Rightarrow> jsstring" where
  "asciiLower s = map (\<lambda>c. if 0x41 \<le> c \<and> c \<le> 0x5A then c + 0x20 else c) s"

text \<open>
  \<^verbatim>\<open>
  function normalizeLocationName(name: string): string {
      return name.toLowerCase().trim().replace(/\s+/g, " ");
  }
  \<close>
  Both route files define it, with the same text.
\<close>

definition normalizeLocationName :: "(jsstring \<Rightarrow> jsstring) \<Rightarrow> jsstring \<Rightarrow> jsstring" where
  "normalizeLocationName lc name = collapseSpaces (trim (lc name))"

section \<open>Place-name detection (POST /api/detect-location)\<close>

definition INDIAN_STATES :: "jsstring list" where
  "INDIAN_STATES = map lit
     [''Andhra Pradesh'', ''Arunachal Pradesh'', ''Assam'', ''Bihar'', ''Chhattisgarh'',
      ''Goa'', ''Gujarat'', ''Haryana'', ''Himachal Pradesh'', ''Jharkhand'', ''Karnataka'',
      ''Kerala'', ''Madhya Pradesh'', ''Maharashtra'', ''Manipur'', ''Meghalaya'', ''Mizoram'',
      ''Nagaland'', ''Odisha'', ''Punjab'', ''Rajasthan'', ''Sikkim'', ''Tamil Nadu'',
      ''Telangana'', ''Tripura'', ''Uttar Pradesh'', ''Uttarakhand'', ''West Bengal'',
      ''Andaman and Nicobar Islands'', ''Chandigarh'',
      ''Dadra and Nagar Haveli and Daman and Diu'',
      ''Delhi'', ''Jammu and Kashmir'', ''Ladakh'', ''Lakshadweep'', ''Puducherry'']"

text \<open>The object literal, as its entries in insertion order (\<^verbatim>\<open>Object.entries\<close>).\<close>

definition MAJOR_DISTRICTS :: "(jsstring \<times> jsstring) list" where
  "MAJOR_DISTRICTS = map (\<lambda>(d, s). (lit d, lit s))
     [(''Ahmedabad'', ''Gujarat''), (''Surat'', ''Gujarat''), (''Vadodara'', ''Gujarat''),
      (''Rajkot'', ''Gujarat''), (''Mumbai'', ''Maharashtra''), (''Pune'', ''Maharashtra''),
      (''Nagpur'', ''Maharashtra''), (''Bangalore'', ''Karnataka''),
      (''Bengaluru'', ''Karnataka''), (''Chennai'', ''Tamil Nadu''),
      (''Hyderabad'', ''Telangana''), (''Kolkata'', ''West Bengal''),
      (''Jaipur'', ''Rajasthan''), (''Lucknow'', ''Uttar Pradesh''), (''Patna'', ''Bihar''),
      (''Bhopal'', ''Madhya Pradesh''), (''Indore'', ''Madhya Pradesh''),
      (''Thiruvananthapuram'', ''Kerala''), (''Kochi'', ''Kerala''),
      (''Visakhapatnam'', ''Andhra Pradesh''), (''Guwahati'', ''Assam''),
      (''Bhubaneswar'', ''Odisha''), (''Raipur'', ''Chhattisgarh''), (''Ranchi'', ''Jharkhand''),
      (''Dehradun'', ''Uttarakhand''), (''Shimla'', ''Himachal Pradesh''),
      (''Srinagar'', ''Jammu and Kashmir''), (''Jammu'', ''Jammu and Kashmir''),
      (''Leh'', ''Ladakh'')]"

datatype loctype = Country | State | District

record DetectedLocation =
  ltype :: loctype
  name :: jsstring
  stateName :: "jsstring option"

text \<open>
  \<^verbatim>\<open>findDistrictInGeoJson\<close> reads \<^verbatim>\<open>output.geojson\<close> and returns the first feature's
  \<^verbatim>\<open>dtname\<close> whose normalised form is the normalised argument; a missing file and any
  exception give \<^verbatim>\<open>null\<close>. The file is the parameter \<open>dtnames\<close>: \<open>None\<close> when it is
  missing or unreadable, otherwise the \<^verbatim>\<open>properties?.dtname || ""\<close> of each feature, in
  the order of \<^verbatim>\<open>data.features || []\<close>.
\<close>

definition findDistrictInGeoJson ::
    "(jsstring \<Rightarrow> jsstring) \<Rightarrow> jsstring list option \<Rightarrow> jsstring \<Rightarrow> jsstring option" where
  "findDistrictInGeoJson lc dtnames districtName =
     (case dtnames of
        None \<Rightarrow> None
      | Some names \<Rightarrow>
          (let normalizedDistrict = normalizeLocationName lc districtName
           in find (\<lambda>dtname. normalizeLocationName lc dtname = normalizedDistrict) names))"

text \<open>The body of the loop over the words of the text (\<^verbatim>\<open>for (const word of words)\<close>).\<close>

definition wordStep ::
    "(jsstring \<Rightarrow> jsstring) \<Rightarrow> jsstring list option \<Rightarrow> jsstring \<Rightarrow> jsstring
      \<Rightarrow> DetectedLocation list \<Rightarrow> DetectedLocation list" where
  "wordStep lc dtnames normalizedText word foundLocations =
     (if length word > 2 then
        (case findDistrictInGeoJson lc dtnames word of
           None \<Rightarrow> foundLocations
         | Some foundName \<Rightarrow>
             if \<exists>l \<in> set foundLocations.
                  ltype l = District
                  \<and> normalizeLocationName lc (name l) = normalizeLocationName lc foundName
             then foundLocations
             else
               (let stateName1 = find (\<lambda>state. includesStr normalizedText (lc state)) INDIAN_STATES;
                    stateName2 =
                      (case stateName1 of
                         Some s \<Rightarrow> Some s
                       | None \<Rightarrow>
                           map_option snd
                             (find (\<lambda>(dist, state). normalizeLocationName lc dist
                                       = normalizeLocationName lc foundName) MAJOR_DISTRICTS))
                in foundLocations
                     @ [\<lparr>ltype = District, name = foundName, stateName = stateName2\<rparr>]))
      else foundLocations)"

text \<open>The body of the loop over \<^verbatim>\<open>INDIAN_STATES\<close> that adds the states.\<close>

definition stateStep ::
    "(jsstring \<Rightarrow> jsstring) \<Rightarrow> jsstring \<Rightarrow> jsstring
      \<Rightarrow> DetectedLocation list \<Rightarrow> DetectedLocation list" where
  "stateStep lc normalizedText state foundLocations =
     (if includesStr normalizedText (lc state)
         \<and> \<not> (\<exists>l \<in> set foundLocations.
                 ltype l = State
                 \<and> normalizeLocationName lc (name l) = normalizeLocationName lc state)
      then foundLocations @ [\<lparr>ltype = State, name = state, stateName = None\<rparr>]
      else foundLocations)"

definition detectLocations ::
    "(jsstring \<Rightarrow> jsstring) \<Rightarrow> jsstring list option \<Rightarrow> jsstring \<Rightarrow> DetectedLocation list" where
  "detectLocations lc dtnames text =
     (let normalizedText = lc text;
          found0 =
            (if includesStr normalizedText (lit ''india'')
                \<and> \<not> (\<exists>state \<in> set INDIAN_STATES. includesStr normalizedText (lc state))
             then [\<lparr>ltype = Country, name = lit ''India'', stateName = None\<rparr>] else []);
          found1 = found0
            @ map (\<lambda>(district, state). \<lparr>ltype = District, name = district, stateName = Some state\<rparr>)
                (filter (\<lambda>(district, state). includesStr normalizedText (lc district)) MAJOR_DISTRICTS);
          found2 = fold (wordStep lc dtnames normalizedText) (splitSpaces text) found1
      in fold (stateStep lc normalizedText) INDIAN_STATES found2)"

text \<open>
  The de-duplication through a \<^verbatim>\<open>Map\<close>, which keeps its keys in insertion order: the key
  is \<^verbatim>\<open>`${loc.type}-${normalizeLocationName(loc.name)}`\<close> and the first location of a key
  wins.
\<close>

definition typeName :: "loctype \<Rightarrow> jsstring" where
  "typeName t = (case t of Country \<Rightarrow> lit ''country'' | State \<Rightarrow> lit ''state''
                 | District \<Rightarrow> lit ''district'')"

definition locationKey :: "(jsstring \<Rightarrow> jsstring) \<Rightarrow> DetectedLocation \<Rightarrow> jsstring" where
  "locationKey lc loc = typeName (ltype loc) @ lit ''-'' @ normalizeLocationName lc (name loc)"

definition uniqueStep ::
    "(jsstring \<Rightarrow> jsstring) \<Rightarrow> DetectedLocation
      \<Rightarrow> (jsstring \<times> DetectedLocation) list \<Rightarrow> (jsstring \<times> DetectedLocation) list" where
  "uniqueStep lc loc m =
     (let key = locationKey lc loc
      in if key \<in> set (map fst m) then m else m @ [(key, loc)])"

definition uniqueLocationsMap ::
    "(jsstring \<Rightarrow> jsstring) \<Rightarrow> DetectedLocation list \<Rightarrow> (jsstring \<times> DetectedLocation) list" where
  "uniqueLocationsMap lc foundLocations = fold (uniqueStep lc) foundLocations []"

text \<open>
  The request body: \<open>BodyThrows\<close> when \<^verbatim>\<open>request.json()\<close> rejects or the body has no
  fields to read, otherwise its \<^verbatim>\<open>text\<close> field, \<open>None\<close> when that is absent or not a
  string. Every response carries \<^verbatim>\<open>location\<close> and \<^verbatim>\<open>locations\<close>.
\<close>

datatype requestBody = BodyThrows | TextField "jsstring option"

record detectResponse =
  status :: nat
  location :: "DetectedLocation option"
  locations :: "DetectedLocation list"

definition POST ::
    "(jsstring \<Rightarrow> jsstring) \<Rightarrow> jsstring list option \<Rightarrow> requestBody \<Rightarrow> detectResponse" where
  "POST lc dtnames body =
     (case body of
        BodyThrows \<Rightarrow> \<lparr>status = 500, location = None, locations = []\<rparr>
      | TextField None \<Rightarrow> \<lparr>status = 400, location = None, locations = []\<rparr>
      | TextField (Some text) \<Rightarrow>
          if text = [] then \<lparr>status = 400, location = None, locations = []\<rparr>
          else
            (let foundLocations = detectLocations lc dtnames text;
                 uniqueLocations = map snd (uniqueLocationsMap lc foundLocations)
             in \<lparr>status = 200,
                  location = (if length uniqueLocations > 0 then Some (uniqueLocations ! 0) else None),
                  locations = uniqueLocations\<rparr>))"

section \<open>Outlines (GET /api/geojson)\<close>

subsection \<open>GeoJSON as the route reads it\<close>

text \<open>
  A ring is an array of coordinates and a coordinate an array of numbers (the route
  itself checks that it has two). A geometry has the rings of a polygon, the polygons of a
  multi-polygon, or another type; a feature without \<^verbatim>\<open>geometry\<close> or without
  \<^verbatim>\<open>coordinates\<close> has \<open>None\<close>. The properties of a feature are its string-valued
  properties by name, and a file or response body is an object whose \<^verbatim>\<open>features\<close> may
  be absent.
\<close>

type_synonym coord = "real list"

datatype geometry =
    Polygon "coord list list"
  | MultiPolygon "coord list list list"
  | OtherGeometry

record feature =
  geometry :: "geometry option"
  properties :: "(string \<times> jsstring) list"

record geojson =
  features :: "feature list option"

text \<open>
  \<^verbatim>\<open>
  function calculateFeatureCentroid(feature: any): [number, number] | null {
      if (!feature?.geometry?.coordinates) return null;
      let allCoords: number[][] = [];
      const coords = feature.geometry.coordinates;
      if (feature.geometry.type === "Polygon") {
          if (Array.isArray(coords) && Array.isArray(coords[0])) {
              allCoords = coords[0].filter(
                  (coord: any) => Array.isArray(coord) && coord.length >= 2
                                  && typeof coord[0] === "number");
          }
      } else if (feature.geometry.type === "MultiPolygon") {
          coords.forEach((polygon: any) => {
              if (Array.isArray(polygon) && Array.isArray(polygon[0])) {
                  polygon[0].forEach((coord: any) => {
                      if (Array.isArray(coord) && coord.length >= 2
                          && typeof coord[0] === "number") { allCoords.push(coord); }
                  });
              }
          });
      }
      if (allCoords.length === 0) return null;
      const sumLon = allCoords.reduce((sum, coord) => sum + coord[0], 0);
      const sumLat = allCoords.reduce((sum, coord) => sum + coord[1], 0);
      return [sumLon / allCoords.length, sumLat / allCoords.length];
  }
  \<close>
\<close>

definition calculateFeatureCentroid :: "feature \<Rightarrow> (real \<times> real) option" where
  "calculateFeatureCentroid f =
     (case geometry f of
        None \<Rightarrow> None
      | Some g \<Rightarrow>
          (let allCoords =
                 (case g of
                    Polygon coords \<Rightarrow>
                      (case coords of [] \<Rightarrow> [] | ring # _ \<Rightarrow> filter (\<lambda>coord. length coord \<ge> 2) ring)
                  | MultiPolygon coords \<Rightarrow>
                      fold (\<lambda>polygon acc.
                              case polygon of
                                [] \<Rightarrow> acc
                              | ring # _ \<Rightarrow> acc @ filter (\<lambda>coord. length coord \<ge> 2) ring)
                           coords []
                  | OtherGeometry \<Rightarrow> [])
           in if length allCoords = 0 then None
              else
                (let sumLon = fold (\<lambda>coord sum'. sum' + coord ! 0) allCoords 0;
                     sumLat = fold (\<lambda>coord sum'. sum' + coord ! 1) allCoords 0
                 in Some (sumLon / real (length allCoords), sumLat / real (length allCoords)))))"

text \<open>
  \<^verbatim>\<open>
  function isPointInPolygon(point: [number, number], polygon: number[][]): boolean {
      const [x, y] = point;
      let inside = false;
      for (let i = 0, j = polygon.length - 1; i < polygon.length; j = i++) {
          const [xi, yi] = polygon[i];
          const [xj, yj] = polygon[j];
          const intersect = ((yi > y) !== (yj > y))
                            && (x < (xj - xi) * (y - yi) / (yj - yi) + xi);
          if (intersect) inside = !inside;
      }
      return inside;
  }
  \<close>
  \<open>intersect\<close> is the test of one iteration. A coordinate with fewer than two numbers
  leaves \<open>yi\<close> or \<open>yj\<close> undefined; then a comparison with it is false and the
  quotient is \<^verbatim>\<open>NaN\<close>, so the test is false. The division happens only when the first
  conjunct holds, that is when \<open>yi \<noteq> yj\<close>.
\<close>

definition intersect :: "real \<times> real \<Rightarrow> coord \<Rightarrow> coord \<Rightarrow> bool" where
  "intersect point ci cj =
     (case (point, ci, cj) of
        ((x, y), xi # yi # _, xj # yj # _) \<Rightarrow>
          (if (yi > y) \<noteq> (yj > y) then x < (xj - xi) * (y - yi) / (yj - yi) + xi else False)
      | _ \<Rightarrow> False)"

text \<open>The pairs \<open>(i, j)\<close> that the loop header runs through.\<close>

definition loopIndices :: "nat \<Rightarrow> (nat \<times> nat) list" where
  "loopIndices n = (if n = 0 then [] else zip [0..<n] ((n - 1) # [0..<n - 1]))"

definition isPointInPolygon :: "real \<times> real \<Rightarrow> coord list \<Rightarrow> bool" where
  "isPointInPolygon point polygon =
     fold (\<lambda>(i, j) inside. if intersect point (polygon ! i) (polygon ! j) then \<not> inside else inside)
          (loopIndices (length polygon)) False"

text \<open>
  \<^verbatim>\<open>
  function isPointInFeature(point: [number, number], feature: any): boolean {
      if (!feature?.geometry?.coordinates) return false;
      const coords = feature.geometry.coordinates;
      if (feature.geometry.type === "Polygon") {
          if (Array.isArray(coords) && Array.isArray(coords[0])) {
              return isPointInPolygon(point, coords[0]);
          }
      } else if (feature.geometry.type === "MultiPolygon") {
          for (const polygon of coords) {
              if (Array.isArray(polygon) && Array.isArray(polygon[0])) {
                  if (isPointInPolygon(point, polygon[0])) { return true; }
              }
          }
      }
      return false;
  }
  \<close>
\<close>

definition isPointInFeature :: "real \<times> real \<Rightarrow> feature \<Rightarrow> bool" where
  "isPointInFeature point f =
     (case geometry f of
        None \<Rightarrow> False
      | Some (Polygon coords) \<Rightarrow>
          (case coords of [] \<Rightarrow> False | ring # _ \<Rightarrow> isPointInPolygon point ring)
      | Some (MultiPolygon coords) \<Rightarrow>
          list_ex (\<lambda>polygon. case polygon of [] \<Rightarrow> False
                              | ring # _ \<Rightarrow> isPointInPolygon point ring) coords
      | Some OtherGeometry \<Rightarrow> False)"

subsection \<open>The handler\<close>

text \<open>
  What the handler reads from outside is its input: the three query parameters
  (\<open>None\<close> for one that is not given), the local files, and the answer of the one
  \<^verbatim>\<open>fetch\<close> of the states of India. A file is missing, or reading and parsing it
  throws, or it parses to an object; the fetch rejects, or answers with a status that is
  not ok, or with a body that does not parse, or with an object.
\<close>

record request =
  state :: "jsstring option"
  district :: "jsstring option"
  allstates :: "jsstring option"

datatype fileResult = Missing | ReadThrows | Parsed geojson

datatype fetchResult = Rejected | NotOk | JsonThrows | OkJson geojson

record env =
  localState :: "jsstring \<Rightarrow> fileResult"
  localDistrict :: "jsstring \<Rightarrow> fileResult"
  outputGeoJson :: fileResult
  remoteStates :: fetchResult

record geoResponse =
  httpStatus :: nat
  geoJson :: "geojson option"
  districtsGeoJson :: "geojson option"
  error :: "jsstring option"

text \<open>A string parameter is truthy when it is given and not empty.\<close>

definition truthy :: "jsstring option \<Rightarrow> bool" where
  "truthy s = (case s of None \<Rightarrow> False | Some v \<Rightarrow> v \<noteq> [])"

text \<open>\<^verbatim>\<open>feature.properties?.k\<close>, with the empty string for a property that is absent.\<close>

definition property :: "feature \<Rightarrow> string \<Rightarrow> jsstring" where
  "property f k = (case map_of (properties f) k of None \<Rightarrow> [] | Some v \<Rightarrow> v)"

text \<open>
  \<^verbatim>\<open>p.dtname || p.NAME_2 || p.DISTRICT || p.District || ""\<close>: the first that is not empty.
\<close>

definition districtFeatureName :: "feature \<Rightarrow> jsstring" where
  "districtFeatureName f =
     (if property f ''dtname'' \<noteq> [] then property f ''dtname''
      else if property f ''NAME_2'' \<noteq> [] then property f ''NAME_2''
      else if property f ''DISTRICT'' \<noteq> [] then property f ''DISTRICT''
      else if property f ''District'' \<noteq> [] then property f ''District''
      else [])"

text \<open>
  Lines 120 to 197 of the handler: the outline from the local file, or else from
  \<^verbatim>\<open>output.geojson\<close> (a district) or from the fetched states (a state). \<open>Threw\<close> is an
  exception that reaches the outer \<^verbatim>\<open>catch\<close>: only the read of the local file is outside
  an inner \<^verbatim>\<open>try\<close>. \<open>Resolved None\<close> is \<^verbatim>\<open>geoJsonData\<close> still \<^verbatim>\<open>null\<close>.
\<close>

datatype outline = Threw | Resolved "geojson option"

definition fromOutputGeoJson :: "(jsstring \<Rightarrow> jsstring) \<Rightarrow> env \<Rightarrow> jsstring \<Rightarrow> geojson option" where
  "fromOutputGeoJson lc e districtName =
     (case outputGeoJson e of
        Parsed allDistricts \<Rightarrow>
          (case features allDistricts of
             None \<Rightarrow> None
           | Some fs \<Rightarrow>
               (let normalizedDistrict = normalizeLocationName lc districtName;
                    matchingFeatures =
                      filter (\<lambda>f. normalizeLocationName lc (districtFeatureName f)
                                   = normalizedDistrict) fs
                in if length matchingFeatures > 0
                   then Some \<lparr>features = Some matchingFeatures\<rparr> else None))
      | _ \<Rightarrow> None)"

definition fromRemoteStates :: "(jsstring \<Rightarrow> jsstring) \<Rightarrow> env \<Rightarrow> jsstring \<Rightarrow> geojson option" where
  "fromRemoteStates lc e stateName' =
     (case remoteStates e of
        OkJson allStates \<Rightarrow>
          (case features allStates of
             None \<Rightarrow> None
           | Some fs \<Rightarrow>
               (let normalizedState = normalizeLocationName lc stateName';
                    matchingFeatures =
                      filter (\<lambda>f. normalizeLocationName lc (property f ''NAME_1'') = normalizedState) fs
                in if length matchingFeatures > 0
                   then Some \<lparr>features = Some matchingFeatures\<rparr> else None))
      | _ \<Rightarrow> None)"

definition resolveOutline :: "(jsstring \<Rightarrow> jsstring) \<Rightarrow> env \<Rightarrow> request \<Rightarrow> outline" where
  "resolveOutline lc e req =
     (let localFile =
            (if truthy (district req) then localDistrict e (the (district req))
             else if truthy (state req) then localState e (the (state req))
             else Missing)
      in case localFile of
           ReadThrows \<Rightarrow> Threw
         | Parsed g \<Rightarrow> Resolved (Some g)
         | Missing \<Rightarrow>
             (let fromDistricts =
                    (if truthy (district req) then fromOutputGeoJson lc e (the (district req))
                     else None)
              in case fromDistricts of
                   Some g \<Rightarrow> Resolved (Some g)
                 | None \<Rightarrow>
                     if truthy (state req) then Resolved (fromRemoteStates lc e (the (state req)))
                     else Resolved None))"

text \<open>
  Lines 199 to 233: the districts of a state, from \<^verbatim>\<open>output.geojson\<close>. Every failure
  inside is caught and leaves \<^verbatim>\<open>districtsGeoJsonData\<close> \<^verbatim>\<open>null\<close>.
\<close>

definition loadDistricts :: "env \<Rightarrow> geojson \<Rightarrow> geojson option" where
  "loadDistricts e geoJsonData =
     (case outputGeoJson e of
        Parsed allDistricts \<Rightarrow>
          (case (features allDistricts, features geoJsonData) of
             (Some districtFeatures, Some stateFeatures) \<Rightarrow>
               if length districtFeatures > 0 then
                 (let matchingDistrictFeatures =
                        filter (\<lambda>districtFeature.
                                  case calculateFeatureCentroid districtFeature of
                                    None \<Rightarrow> False
                                  | Some districtCentroid \<Rightarrow>
                                      list_ex (isPointInFeature districtCentroid) stateFeatures)
                               districtFeatures
                  in if length matchingDistrictFeatures > 0
                     then Some \<lparr>features = Some matchingDistrictFeatures\<rparr> else None)
               else None
           | _ \<Rightarrow> None)
      | _ \<Rightarrow> None)"

definition GET :: "(jsstring \<Rightarrow> jsstring) \<Rightarrow> env \<Rightarrow> request \<Rightarrow> geoResponse" where
  "GET lc e req =
     (if allstates req = Some (lit ''true'') then
        (case remoteStates e of
           OkJson allStatesData \<Rightarrow>
             \<lparr>httpStatus = 200, geoJson = Some allStatesData, districtsGeoJson = None,
              error = None\<rparr>
         | _ \<Rightarrow>
             \<lparr>httpStatus = 500, geoJson = None, districtsGeoJson = None,
              error = Some (lit ''Failed to load India map data'')\<rparr>)
      else if \<not> truthy (state req) \<and> \<not> truthy (district req) then
        \<lparr>httpStatus = 400, geoJson = None, districtsGeoJson = None,
         error = Some (lit ''State or district name is required'')\<rparr>
      else
        (case resolveOutline lc e req of
           Threw \<Rightarrow>
             \<lparr>httpStatus = 500, geoJson = None, districtsGeoJson = None,
              error = Some (lit ''Internal server error'')\<rparr>
         | Resolved None \<Rightarrow>
             \<lparr>httpStatus = 404, geoJson = None, districtsGeoJson = None,
              error = Some (lit ''Location outline not found'')\<rparr>
         | Resolved (Some geoJsonData) \<Rightarrow>
             (let districtsGeoJsonData =
                    (if truthy (state req) \<and> \<not> truthy (district req)
                     then loadDistricts e geoJsonData else None)
              in \<lparr>httpStatus = 200, geoJson = Some geoJsonData,
                  districtsGeoJson = districtsGeoJsonData, error = None\<rparr>)))"

subsection \<open>Containment, as the specification words it\<close>

text \<open>
  The outer ring of each polygon of a geometry; the vertices of a feature, which are the
  coordinate pairs of its outer rings; the centroid, their arithmetic mean; and the
  even-odd rule: a point is inside a ring when the ray from it towards greater \<open>x\<close>
  crosses an odd number of the ring's edges, an edge joining each vertex to the one before
  it (the first to the last).
\<close>

definition outerRings :: "feature \<Rightarrow> coord list list" where
  "outerRings f =
     (case geometry f of
        Some (Polygon coords) \<Rightarrow> take 1 coords
      | Some (MultiPolygon coords) \<Rightarrow> concat (map (take 1) coords)
      | _ \<Rightarrow> [])"

definition vertices :: "feature \<Rightarrow> coord list" where
  "vertices f = filter (\<lambda>c. length c \<ge> 2) (concat (outerRings f))"

definition centroid :: "feature \<Rightarrow> (real \<times> real) option" where
  "centroid f =
     (if vertices f = [] then None
      else Some (sum_list (map (\<lambda>c. c ! 0) (vertices f)) / real (length (vertices f)),
                 sum_list (map (\<lambda>c. c ! 1) (vertices f)) / real (length (vertices f))))"

definition edges :: "coord list \<Rightarrow> (coord \<times> coord) list" where
  "edges ring = (if ring = [] then [] else zip ring (last ring # butlast ring))"

definition crossings :: "real \<times> real \<Rightarrow> coord list \<Rightarrow> nat" where
  "crossings p ring = length (filter (\<lambda>(ci, cj). intersect p ci cj) (edges ring))"

definition insideEvenOdd :: "real \<times> real \<Rightarrow> feature \<Rightarrow> bool" where
  "insideEvenOdd p f = list_ex (\<lambda>ring. odd (crossings p ring)) (outerRings f)"

definition centroidInState :: "feature list \<Rightarrow> feature \<Rightarrow> bool" where
  "centroidInState stateFeatures d =
     (case centroid d of
        None \<Rightarrow> False
      | Some c \<Rightarrow> list_ex (insideEvenOdd c) stateFeatures)"

text \<open>The features of a file, none when the field is absent.\<close>

definition featureList :: "geojson \<Rightarrow> feature list" where
  "featureList g = (case features g of None \<Rightarrow> [] | Some fs \<Rightarrow> fs)"

section \<open>Chat transcript (chat page)\<close>

text \<open>
  The state that \<^verbatim>\<open>sendMessage\<close> reads and writes, and what one call receives from
  outside: the clock, the answer of the \<^verbatim>\<open>fetch\<close> of \<^verbatim>\<open>${apiUrl}/query\<close>, and the answer
  of the \<^verbatim>\<open>fetch\<close> of \<^verbatim>\<open>/api/detect-location\<close>. The values of \<^verbatim>\<open>data\<close> and \<^verbatim>\<open>chart\<close>
  are of any type \<open>'a\<close>. An \<^verbatim>\<open>id\<close> is the decimal text of a time and is kept as the
  number. The requests that a call sends are returned with the new state. One call runs
  from its start to its end: other handlers that could run while it awaits an answer are
  not part of the model.
\<close>

datatype role = User | Assistant

record 'a Message =
  mid :: int
  mrole :: role
  content :: jsstring
  mdata :: "'a option"
  chart :: "'a option"
  locationInfo :: "DetectedLocation option"
  mlocations :: "DetectedLocation list option"
  timestamp :: int

record 'a ApiResponse =
  response :: jsstring
  rdata :: "'a option"
  rchart :: "'a option"

text \<open>
  The query: the fetch rejects, or the status is not ok (\<open>HttpError\<close>), or the body does
  not parse, or it is the object of the answer. The detection: anything that sets
  neither variable (\<open>DetectFailed\<close>), or an ok answer with its \<^verbatim>\<open>location\<close> and its
  \<^verbatim>\<open>locations\<close> array, each possibly absent.
\<close>

datatype 'a queryResult = FetchRejected | HttpError nat | JsonRejected | QueryOk "'a ApiResponse"

datatype detectResult =
    DetectFailed
  | DetectOk "DetectedLocation option" "DetectedLocation list option"

record 'a sendIO =
  nowUser :: int
  queryAnswer :: "'a queryResult"
  detectAnswer :: detectResult
  nowAssistant :: int

datatype httpRequest =
    PostQuery jsstring jsstring "real option" "real option"
  | PostDetectLocation jsstring

record 'a chat =
  messages :: "'a Message list"
  input :: jsstring
  isLoading :: bool
  latitude :: "real option"
  longitude :: "real option"
  apiUrl :: jsstring

definition apology :: jsstring where
  "apology = lit (''Sorry, I encountered an error while processing your request. ''
                  @ ''Please make sure the backend API is running and accessible.'')"

text \<open>\<^verbatim>\<open>const textToSend = messageText || input;\<close>\<close>

definition textToSend :: "jsstring option \<Rightarrow> 'a chat \<Rightarrow> jsstring" where
  "textToSend messageText st =
     (case messageText of
        None \<Rightarrow> input st
      | Some t \<Rightarrow> if t \<noteq> [] then t else input st)"

text \<open>
  \<^verbatim>\<open>
  const sendMessage = async (messageText?: string) => {
      const textToSend = messageText || input;
      if (!textToSend.trim() || isLoading) return;
      const userMessage = { id: Date.now().toString(), role: "user", content: textToSend,
                            timestamp: new Date() };
      setMessages((prev) => [...prev, userMessage]);
      setInput("");
      setIsLoading(true);
      try {
          const response = await fetch(`${apiUrl}/query`, { method: "POST", ...,
              body: JSON.stringify({ question: textToSend,
                                     latitude: latitude ?? undefined,
                                     longitude: longitude ?? undefined }) });
          if (!response.ok) { throw new Error(`HTTP error! status: ${response.status}`); }
          const data: ApiResponse = await response.json();
          let locationInfo, locations;
          try {
              const detectResponse = await fetch("/api/detect-location", { method: "POST", ...,
                  body: JSON.stringify({ text: textToSend }) });
              if (detectResponse.ok) {
                  const detectData = await detectResponse.json();
                  if (detectData.location) { locationInfo = detectData.location; }
                  if (detectData.locations && Array.isArray(detectData.locations)) {
                      locations = detectData.locations; }
              }
          } catch (e) { console.error("Failed to detect location", e); }
          const assistantMessage = { id: (Date.now() + 1).toString(), role: "assistant",
              content: data.response, data: data.data, chart: data.chart,
              locationInfo, locations, timestamp: new Date() };
          setMessages((prev) => [...prev, assistantMessage]);
      } catch (error) {
          const errorMessage = { id: (Date.now() + 1).toString(), role: "assistant",
              content: "Sorry, I encountered an error ...", timestamp: new Date() };
          setMessages((prev) => [...prev, errorMessage]);
      } finally {
          setIsLoading(false);
      }
  };
  \<close>
\<close>

definition sendMessage ::
    "jsstring option \<Rightarrow> 'a sendIO \<Rightarrow> 'a chat \<Rightarrow> 'a chat \<times> httpRequest list" where
  "sendMessage messageText io st =
     (let text = textToSend messageText st
      in if trim text = [] \<or> isLoading st then (st, [])
         else
           (let userMessage =
                  \<lparr>mid = nowUser io, mrole = User, content = text, mdata = None, chart = None,
                   locationInfo = None, mlocations = None, timestamp = nowUser io\<rparr>;
                st1 = st\<lparr>messages := messages st @ [userMessage], input := [],
                         isLoading := True\<rparr>;
                query = PostQuery (apiUrl st @ lit ''/query'') text (latitude st) (longitude st)
            in case queryAnswer io of
                 QueryOk data \<Rightarrow>
                   (let (locationInfo', locations') =
                          (case detectAnswer io of
                             DetectFailed \<Rightarrow> (None, None)
                           | DetectOk loc locs \<Rightarrow> (loc, locs));
                        assistantMessage =
                          \<lparr>mid = nowAssistant io + 1, mrole = Assistant, content = response data,
                           mdata = rdata data, chart = rchart data,
                           locationInfo = locationInfo', mlocations = locations',
                           timestamp = nowAssistant io\<rparr>
                    in (st1\<lparr>messages := messages st1 @ [assistantMessage], isLoading := False\<rparr>,
                        [query, PostDetectLocation text]))
               | _ \<Rightarrow>
                   (let errorMessage =
                          \<lparr>mid = nowAssistant io + 1, mrole = Assistant, content = apology,
                           mdata = None, chart = None, locationInfo = None, mlocations = None,
                           timestamp = nowAssistant io\<rparr>
                    in (st1\<lparr>messages := messages st1 @ [errorMessage], isLoading := False\<rparr>,
                        [query]))))"

section \<open>Hover and zoom (InteractiveMap component)\<close>

subsection \<open>State\<close>

text \<open>
  The component's state variables and refs, with the part of the browser that its
  handlers talk to: the pending timeouts (handle, due time, callback), the pending
  animation frames, the counter that hands out handles (positive, as a ref is tested for
  truth before it is cleared), and the time of the last event. A feature is compared by
  identity (\<^verbatim>\<open>===\<close>), so features are values of any type \<open>'f\<close>. The view level has the
  three values of a location type. Of the loaded data the model keeps the two lists whose
  paths carry hover handlers.
\<close>

datatype LocationType = StateType | DistrictType

record 'f ZoomState =
  zfeature :: "'f option"
  ztype :: "LocationType option"
  progress :: real

datatype 'f timeoutCallback = DebounceCallback 'f LocationType | DwellCallback 'f LocationType

datatype frameCallback = Animate "LocationType option" | AnimateHover

record 'f comp =
  zoomedFeature :: "'f ZoomState"
  hoveredFeature :: "('f \<times> LocationType) option"
  viewLevel :: loctype
  hoverProgress :: real
  hoverTimeoutRef :: "nat option"
  debounceTimeoutRef :: "nat option"
  animationFrameRef :: "nat option"
  hoverAnimationRef :: "nat option"
  zoomStartTimeRef :: int
  currentHoveredRef :: "'f option \<times> LocationType option"
  hoverStartTimeRef :: int
  allStatesGeoJson :: "'f list option"
  districtsGeoJsonSt :: "'f list option"
  zoomCleanup :: bool
  timeouts :: "(nat \<times> int \<times> 'f timeoutCallback) list"
  frames :: "(nat \<times> frameCallback) list"
  nextHandle :: nat
  clock :: int

definition HOVER_DELAY :: int where "HOVER_DELAY = 2000"

definition DEBOUNCE_DELAY :: int where "DEBOUNCE_DELAY = 40"

subsection \<open>Timeouts and animation frames\<close>

definition setTimeout :: "'f timeoutCallback \<Rightarrow> int \<Rightarrow> int \<Rightarrow> 'f comp \<Rightarrow> nat \<times> 'f comp" where
  "setTimeout cb delay now s =
     (nextHandle s,
      s\<lparr>timeouts := timeouts s @ [(nextHandle s, now + delay, cb)],
        nextHandle := nextHandle s + 1\<rparr>)"

text \<open>\<^verbatim>\<open>if (ref.current) clearTimeout(ref.current)\<close>; a handle that is not pending is ignored.\<close>

definition clearTimeout :: "nat option \<Rightarrow> 'f comp \<Rightarrow> 'f comp" where
  "clearTimeout ref s =
     (case ref of
        None \<Rightarrow> s
      | Some h \<Rightarrow> s\<lparr>timeouts := filter (\<lambda>(i, _, _). i \<noteq> h) (timeouts s)\<rparr>)"

definition requestAnimationFrame :: "frameCallback \<Rightarrow> 'f comp \<Rightarrow> nat \<times> 'f comp" where
  "requestAnimationFrame cb s =
     (nextHandle s,
      s\<lparr>frames := frames s @ [(nextHandle s, cb)], nextHandle := nextHandle s + 1\<rparr>)"

definition cancelAnimationFrame :: "nat option \<Rightarrow> 'f comp \<Rightarrow> 'f comp" where
  "cancelAnimationFrame ref s =
     (case ref of
        None \<Rightarrow> s
      | Some h \<Rightarrow> s\<lparr>frames := filter (\<lambda>(i, _). i \<noteq> h) (frames s)\<rparr>)"

subsection \<open>The zoom animation\<close>

text \<open>
  \<^verbatim>\<open>
  const duration = 600;
  const animate = () => {
      const elapsed = Date.now() - zoomStartTimeRef.current;
      const rawProgress = Math.min(elapsed / duration, 1);
      const eased = rawProgress < 0.5
          ? 4 * rawProgress * rawProgress * rawProgress
          : 1 - Math.pow(-2 * rawProgress + 2, 3) / 2;
      setZoomedFeature(prev => ({ ...prev, progress: eased }));
      if (rawProgress < 1) {
          animationFrameRef.current = requestAnimationFrame(animate);
      } else {
          if (zoomedFeature.type === 'state') setViewLevel('state');
          else if (zoomedFeature.type === 'district') setViewLevel('district');
      }
  };
  \<close>
  \<open>zoomedFeature.type\<close> is the value that the closure captured when the effect ran.
\<close>

definition duration :: real where "duration = 600"

definition rawProgress :: "int \<Rightarrow> real" where
  "rawProgress elapsed = min (real_of_int elapsed / duration) 1"

definition eased :: "real \<Rightarrow> real" where
  "eased p = (if p < 0.5 then 4 * p * p * p else 1 - (- 2 * p + 2) ^ 3 / 2)"

definition animate :: "LocationType option \<Rightarrow> int \<Rightarrow> 'f comp \<Rightarrow> 'f comp" where
  "animate capturedType now s =
     (let elapsed = now - zoomStartTimeRef s;
          p = rawProgress elapsed;
          s1 = s\<lparr>zoomedFeature := (zoomedFeature s)\<lparr>progress := eased p\<rparr>\<rparr>
      in if p < 1 then
           (let (h, s2) = requestAnimationFrame (Animate capturedType) s1
            in s2\<lparr>animationFrameRef := Some h\<rparr>)
         else
           (case capturedType of
              Some StateType \<Rightarrow> s1\<lparr>viewLevel := State\<rparr>
            | Some DistrictType \<Rightarrow> s1\<lparr>viewLevel := District\<rparr>
            | None \<Rightarrow> s1))"

text \<open>
  The effect on \<^verbatim>\<open>[zoomedFeature.feature, zoomedFeature.type]\<close>. \<open>zoomEffect deps\<close> runs
  after a handler that started with the dependencies \<open>deps\<close>: when they have changed, the
  cleanup of the last run (if that run returned one) and then the body.
  \<^verbatim>\<open>
  useEffect(() => {
      if (zoomedFeature.feature && zoomedFeature.progress < 1) {
          if (zoomStartTimeRef.current === 0) { zoomStartTimeRef.current = Date.now(); }
          const duration = 600;
          const animate = ...;
          animationFrameRef.current = requestAnimationFrame(animate);
          return () => {
              if (animationFrameRef.current) cancelAnimationFrame(animationFrameRef.current);
          };
      } else if (!zoomedFeature.feature) {
          zoomStartTimeRef.current = 0;
      }
  }, [zoomedFeature.feature, zoomedFeature.type]);
  \<close>
\<close>

definition zoomDeps :: "'f comp \<Rightarrow> 'f option \<times> LocationType option" where
  "zoomDeps s = (zfeature (zoomedFeature s), ztype (zoomedFeature s))"

definition zoomEffect :: "'f option \<times> LocationType option \<Rightarrow> int \<Rightarrow> 'f comp \<Rightarrow> 'f comp" where
  "zoomEffect deps now s =
     (if zoomDeps s = deps then s
      else
        (let s1 = (if zoomCleanup s then cancelAnimationFrame (animationFrameRef s) s else s)
         in if zfeature (zoomedFeature s1) \<noteq> None \<and> progress (zoomedFeature s1) < 1 then
              (let s2 = (if zoomStartTimeRef s1 = 0 then s1\<lparr>zoomStartTimeRef := now\<rparr> else s1);
                   (h, s3) = requestAnimationFrame (Animate (ztype (zoomedFeature s2))) s2
               in s3\<lparr>animationFrameRef := Some h, zoomCleanup := True\<rparr>)
            else if zfeature (zoomedFeature s1) = None then
              s1\<lparr>zoomStartTimeRef := 0, zoomCleanup := False\<rparr>
            else s1\<lparr>zoomCleanup := False\<rparr>))"

subsection \<open>The hover handlers\<close>

text \<open>
  \<^verbatim>\<open>
  const handleFeatureHoverStart = useCallback((feature, type) => {
      if (debounceTimeoutRef.current) clearTimeout(debounceTimeoutRef.current);
      if (hoverTimeoutRef.current) clearTimeout(hoverTimeoutRef.current);
      if (hoverAnimationRef.current) cancelAnimationFrame(hoverAnimationRef.current);
      debounceTimeoutRef.current = setTimeout(() => {
          currentHoveredRef.current = { feature, type };
          hoverStartTimeRef.current = Date.now();
          setHoveredFeature({ feature, type });
          setHoverProgress(0);
          const animateHover = () => {
              const progress = Math.min((Date.now() - hoverStartTimeRef.current) / HOVER_DELAY, 1);
              setHoverProgress(progress);
              if (progress < 1) {
                  hoverAnimationRef.current = requestAnimationFrame(animateHover);
              }
          };
          hoverAnimationRef.current = requestAnimationFrame(animateHover);
          hoverTimeoutRef.current = setTimeout(() => {
              if (currentHoveredRef.current?.feature === feature) {
                  setZoomedFeature({ feature, type, progress: 0 });
                  setHoveredFeature(null);
                  setHoverProgress(0);
                  currentHoveredRef.current = { feature: null, type: null };
              }
          }, HOVER_DELAY);
      }, DEBOUNCE_DELAY);
  }, []);
  \<close>
  The handler, the callback of the debounce timeout, \<^verbatim>\<open>animateHover\<close>, and the callback
  of the dwell timeout are one function each.
\<close>

definition handleFeatureHoverStart :: "'f \<Rightarrow> LocationType \<Rightarrow> int \<Rightarrow> 'f comp \<Rightarrow> 'f comp" where
  "handleFeatureHoverStart f ty now s =
     (let s1 = clearTimeout (debounceTimeoutRef s) s;
          s2 = clearTimeout (hoverTimeoutRef s1) s1;
          s3 = cancelAnimationFrame (hoverAnimationRef s2) s2;
          (h, s4) = setTimeout (DebounceCallback f ty) DEBOUNCE_DELAY now s3
      in s4\<lparr>debounceTimeoutRef := Some h\<rparr>)"

definition debounceFired :: "'f \<Rightarrow> LocationType \<Rightarrow> int \<Rightarrow> 'f comp \<Rightarrow> 'f comp" where
  "debounceFired f ty now s =
     (let s1 = s\<lparr>currentHoveredRef := (Some f, Some ty), hoverStartTimeRef := now,
                 hoveredFeature := Some (f, ty), hoverProgress := 0\<rparr>;
          (a, s2) = requestAnimationFrame AnimateHover s1;
          s3 = s2\<lparr>hoverAnimationRef := Some a\<rparr>;
          (h, s4) = setTimeout (DwellCallback f ty) HOVER_DELAY now s3
      in s4\<lparr>hoverTimeoutRef := Some h\<rparr>)"

definition animateHover :: "int \<Rightarrow> 'f comp \<Rightarrow> 'f comp" where
  "animateHover now s =
     (let p = min (real_of_int (now - hoverStartTimeRef s) / real_of_int HOVER_DELAY) 1;
          s1 = s\<lparr>hoverProgress := p\<rparr>
      in if p < 1 then
           (let (a, s2) = requestAnimationFrame AnimateHover s1
            in s2\<lparr>hoverAnimationRef := Some a\<rparr>)
         else s1)"

definition dwellFired :: "'f \<Rightarrow> LocationType \<Rightarrow> int \<Rightarrow> 'f comp \<Rightarrow> 'f comp" where
  "dwellFired f ty now s =
     (if fst (currentHoveredRef s) = Some f then
        zoomEffect (zoomDeps s) now
          (s\<lparr>zoomedFeature := \<lparr>zfeature = Some f, ztype = Some ty, progress = 0\<rparr>,
             hoveredFeature := None, hoverProgress := 0,
             currentHoveredRef := (None, None)\<rparr>)
      else s)"

text \<open>
  \<^verbatim>\<open>
  const handleFeatureHoverEnd = useCallback(() => {
      if (debounceTimeoutRef.current) clearTimeout(debounceTimeoutRef.current);
      if (hoverTimeoutRef.current) clearTimeout(hoverTimeoutRef.current);
      if (hoverAnimationRef.current) cancelAnimationFrame(hoverAnimationRef.current);
      currentHoveredRef.current = { feature: null, type: null };
      setHoveredFeature(null);
      setHoverProgress(0);
  }, []);
  \<close>
\<close>

definition handleFeatureHoverEnd :: "'f comp \<Rightarrow> 'f comp" where
  "handleFeatureHoverEnd s =
     (let s1 = clearTimeout (debounceTimeoutRef s) s;
          s2 = clearTimeout (hoverTimeoutRef s1) s1;
          s3 = cancelAnimationFrame (hoverAnimationRef s2) s2
      in s3\<lparr>currentHoveredRef := (None, None), hoveredFeature := None, hoverProgress := 0\<rparr>)"

text \<open>
  \<^verbatim>\<open>
  const handleReset = useCallback(() => {
      if (hoverTimeoutRef.current) clearTimeout(hoverTimeoutRef.current);
      if (hoverAnimationRef.current) cancelAnimationFrame(hoverAnimationRef.current);
      setZoomedFeature({ feature: null, type: null, progress: 0 });
      setHoveredFeature(null);
      setHoverProgress(0);
      zoomStartTimeRef.current = 0;
      setViewLevel(location.type === "country" ? 'country' : 'state');
  }, [location.type]);
  \<close>
\<close>

definition handleReset :: "loctype \<Rightarrow> int \<Rightarrow> 'f comp \<Rightarrow> 'f comp" where
  "handleReset locationType now s =
     (let s1 = clearTimeout (hoverTimeoutRef s) s;
          s2 = cancelAnimationFrame (hoverAnimationRef s1) s1
      in zoomEffect (zoomDeps s) now
           (s2\<lparr>zoomedFeature := \<lparr>zfeature = None, ztype = None, progress = 0\<rparr>,
               hoveredFeature := None, hoverProgress := 0, zoomStartTimeRef := 0,
               viewLevel := (if locationType = Country then Country else State)\<rparr>))"

subsection \<open>What is rendered, and events\<close>

text \<open>
  The paths that carry \<^verbatim>\<open>onMouseEnter\<close>: those of the states of India in the India view
  (\<^verbatim>\<open>allStatesGeoJson && viewLevel === 'country' && !zoomedFeature.feature\<close>), and those
  of the districts when \<^verbatim>\<open>!isIndiaView && viewLevel === 'state'\<close>.
\<close>

definition isIndiaView :: "'f comp \<Rightarrow> bool" where
  "isIndiaView s \<longleftrightarrow>
     allStatesGeoJson s \<noteq> None \<and> viewLevel s = Country \<and> zfeature (zoomedFeature s) = None"

definition hoverRendered :: "'f comp \<Rightarrow> 'f \<Rightarrow> LocationType \<Rightarrow> bool" where
  "hoverRendered s f ty =
     (case ty of
        StateType \<Rightarrow>
          isIndiaView s \<and> (case allStatesGeoJson s of None \<Rightarrow> False | Some fs \<Rightarrow> f \<in> set fs)
      | DistrictType \<Rightarrow>
          \<not> isIndiaView s \<and> viewLevel s = State
          \<and> (case districtsGeoJsonSt s of None \<Rightarrow> False | Some fs \<Rightarrow> f \<in> set fs))"

text \<open>
  An event is what the browser delivers, at a time: the pointer enters a path that is
  rendered, the pointer leaves a path, a pending timeout whose time has come fires, a
  pending animation frame fires, the reset button is activated. \<open>step\<close> is \<open>None\<close> for
  an event that cannot happen in the state. A timeout may fire later than it is due,
  never earlier. The effect runs at the time of the event that changed its dependencies.
\<close>

datatype 'f event = MouseEnter 'f LocationType | MouseLeave | Timeout nat | Frame nat | Reset

definition step :: "loctype \<Rightarrow> int \<times> 'f event \<Rightarrow> 'f comp \<Rightarrow> 'f comp option" where
  "step locationType te s0 =
     (case te of (now, ev) \<Rightarrow>
        if now < clock s0 then None
        else
          (let s = s0\<lparr>clock := now\<rparr>
           in case ev of
                MouseEnter f ty \<Rightarrow>
                  if hoverRendered s f ty then Some (handleFeatureHoverStart f ty now s) else None
              | MouseLeave \<Rightarrow> Some (handleFeatureHoverEnd s)
              | Timeout h \<Rightarrow>
                  (case find (\<lambda>(i, _, _). i = h) (timeouts s) of
                     None \<Rightarrow> None
                   | Some (_, due, cb) \<Rightarrow>
                       if now < due then None
                       else
                         (let s1 = s\<lparr>timeouts := filter (\<lambda>(i, _, _). i \<noteq> h) (timeouts s)\<rparr>
                          in case cb of
                               DebounceCallback f ty \<Rightarrow> Some (debounceFired f ty now s1)
                             | DwellCallback f ty \<Rightarrow> Some (dwellFired f ty now s1)))
              | Frame h \<Rightarrow>
                  (case find (\<lambda>(i, _). i = h) (frames s) of
                     None \<Rightarrow> None
                   | Some (_, cb) \<Rightarrow>
                       (let s1 = s\<lparr>frames := filter (\<lambda>(i, _). i \<noteq> h) (frames s)\<rparr>
                        in case cb of
                             Animate capturedType \<Rightarrow> Some (animate capturedType now s1)
                           | AnimateHover \<Rightarrow> Some (animateHover now s1)))
              | Reset \<Rightarrow> Some (handleReset locationType now s)))"

fun run :: "loctype \<Rightarrow> (int \<times> 'f event) list \<Rightarrow> 'f comp \<Rightarrow> 'f comp option" where
  "run locationType [] s = Some s"
| "run locationType (te # tes) s =
     (case step locationType te s of None \<Rightarrow> None | Some s' \<Rightarrow> run locationType tes s')"

text \<open>
  The state in which a map is first shown at time \<open>t0\<close>, after \<^verbatim>\<open>loadGeoJson\<close>: for India
  the states of India and the country level; for a state the districts that the route
  returned (if any) and the state level; for a district the district level. The effect has
  run once, with no zoomed feature.
\<close>

definition shown :: "loctype \<Rightarrow> 'f list \<Rightarrow> 'f list option \<Rightarrow> int \<Rightarrow> 'f comp" where
  "shown locationType allStates districts t0 =
     \<lparr>zoomedFeature = \<lparr>zfeature = None, ztype = None, progress = 0\<rparr>,
      hoveredFeature = None,
      viewLevel = locationType,
      hoverProgress = 0,
      hoverTimeoutRef = None, debounceTimeoutRef = None,
      animationFrameRef = None, hoverAnimationRef = None,
      zoomStartTimeRef = 0,
      currentHoveredRef = (None, None),
      hoverStartTimeRef = 0,
      allStatesGeoJson = (if locationType = Country then Some allStates else None),
      districtsGeoJsonSt = (if locationType = Country then None else districts),
      zoomCleanup = False,
      timeouts = [], frames = [], nextHandle = 1, clock = t0\<rparr>"

subsection \<open>Histories and invariants\<close>

text \<open>
  The hover in progress after a sequence of events: the feature and type of the last
  \<^verbatim>\<open>mouseenter\<close> with its time, unless a \<^verbatim>\<open>mouseleave\<close> came after it.
\<close>

fun hoverAfter ::
    "(int \<times> 'f \<times> LocationType) option \<Rightarrow> int \<times> 'f event \<Rightarrow> (int \<times> 'f \<times> LocationType) option" where
  "hoverAfter cur (t, MouseEnter f ty) = Some (t, f, ty)"
| "hoverAfter cur (t, MouseLeave) = None"
| "hoverAfter cur (t, Timeout h) = cur"
| "hoverAfter cur (t, Frame h) = cur"
| "hoverAfter cur (t, Reset) = cur"

definition lastHover :: "(int \<times> 'f event) list \<Rightarrow> (int \<times> 'f \<times> LocationType) option" where
  "lastHover tr = foldl hoverAfter None tr"

text \<open>
  At most one timeout is pending; it is the one its ref holds, it belongs to the hover in
  progress, and it is due 40 ms after the pointer entered (the debounce) or at least
  40 + 2000 ms after (the dwell).
\<close>

definition pendingOk :: "(int \<times> 'f \<times> LocationType) option \<Rightarrow> 'f comp \<Rightarrow> nat \<times> int \<times> 'f timeoutCallback \<Rightarrow> bool" where
  "pendingOk cur s p =
     (case p of
        (h, due, DebounceCallback f ty) \<Rightarrow>
          debounceTimeoutRef s = Some h \<and> cur = Some (due - DEBOUNCE_DELAY, f, ty)
      | (h, due, DwellCallback f ty) \<Rightarrow>
          hoverTimeoutRef s = Some h
          \<and> (case cur of
                None \<Rightarrow> False
              | Some (t0, f', ty') \<Rightarrow> f' = f \<and> ty' = ty \<and> t0 + DEBOUNCE_DELAY + HOVER_DELAY \<le> due))"

definition hoverInv :: "(int \<times> 'f \<times> LocationType) option \<Rightarrow> 'f comp \<Rightarrow> bool" where
  "hoverInv cur s \<longleftrightarrow> length (timeouts s) \<le> 1 \<and> list_all (pendingOk cur s) (timeouts s)"

text \<open>
  The type of the features that carry hover handlers in the map of a location: the states
  in the map of India, the districts in the others.
\<close>

definition hoverType :: "loctype \<Rightarrow> LocationType" where
  "hoverType locationType = (if locationType = Country then StateType else DistrictType)"

definition callbackType :: "'f timeoutCallback \<Rightarrow> LocationType" where
  "callbackType cb = (case cb of DebounceCallback f ty \<Rightarrow> ty | DwellCallback f ty \<Rightarrow> ty)"

definition levelOf :: "LocationType \<Rightarrow> loctype" where
  "levelOf ty = (case ty of StateType \<Rightarrow> State | DistrictType \<Rightarrow> District)"

text \<open>
  A pending \<^verbatim>\<open>animate\<close> frame is the one \<^verbatim>\<open>animationFrameRef\<close> holds, the effect's cleanup
  is registered, and the type its closure captured is the type of the zoomed feature.
\<close>

definition frameOk :: "'f comp \<Rightarrow> nat \<times> frameCallback \<Rightarrow> bool" where
  "frameOk s p =
     (case p of
        (h, Animate c) \<Rightarrow>
          animationFrameRef s = Some h \<and> zoomCleanup s \<and> c = ztype (zoomedFeature s)
      | (h, AnimateHover) \<Rightarrow> True)"

definition zoomInv :: "loctype \<Rightarrow> 'f comp \<Rightarrow> bool" where
  "zoomInv locationType s \<longleftrightarrow>
     list_all (\<lambda>(h, due, cb). callbackType cb = hoverType locationType) (timeouts s)
     \<and> list_all (frameOk s) (frames s)
     \<and> (ztype (zoomedFeature s) = None \<or> ztype (zoomedFeature s) = Some (hoverType locationType))
     \<and> (if locationType = Country
         then (viewLevel s = Country \<or> viewLevel s = State) \<and> districtsGeoJsonSt s = None
         else (viewLevel s = State \<or> viewLevel s = District) \<and> allStatesGeoJson s = None)"

section \<open>Theorems\<close>

subsection \<open>Interpolation of bounds\<close>

lemma pow2_powr: "pow2 k = 2 powr real_of_int k"
proof (cases "0 \<le> k")
  case True
  then have "2 powr real_of_int k = 2 powr real (nat k)" by simp
  also have "\<dots> = 2 ^ nat k" by (simp add: powr_realpow)
  finally show ?thesis using True by (simp add: pow2_def)
next
  case False
  then have "2 powr real_of_int k = 2 powr (- real (nat (- k)))" by simp
  also have "\<dots> = 1 / 2 ^ nat (- k)" by (simp add: powr_minus powr_realpow inverse_eq_divide)
  finally show ?thesis using False by (simp add: pow2_def)
qed

lemma pow2_pos: "0 < pow2 k"
  by (simp add: pow2_def)

lemma exponent_eqI:
  assumes "pow2 e \<le> \<bar>x\<bar>" "\<bar>x\<bar> < pow2 (e + 1)" "- 1022 \<le> e"
  shows "exponent x = e"
proof -
  have pos: "0 < \<bar>x\<bar>" using assms(1) pow2_pos [of e] by linarith
  have "\<lfloor>log 2 \<bar>x\<bar>\<rfloor> = e"
    using assms(1,2) pos by (subst floor_log_eq_powr_iff) (simp_all add: pow2_powr)
  then show ?thesis using assms(3) by (simp add: exponent_def)
qed

lemma roundTiesToEven_int: "roundTiesToEven (of_int n) = n"
  by (simp add: roundTiesToEven_def)

text \<open>Rounding moves a number by at most half a unit.\<close>

lemma roundTiesToEven_nearest: "\<bar>of_int (roundTiesToEven y) - y\<bar> \<le> 1 / 2"
  unfolding roundTiesToEven_def Let_def by (auto; linarith)

lemma fl_nearest:
  assumes "fl x = Fin r"
  shows "\<bar>r - x\<bar> \<le> quantum x / 2"
proof (cases "x = 0")
  case True
  then show ?thesis using assms pow2_pos [of "exponent 0 - 52"] by (simp add: fl_def quantum_def)
next
  case False
  define q where "q = quantum x"
  have q: "0 < q" by (simp add: q_def quantum_def pow2_pos)
  have r: "r = of_int (roundTiesToEven (x / q)) * q"
    using assms False by (simp add: fl_def Let_def q_def split: if_splits)
  have "r - x = (of_int (roundTiesToEven (x / q)) - x / q) * q"
    using q by (simp add: r left_diff_distrib)
  then have "\<bar>r - x\<bar> = \<bar>of_int (roundTiesToEven (x / q)) - x / q\<bar> * q"
    using q by (simp add: abs_mult)
  also have "\<dots> \<le> 1 / 2 * q"
    using roundTiesToEven_nearest [of "x / q"] q by (intro mult_right_mono) simp_all
  finally show ?thesis by (simp add: q_def)
qed

lemma fl_rounded:
  assumes "pow2 e \<le> \<bar>x\<bar>" "\<bar>x\<bar> < pow2 (e + 1)" "- 1022 \<le> e"
    and "roundTiesToEven (x / pow2 (e - 52)) = n"
    and "\<bar>of_int n * pow2 (e - 52)\<bar> < 2 ^ 1024"
  shows "fl x = Fin (of_int n * pow2 (e - 52))"
proof -
  have "x \<noteq> 0" using assms(1) pow2_pos [of e] by auto
  moreover have "quantum x = pow2 (e - 52)"
    by (simp add: quantum_def exponent_eqI [OF assms(1-3)])
  ultimately show ?thesis using assms(4,5) by (simp add: fl_def Let_def)
qed

lemma isDouble_I:
  assumes "pow2 e \<le> \<bar>x\<bar>" "\<bar>x\<bar> < pow2 (e + 1)" "- 1022 \<le> e"
    and "x = of_int n * pow2 (e - 52)" and "\<bar>x\<bar> < 2 ^ 1024"
  shows "isDouble x"
proof -
  have "x / pow2 (e - 52) = of_int n" using assms(4) pow2_pos [of "e - 52"] by simp
  then have "roundTiesToEven (x / pow2 (e - 52)) = n" by (simp add: roundTiesToEven_int)
  from fl_rounded [OF assms(1-3) this] assms(4,5) show ?thesis by (simp add: isDouble_def)
qed

lemma isDouble_0: "isDouble 0"
  by (simp add: isDouble_def fl_def)

lemma isDouble_half: "isDouble (1 / 2)"
  by (rule isDouble_I [where e = "- 1" and n = "2 ^ 52"]) (simp_all add: pow2_def)

lemma isDouble_1: "isDouble 1"
  by (rule isDouble_I [where e = 0 and n = "2 ^ 52"]) (simp_all add: pow2_def)

lemma isDouble_2: "isDouble 2"
  by (rule isDouble_I [where e = 1 and n = "2 ^ 52"]) (simp_all add: pow2_def)

text \<open>
  One field at \<open>p = 0\<close> and at \<open>p = 1\<close>. At \<open>p = 0\<close> the difference is multiplied by zero, so
  it only has to be finite; at \<open>p = 1\<close> it is added back to \<open>x\<close>, so the sum is \<open>y\<close> when the
  difference was computed without rounding.
\<close>

lemma field_at_0:
  assumes "isDouble x" "isFin (fl (y - x))"
  shows "jsadd (Fin x) (jsmul (jssub (Fin y) (Fin x)) (Fin 0)) = Fin x"
proof -
  from assms(2) obtain d where "fl (y - x) = Fin d" by (auto simp: isFin_def split: jsnum.splits)
  then show ?thesis using assms(1) by (simp add: isDouble_def fl_def)
qed

lemma field_at_1:
  assumes "isDouble y" "isDouble (y - x)"
  shows "jsadd (Fin x) (jsmul (jssub (Fin y) (Fin x)) (Fin 1)) = Fin y"
  using assms by (simp add: isDouble_def)

lemma fieldsOf_all: 
  "list_all P (fieldsOf b) \<longleftrightarrow>
     P (minLon b) \<and> P (maxLon b) \<and> P (minLat b) \<and> P (maxLat b) \<and> P (width b) \<and> P (height b)
     \<and> P (centerX b) \<and> P (centerY b)"
  by (simp add: fieldsOf_def)

lemma differences_all:
  "list_all P (differences b1 b2) \<longleftrightarrow>
     P (minLon b2 - minLon b1) \<and> P (maxLon b2 - maxLon b1) \<and> P (minLat b2 - minLat b1)
     \<and> P (maxLat b2 - maxLat b1) \<and> P (width b2 - width b1) \<and> P (height b2 - height b1)
     \<and> P (centerX b2 - centerX b1) \<and> P (centerY b2 - centerY b1)"
  by (simp add: differences_def fieldsOf_def)

text \<open>The two roundings of the counterexample: \<open>0.1 - 0.5\<close> is a tie and rounds to even.\<close>

lemma fl_tenth_minus_half:
  "fl (3602879701896397 / 2 ^ 55 - 1 / 2) = Fin (- (3602879701896397 / 2 ^ 53))"
proof -
  have "fl (- (14411518807585587 / 2 ^ 55)) =
        Fin (of_int (- 7205759403792794) * pow2 (- 2 - 52))"
    by (rule fl_rounded) (simp_all add: pow2_def roundTiesToEven_def)
  then show ?thesis by (simp add: pow2_def)
qed

lemma fl_half_plus_difference:
  "fl (1 / 2 + - (3602879701896397 / 2 ^ 53)) = Fin (900719925474099 / 2 ^ 53)"
proof -
  have "fl (900719925474099 / 2 ^ 53) = Fin (of_int 7205759403792792 * pow2 (- 4 - 52))"
    by (rule fl_rounded) (simp_all add: pow2_def roundTiesToEven_def)
  then show ?thesis by (simp add: pow2_def)
qed


lemma isDouble_quarter: "isDouble (1 / 4)"
  by (rule isDouble_I [where e = "- 2" and n = "2 ^ 52"]) (simp_all add: pow2_def)

lemma isDouble_tenth: "isDouble (3602879701896397 / 2 ^ 55)"
  by (rule isDouble_I [where e = "- 4" and n = 7205759403792794]) (simp_all add: pow2_def)

lemma isDouble_twentieth: "isDouble (3602879701896397 / 2 ^ 56)"
  by (rule isDouble_I [where e = "- 5" and n = 7205759403792794]) (simp_all add: pow2_def)

lemma isDouble_difference: "isDouble (- (3602879701896397 / 2 ^ 53))"
  by (rule isDouble_I [where e = "- 2" and n = "- 7205759403792794"]) (simp_all add: pow2_def)

lemma field_tenth_at_1:
  "jsadd (Fin (1 / 2)) (jsmul (jssub (Fin (3602879701896397 / 2 ^ 55)) (Fin (1 / 2))) (Fin 1)) =
     Fin (900719925474099 / 2 ^ 53)"
proof -
  have "jsmul (Fin (- (3602879701896397 / 2 ^ 53))) (Fin 1) = Fin (- (3602879701896397 / 2 ^ 53))"
    using isDouble_difference by (simp add: isDouble_def)
  then show ?thesis
    by (simp only: jssub.simps jsadd.simps fl_tenth_minus_half fl_half_plus_difference)
qed

text \<open>
  How far a field can be from the exact interpolated value: each of the three operations
  adds at most half the spacing of doubles at its result.
\<close>

lemma field_near_lerp:
  assumes "jssub (Fin y) (Fin x) = Fin d" "jsmul (Fin d) (Fin p) = Fin m"
    and "jsadd (Fin x) (Fin m) = Fin r"
  shows "\<bar>r - lerp x y p\<bar> \<le>
           \<bar>p\<bar> * (quantum (y - x) / 2) + quantum (d * p) / 2 + quantum (x + m) / 2"
proof -
  have d: "\<bar>d - (y - x)\<bar> \<le> quantum (y - x) / 2" using assms(1) by (intro fl_nearest) simp
  have m: "\<bar>m - d * p\<bar> \<le> quantum (d * p) / 2" using assms(2) by (intro fl_nearest) simp
  have r: "\<bar>r - (x + m)\<bar> \<le> quantum (x + m) / 2" using assms(3) by (intro fl_nearest) simp
  have "\<bar>p\<bar> * \<bar>d - (y - x)\<bar> \<le> \<bar>p\<bar> * (quantum (y - x) / 2)"
    using d by (intro mult_left_mono) simp_all
  then have "\<bar>(d - (y - x)) * p\<bar> \<le> \<bar>p\<bar> * (quantum (y - x) / 2)"
    by (simp only: abs_mult mult.commute)
  moreover have "r - lerp x y p = (r - (x + m)) + (m - d * p) + (d - (y - x)) * p"
    by (simp add: lerp_def algebra_simps)
  ultimately show ?thesis using m r by linarith
qed

text \<open>
  Claim C4 (as the code has it). With both bounds present every field of the result is
  \<^verbatim>\<open>b1.f + (b2.f - b1.f) * p\<close> in binary64 arithmetic, each of the three operations rounded
  to nearest. For bounds whose fields are binary64 values, the result at \<open>p = 0\<close> is \<open>b1\<close>
  when no difference \<^verbatim>\<open>b2.f - b1.f\<close> overflows, and the result at \<open>p = 1\<close> is \<open>b2\<close> when every
  difference \<^verbatim>\<open>b2.f - b1.f\<close> is a binary64 value, so that the subtraction does not round.
  When either argument is \<^verbatim>\<open>null\<close> the result is the other argument.
\<close>

theorem interpolateBounds_binary64:
  "interpolateBounds (Some b1) (Some b2) p =
     Some \<lparr> minLon_js = jsadd (Fin (minLon b1)) (jsmul (jssub (Fin (minLon b2)) (Fin (minLon b1))) (Fin p)),
            maxLon_js = jsadd (Fin (maxLon b1)) (jsmul (jssub (Fin (maxLon b2)) (Fin (maxLon b1))) (Fin p)),
            minLat_js = jsadd (Fin (minLat b1)) (jsmul (jssub (Fin (minLat b2)) (Fin (minLat b1))) (Fin p)),
            maxLat_js = jsadd (Fin (maxLat b1)) (jsmul (jssub (Fin (maxLat b2)) (Fin (maxLat b1))) (Fin p)),
            width_js = jsadd (Fin (width b1)) (jsmul (jssub (Fin (width b2)) (Fin (width b1))) (Fin p)),
            height_js = jsadd (Fin (height b1)) (jsmul (jssub (Fin (height b2)) (Fin (height b1))) (Fin p)),
            centerX_js = jsadd (Fin (centerX b1)) (jsmul (jssub (Fin (centerX b2)) (Fin (centerX b1))) (Fin p)),
            centerY_js = jsadd (Fin (centerY b1)) (jsmul (jssub (Fin (centerY b2)) (Fin (centerY b1))) (Fin p)) \<rparr>
   \<and> (list_all isDouble (fieldsOf b1) \<and> list_all isDouble (fieldsOf b2)
        \<and> list_all (\<lambda>d. isFin (fl d)) (differences b1 b2)
      \<longrightarrow> interpolateBounds (Some b1) (Some b2) 0 = Some (given b1))
   \<and> (list_all isDouble (fieldsOf b1) \<and> list_all isDouble (fieldsOf b2)
        \<and> list_all isDouble (differences b1 b2)
      \<longrightarrow> interpolateBounds (Some b1) (Some b2) 1 = Some (given b2))
   \<and> interpolateBounds None c p = map_option given c
   \<and> interpolateBounds c None p = map_option given c"
proof (intro conjI impI)
  show "interpolateBounds None c p = map_option given c"
    by (cases c) (simp_all add: interpolateBounds_def)
  show "interpolateBounds c None p = map_option given c"
    by (cases c) (simp_all add: interpolateBounds_def)
next
  assume "list_all isDouble (fieldsOf b1) \<and> list_all isDouble (fieldsOf b2)
          \<and> list_all (\<lambda>d. isFin (fl d)) (differences b1 b2)"
  then show "interpolateBounds (Some b1) (Some b2) 0 = Some (given b1)"
    unfolding fieldsOf_all differences_all
    by (simp add: interpolateBounds_def given_def field_at_0 del: jsadd.simps jsmul.simps jssub.simps)
next
  assume "list_all isDouble (fieldsOf b1) \<and> list_all isDouble (fieldsOf b2)
          \<and> list_all isDouble (differences b1 b2)"
  then show "interpolateBounds (Some b1) (Some b2) 1 = Some (given b2)"
    unfolding fieldsOf_all differences_all
    by (simp add: interpolateBounds_def given_def field_at_1 del: jsadd.simps jsmul.simps jssub.simps)
qed (simp add: interpolateBounds_def)

theorem interpolateBounds_binary64_witness:
  "list_all isDouble (fieldsOf \<lparr>minLon = 0, maxLon = 1, minLat = 0, maxLat = 1, width = 1, height = 1, centerX = 1 / 2, centerY = 1 / 2\<rparr>)
   \<and> list_all isDouble (fieldsOf \<lparr>minLon = 0, maxLon = 2, minLat = 0, maxLat = 2, width = 2, height = 2, centerX = 1, centerY = 1\<rparr>)
   \<and> list_all isDouble
       (differences \<lparr>minLon = 0, maxLon = 1, minLat = 0, maxLat = 1, width = 1, height = 1, centerX = 1 / 2, centerY = 1 / 2\<rparr>
          \<lparr>minLon = 0, maxLon = 2, minLat = 0, maxLat = 2, width = 2, height = 2, centerX = 1, centerY = 1\<rparr>)
   \<and> list_all (\<lambda>d. isFin (fl d))
       (differences \<lparr>minLon = 0, maxLon = 1, minLat = 0, maxLat = 1, width = 1, height = 1, centerX = 1 / 2, centerY = 1 / 2\<rparr>
          \<lparr>minLon = 0, maxLon = 2, minLat = 0, maxLat = 2, width = 2, height = 2, centerX = 1, centerY = 1\<rparr>)
   \<and> interpolateBounds
       (Some \<lparr>minLon = 0, maxLon = 1, minLat = 0, maxLat = 1, width = 1, height = 1, centerX = 1 / 2, centerY = 1 / 2\<rparr>)
       (Some \<lparr>minLon = 0, maxLon = 2, minLat = 0, maxLat = 2, width = 2, height = 2, centerX = 1, centerY = 1\<rparr>) 0 =
     Some (given \<lparr>minLon = 0, maxLon = 1, minLat = 0, maxLat = 1, width = 1, height = 1, centerX = 1 / 2, centerY = 1 / 2\<rparr>)
   \<and> interpolateBounds
       (Some \<lparr>minLon = 0, maxLon = 1, minLat = 0, maxLat = 1, width = 1, height = 1, centerX = 1 / 2, centerY = 1 / 2\<rparr>)
       (Some \<lparr>minLon = 0, maxLon = 2, minLat = 0, maxLat = 2, width = 2, height = 2, centerX = 1, centerY = 1\<rparr>) 1 =
     Some (given \<lparr>minLon = 0, maxLon = 2, minLat = 0, maxLat = 2, width = 2, height = 2, centerX = 1, centerY = 1\<rparr>)"
proof -
  let ?b1 = "\<lparr>minLon = 0, maxLon = 1, minLat = 0, maxLat = 1, width = 1, height = 1,
              centerX = 1 / 2, centerY = 1 / 2\<rparr>"
  let ?b2 = "\<lparr>minLon = 0, maxLon = 2, minLat = 0, maxLat = 2, width = 2, height = 2,
              centerX = 1, centerY = 1\<rparr>"
  have d: "isDouble 0" "isDouble (1 / 2)" "isDouble 1" "isDouble 2"
    by (rule isDouble_0 isDouble_half isDouble_1 isDouble_2)+
  then have f: "isFin (fl 0)" "isFin (fl (1 / 2))" "isFin (fl 1)"
    by (simp_all add: isDouble_def isFin_def)
  have 1: "list_all isDouble (fieldsOf ?b1)" using d by (simp add: fieldsOf_def)
  have 2: "list_all isDouble (fieldsOf ?b2)" using d by (simp add: fieldsOf_def)
  have 3: "list_all isDouble (differences ?b1 ?b2)"
    using d by (simp add: fieldsOf_def differences_def)
  have 4: "list_all (\<lambda>d. isFin (fl d)) (differences ?b1 ?b2)"
    using f by (simp add: fieldsOf_def differences_def)
  from interpolateBounds_binary64 [of ?b1 ?b2 0 None] 1 2 3 4 show ?thesis by blast
qed

text \<open>
  Claim C4 (as worded) fails at \<open>p = 1\<close>, the value that the component passes when a zoom
  ends. From the bounds of the box \<open>[0, 0.5] \<times> [0, 0.5]\<close> to those of the box
  \<open>[0, 0.1] \<times> [0, 0.1]\<close> (\<open>3602879701896397 / 2 ^ 55\<close> is the binary64 value of \<^verbatim>\<open>0.1\<close>) the
  field \<^verbatim>\<open>maxLon\<close> of the result is \<^verbatim>\<open>0.09999999999999998\<close>, two doubles below \<^verbatim>\<open>0.1\<close>.
\<close>

theorem interpolateBounds_at_1_not_b2:
  "list_all isDouble
     (fieldsOf \<lparr>minLon = 0, maxLon = 1 / 2, minLat = 0, maxLat = 1 / 2, width = 1 / 2, height = 1 / 2,
               centerX = 1 / 4, centerY = 1 / 4\<rparr>)
   \<and> list_all isDouble
       (fieldsOf \<lparr>minLon = 0, maxLon = 3602879701896397 / 2 ^ 55, minLat = 0,
                 maxLat = 3602879701896397 / 2 ^ 55, width = 3602879701896397 / 2 ^ 55,
                 height = 3602879701896397 / 2 ^ 55, centerX = 3602879701896397 / 2 ^ 56,
                 centerY = 3602879701896397 / 2 ^ 56\<rparr>)
   \<and> map_option maxLon_js
       (interpolateBounds
          (Some \<lparr>minLon = 0, maxLon = 1 / 2, minLat = 0, maxLat = 1 / 2, width = 1 / 2, height = 1 / 2,
                 centerX = 1 / 4, centerY = 1 / 4\<rparr>)
          (Some \<lparr>minLon = 0, maxLon = 3602879701896397 / 2 ^ 55, minLat = 0,
                 maxLat = 3602879701896397 / 2 ^ 55, width = 3602879701896397 / 2 ^ 55,
                 height = 3602879701896397 / 2 ^ 55, centerX = 3602879701896397 / 2 ^ 56,
                 centerY = 3602879701896397 / 2 ^ 56\<rparr>) 1) =
     Some (Fin (900719925474099 / 2 ^ 53))
   \<and> interpolateBounds
       (Some \<lparr>minLon = 0, maxLon = 1 / 2, minLat = 0, maxLat = 1 / 2, width = 1 / 2, height = 1 / 2,
              centerX = 1 / 4, centerY = 1 / 4\<rparr>)
       (Some \<lparr>minLon = 0, maxLon = 3602879701896397 / 2 ^ 55, minLat = 0,
              maxLat = 3602879701896397 / 2 ^ 55, width = 3602879701896397 / 2 ^ 55,
              height = 3602879701896397 / 2 ^ 55, centerX = 3602879701896397 / 2 ^ 56,
              centerY = 3602879701896397 / 2 ^ 56\<rparr>) 1 \<noteq>
     Some (given \<lparr>minLon = 0, maxLon = 3602879701896397 / 2 ^ 55, minLat = 0,
                  maxLat = 3602879701896397 / 2 ^ 55, width = 3602879701896397 / 2 ^ 55,
                  height = 3602879701896397 / 2 ^ 55, centerX = 3602879701896397 / 2 ^ 56,
                  centerY = 3602879701896397 / 2 ^ 56\<rparr>)"
proof -
  let ?b1 = "\<lparr>minLon = 0, maxLon = 1 / 2, minLat = 0, maxLat = 1 / 2, width = 1 / 2, height = 1 / 2,
              centerX = 1 / 4, centerY = 1 / 4\<rparr>"
  let ?b2 = "\<lparr>minLon = 0, maxLon = 3602879701896397 / 2 ^ 55, minLat = 0,
              maxLat = 3602879701896397 / 2 ^ 55, width = 3602879701896397 / 2 ^ 55,
              height = 3602879701896397 / 2 ^ 55, centerX = 3602879701896397 / 2 ^ 56,
              centerY = 3602879701896397 / 2 ^ 56\<rparr>"
  have 1: "list_all isDouble (fieldsOf ?b1)"
    by (simp only: fieldsOf_all Bounds.select_convs isDouble_0 isDouble_half isDouble_quarter simp_thms)
  have 2: "list_all isDouble (fieldsOf ?b2)"
    by (simp only: fieldsOf_all Bounds.select_convs isDouble_0 isDouble_tenth isDouble_twentieth
          simp_thms)
  have 3: "map_option maxLon_js (interpolateBounds (Some ?b1) (Some ?b2) 1) =
           Some (Fin (900719925474099 / 2 ^ 53))"
    by (simp only: interpolateBounds_def prod.case option.case option.map Bounds.select_convs
          InterpolatedBounds.select_convs field_tenth_at_1)
  have "map_option maxLon_js (Some (given ?b2)) \<noteq> Some (Fin (900719925474099 / 2 ^ 53))"
    by (simp add: given_def)
  with 3 have 4: "interpolateBounds (Some ?b1) (Some ?b2) 1 \<noteq> Some (given ?b2)"
    by metis
  from 1 2 3 4 show ?thesis by (intro conjI)
qed

subsection \<open>Projection\<close>

lemma jsmin_Fin_pos:
  assumes "0 < a" "0 < b"
  shows "jsmin (jsdiv w a) (jsdiv h b) = Fin (min (w / a) (h / b))"
  using assms by (simp add: jsdiv_def)

lemma affine_in_range:
  fixes w s E p t :: real
  assumes "0 \<le> s" "s * E \<le> w" "0 < p" "p \<le> t" "t \<le> E - p"
  shows "0 \<le> t * s + (w - E * s) / 2" "t * s + (w - E * s) / 2 \<le> w"
proof -
  have "0 \<le> t * s" using assms by simp
  moreover have "0 \<le> (w - E * s) / 2" using assms by (simp add: mult.commute)
  ultimately show "0 \<le> t * s + (w - E * s) / 2" by simp
  have "t * s \<le> (E - p) * s" using assms by (intro mult_right_mono) auto
  moreover have "0 \<le> p * s" using assms by simp
  ultimately have "t * s \<le> E * s" by (simp add: algebra_simps)
  then show "t * s + (w - E * s) / 2 \<le> w" using assms(2) by (simp add: mult.commute field_simps)
qed

lemma min_quot_scale:
  fixes w h a b :: real
  assumes "0 \<le> w" "0 \<le> h" "0 < a" "0 < b"
  shows "0 \<le> min (w / a) (h / b)" "min (w / a) (h / b) * a \<le> w" "min (w / a) (h / b) * b \<le> h"
proof -
  show "0 \<le> min (w / a) (h / b)" using assms by simp
  have "min (w / a) (h / b) * a \<le> (w / a) * a" using assms by (intro mult_right_mono) auto
  then show "min (w / a) (h / b) * a \<le> w" using assms by simp
  have "min (w / a) (h / b) * b \<le> (h / b) * b" using assms by (intro mult_right_mono) auto
  then show "min (w / a) (h / b) * b \<le> h" using assms by simp
qed

lemma ringToPath_Nil: "ringToPath [] (Some b) w h = Segments []"
  by (simp add: ringToPath_def Let_def enumerate_eq_zip split: jsnum.splits)

text \<open>
  Claim C2. For bounds of positive width and height and a ring whose positions lie within
  the bounds, \<^verbatim>\<open>ringToPath\<close> pads the box by 2% of its width and height on each
  side, scales both axes by the one factor \<open>min (w / effW) (h / effH)\<close>, flips the Y
  axis, and every projected point lies on the canvas: \<open>0 \<le> x \<le> w\<close> and
  \<open>0 \<le> y \<le> h\<close>. The canvas size \<open>w\<close>, \<open>h\<close> is not negative (the component
  passes 800 and 600).
\<close>

theorem ringToPath_in_canvas:
  assumes pos: "0 < width b" "0 < height b" and canvas: "0 \<le> w" "0 \<le> h"
    and inside: "\<forall>c \<in> set ring. minLon b \<le> fst c \<and> fst c \<le> maxLon b
                                  \<and> minLat b \<le> snd c \<and> snd c \<le> maxLat b"
  shows "\<exists>segs. ringToPath ring (Some b) w h = Segments segs \<and> length segs = length ring \<and>
          (\<forall>i < length ring.
             let px = width b * 0.02; py = height b * 0.02;
                 effW = (maxLon b + px) - (minLon b - px);
                 effH = (maxLat b + py) - (minLat b - py);
                 scale = min (w / effW) (h / effH);
                 x = (fst (ring ! i) - (minLon b - px)) * scale + (w - effW * scale) / 2;
                 y = h - ((snd (ring ! i) - (minLat b - py)) * scale + (h - effH * scale) / 2)
             in segs ! i = (if i = 0 then MoveTo else LineTo, x, y)
                \<and> 0 \<le> x \<and> x \<le> w \<and> 0 \<le> y \<and> y \<le> h)"
proof (cases "ring = []")
  case True
  then show ?thesis by (simp add: ringToPath_Nil)
next
  case False
  then obtain c0 where "c0 \<in> set ring" by (cases ring) auto
  with inside have le: "minLon b \<le> maxLon b" "minLat b \<le> maxLat b" by force+
  define px where "px = width b * 0.02"
  define py where "py = height b * 0.02"
  define effW where "effW = (maxLon b + px) - (minLon b - px)"
  define effH where "effH = (maxLat b + py) - (minLat b - py)"
  define scale where "scale = min (w / effW) (h / effH)"
  have ppos: "0 < px" "0 < py" using pos by (simp_all add: px_def py_def)
  have epos: "0 < effW" "0 < effH" using le ppos by (simp_all add: effW_def effH_def)
  have sc: "0 \<le> scale" "scale * effW \<le> w" "scale * effH \<le> h"
    unfolding scale_def using min_quot_scale [OF canvas epos] by auto
  have path: "ringToPath ring (Some b) w h =
      Segments (map (\<lambda>(i, c). (if i = 0 then MoveTo else LineTo,
                                 (fst c - (minLon b - px)) * scale + (w - effW * scale) / 2,
                                 h - ((snd c - (minLat b - py)) * scale + (h - effH * scale) / 2)))
                    (enumerate 0 ring))"
    using epos
    by (simp add: ringToPath_def Let_def jsmin_Fin_pos scale_def effW_def effH_def px_def py_def)
  have rng: "0 \<le> (fst (ring ! i) - (minLon b - px)) * scale + (w - effW * scale) / 2
           \<and> (fst (ring ! i) - (minLon b - px)) * scale + (w - effW * scale) / 2 \<le> w
           \<and> 0 \<le> h - ((snd (ring ! i) - (minLat b - py)) * scale + (h - effH * scale) / 2)
           \<and> h - ((snd (ring ! i) - (minLat b - py)) * scale + (h - effH * scale) / 2) \<le> h"
    if "i < length ring" for i
  proof -
    from that inside have c: "minLon b \<le> fst (ring ! i)" "fst (ring ! i) \<le> maxLon b"
      "minLat b \<le> snd (ring ! i)" "snd (ring ! i) \<le> maxLat b"
      by (auto dest: nth_mem)
    have x: "px \<le> fst (ring ! i) - (minLon b - px)" "fst (ring ! i) - (minLon b - px) \<le> effW - px"
      using c by (simp_all add: effW_def)
    have y: "py \<le> snd (ring ! i) - (minLat b - py)" "snd (ring ! i) - (minLat b - py) \<le> effH - py"
      using c by (simp_all add: effH_def)
    from affine_in_range [OF sc(1) sc(2) ppos(1) x] affine_in_range [OF sc(1) sc(3) ppos(2) y]
    show ?thesis by linarith
  qed
  have main: "\<exists>segs. ringToPath ring (Some b) w h = Segments segs \<and> length segs = length ring \<and>
          (\<forall>i < length ring.
             segs ! i = (if i = 0 then MoveTo else LineTo,
                         (fst (ring ! i) - (minLon b - px)) * scale + (w - effW * scale) / 2,
                         h - ((snd (ring ! i) - (minLat b - py)) * scale + (h - effH * scale) / 2))
             \<and> 0 \<le> (fst (ring ! i) - (minLon b - px)) * scale + (w - effW * scale) / 2
             \<and> (fst (ring ! i) - (minLon b - px)) * scale + (w - effW * scale) / 2 \<le> w
             \<and> 0 \<le> h - ((snd (ring ! i) - (minLat b - py)) * scale + (h - effH * scale) / 2)
             \<and> h - ((snd (ring ! i) - (minLat b - py)) * scale + (h - effH * scale) / 2) \<le> h)"
    unfolding path using rng by (auto simp: nth_enumerate_eq)
  show ?thesis
    using main unfolding Let_def scale_def effW_def effH_def px_def py_def .
qed

theorem ringToPath_in_canvas_witness:
  "0 < width \<lparr>minLon = 1, maxLon = 3, minLat = 2, maxLat = 5, width = 2, height = 3,
               centerX = 2, centerY = 7 / 2\<rparr>
   \<and> (\<exists>segs. ringToPath [(1, 2), (3, 5)]
                (Some \<lparr>minLon = 1, maxLon = 3, minLat = 2, maxLat = 5, width = 2, height = 3,
                       centerX = 2, centerY = 7 / 2\<rparr>) 800 600 = Segments segs
              \<and> length segs = 2)"
  using ringToPath_in_canvas [of "\<lparr>minLon = 1, maxLon = 3, minLat = 2, maxLat = 5, width = 2,
      height = 3, centerX = 2, centerY = 7 / 2\<rparr>" 800 600 "[(1, 2), (3, 5)]"]
  by auto

text \<open>
  Claim C9. \<^verbatim>\<open>projectPoint\<close> returns for a position exactly the coordinates that
  \<^verbatim>\<open>ringToPath\<close> computes for that position of a ring, under the same bounds and
  canvas size; with \<^verbatim>\<open>null\<close> bounds the one returns \<^verbatim>\<open>null\<close> and the other the
  empty string.
\<close>

theorem projectPoint_ringToPath:
  "(i < length ring \<longrightarrow>
      pathPoint (ringToPath ring bo w h) i = projectPoint (ring ! i) bo w h)
   \<and> ringToPath ring None w h = EmptyPath
   \<and> projectPoint c None w h = NoPoint"
  by (cases bo)
     (auto simp: ringToPath_def projectPoint_def Let_def nth_enumerate_eq split: jsnum.splits)

theorem projectPoint_ringToPath_witness:
  "pathPoint (ringToPath [(1, 2), (3, 5)]
                (Some \<lparr>minLon = 1, maxLon = 3, minLat = 2, maxLat = 5, width = 2, height = 3,
                       centerX = 2, centerY = 7 / 2\<rparr>) 800 600) 1
   = projectPoint (3, 5)
       (Some \<lparr>minLon = 1, maxLon = 3, minLat = 2, maxLat = 5, width = 2, height = 3,
              centerX = 2, centerY = 7 / 2\<rparr>) 800 600"
  using projectPoint_ringToPath [of 1 "[(1, 2), (3, 5)]"
      "Some \<lparr>minLon = 1, maxLon = 3, minLat = 2, maxLat = 5, width = 2, height = 3,
             centerX = 2, centerY = 7 / 2\<rparr>" 800 600]
  by simp

subsection \<open>Bounding box\<close>








subsection \<open>Place-name detection\<close>

lemma uniqueStep_distinct:
  assumes "distinct (map fst m)"
  shows "distinct (map fst (uniqueStep lc loc m))"
  using assms by (simp add: uniqueStep_def Let_def)

lemma uniqueStep_keys:
  assumes "\<forall>x \<in> set m. fst x = locationKey lc (snd x)"
  shows "\<forall>x \<in> set (uniqueStep lc loc m). fst x = locationKey lc (snd x)"
  using assms by (auto simp: uniqueStep_def Let_def)

lemma fold_uniqueStep_keys:
  assumes "distinct (map fst m)" "\<forall>x \<in> set m. fst x = locationKey lc (snd x)"
  shows "distinct (map fst (fold (uniqueStep lc) locs m))
       \<and> (\<forall>x \<in> set (fold (uniqueStep lc) locs m). fst x = locationKey lc (snd x))"
  using assms
proof (induction locs arbitrary: m)
  case Nil
  then show ?case unfolding fold_simps by blast
next
  case (Cons loc locs)
  have "distinct (map fst (fold (uniqueStep lc) locs (uniqueStep lc loc m)))
       \<and> (\<forall>x \<in> set (fold (uniqueStep lc) locs (uniqueStep lc loc m)). fst x = locationKey lc (snd x))"
    by (rule Cons.IH [OF uniqueStep_distinct [OF Cons.prems(1)] uniqueStep_keys [OF Cons.prems(2)]])
  then show ?case unfolding fold_simps .
qed

lemma distinct_map_factor:
  assumes "distinct (map (\<lambda>x. g (f x)) xs)"
  shows "distinct (map f xs)"
  using assms by (induction xs) auto

lemma uniqueLocations_distinct:
  "distinct (map (\<lambda>l. (ltype l, normalizeLocationName lc (name l)))
               (map snd (uniqueLocationsMap lc locs)))"
proof -
  let ?m = "uniqueLocationsMap lc locs"
  let ?f = "\<lambda>x. (ltype (snd x), normalizeLocationName lc (name (snd x)))"
  let ?g = "\<lambda>p. typeName (fst p) @ lit ''-'' @ snd p"
  have "distinct (map fst (fold (uniqueStep lc) locs []))
       \<and> (\<forall>x \<in> set (fold (uniqueStep lc) locs []). fst x = locationKey lc (snd x))"
    by (rule fold_uniqueStep_keys) simp_all
  then have d: "distinct (map fst ?m)" and k: "\<forall>x \<in> set ?m. fst x = locationKey lc (snd x)"
    unfolding uniqueLocationsMap_def by blast+
  have "\<forall>x \<in> set ?m. fst x = ?g (?f x)"
    using k unfolding locationKey_def by auto
  then have "map fst ?m = map (\<lambda>x. ?g (?f x)) ?m"
    by (simp only: map_eq_conv)
  with d have "distinct (map (\<lambda>x. ?g (?f x)) ?m)" by (simp only:)
  then have "distinct (map ?f ?m)" by (rule distinct_map_factor)
  then show ?thesis by (simp only: map_map comp_def)
qed


text \<open>
  Claim C10. In every response of \<^verbatim>\<open>POST /api/detect-location\<close> with status 200, no
  two entries of \<^verbatim>\<open>locations\<close> have both the same type and the same normalised name,
  and \<^verbatim>\<open>location\<close> is the first entry of \<^verbatim>\<open>locations\<close>, or \<^verbatim>\<open>null\<close> exactly when
  there is none. It holds whatever \<^verbatim>\<open>toLowerCase\<close> computes and whatever
  \<^verbatim>\<open>output.geojson\<close> holds.
\<close>

theorem POST_locations_unique:
  "status (POST lc dtnames body) = 200 \<longrightarrow>
     distinct (map (\<lambda>l. (ltype l, normalizeLocationName lc (name l)))
                (locations (POST lc dtnames body)))
     \<and> location (POST lc dtnames body)
         = (if locations (POST lc dtnames body) = [] then None
            else Some (hd (locations (POST lc dtnames body))))"
proof (cases body)
  case BodyThrows
  then show ?thesis by (simp add: POST_def)
next
  case (TextField t)
  show ?thesis
  proof (cases t)
    case None
    then show ?thesis by (simp add: POST_def TextField)
  next
    case (Some str)
    show ?thesis
    proof (cases "str = []")
      case True
      then show ?thesis by (simp add: POST_def TextField Some)
    next
      case False
      let ?u = "map snd (uniqueLocationsMap lc (detectLocations lc dtnames str))"
      have r: "POST lc dtnames body =
          \<lparr>status = 200, location = (if length ?u > 0 then Some (?u ! 0) else None), locations = ?u\<rparr>"
        using False by (simp add: POST_def TextField Some Let_def del: map_map)
      have "distinct (map (\<lambda>l. (ltype l, normalizeLocationName lc (name l))) ?u)"
        by (rule uniqueLocations_distinct)
      moreover have "(if length ?u > 0 then Some (?u ! 0) else None) = (if ?u = [] then None else Some (hd ?u))"
        by (cases "?u") simp_all
      ultimately show ?thesis unfolding r by (simp del: map_map)
    qed
  qed
qed

lemma POST_status_text: "text \<noteq> [] \<Longrightarrow> status (POST lc dtnames (TextField (Some text))) = 200"
  by (simp add: POST_def Let_def)

theorem POST_locations_unique_witness:
  "status (POST asciiLower (Some [lit ''Anand'']) (TextField (Some (lit ''Pune pune in Gujarat'')))) = 200
   \<and> distinct (map (\<lambda>l. (ltype l, normalizeLocationName asciiLower (name l)))
        (locations (POST asciiLower (Some [lit ''Anand'']) (TextField (Some (lit ''Pune pune in Gujarat''))))))"
proof -
  have s: "status (POST asciiLower (Some [lit ''Anand'']) (TextField (Some (lit ''Pune pune in Gujarat'')))) = 200"
    by (rule POST_status_text) (simp add: lit_def)
  from POST_locations_unique [of asciiLower "Some [lit ''Anand'']" "TextField (Some (lit ''Pune pune in Gujarat''))"] s
  show ?thesis by blast
qed

subsection \<open>Districts of a state\<close>

lemma fold_toggle:
  "fold (\<lambda>x inside. if P x then \<not> inside else inside) xs b
   = (b \<noteq> odd (length (filter P xs)))"
  by (induction xs arbitrary: b) auto

lemma loopIndices_edges:
  "map (\<lambda>(i, j). (polygon ! i, polygon ! j)) (loopIndices (length polygon)) = edges polygon"
proof (cases "polygon = []")
  case True
  then show ?thesis by (simp add: loopIndices_def edges_def)
next
  case False
  let ?n = "length polygon"
  have n: "0 < ?n" using False by simp
  have 1: "map ((!) polygon) [0..<?n] = polygon" by (rule map_nth)
  have 2: "map ((!) polygon) [0..<?n - 1] = butlast polygon"
    by (rule nth_equalityI) (simp_all add: nth_butlast)
  have 3: "polygon ! (?n - 1) = last polygon" using False by (simp add: last_conv_nth)
  have "map (\<lambda>(i, j). (polygon ! i, polygon ! j)) (zip [0..<?n] ((?n - 1) # [0..<?n - 1]))
      = zip (map ((!) polygon) [0..<?n]) (map ((!) polygon) ((?n - 1) # [0..<?n - 1]))"
    by (rule zip_map_map [symmetric])
  also have "\<dots> = zip polygon (last polygon # butlast polygon)"
    using 1 2 3 by simp
  finally show ?thesis using False by (simp add: loopIndices_def edges_def)
qed

lemma isPointInPolygon_even_odd: "isPointInPolygon p polygon = odd (crossings p polygon)"
proof -
  have "length (filter (\<lambda>(i, j). intersect p (polygon ! i) (polygon ! j)) (loopIndices (length polygon)))
      = length (filter (\<lambda>(ci, cj). intersect p ci cj)
                 (map (\<lambda>(i, j). (polygon ! i, polygon ! j)) (loopIndices (length polygon))))"
    by (simp add: filter_map comp_def case_prod_unfold)
  then have "length (filter (\<lambda>(i, j). intersect p (polygon ! i) (polygon ! j)) (loopIndices (length polygon)))
      = crossings p polygon"
    by (simp only: loopIndices_edges crossings_def)
  moreover have "isPointInPolygon p polygon
      = odd (length (filter (\<lambda>(i, j). intersect p (polygon ! i) (polygon ! j)) (loopIndices (length polygon))))"
    unfolding isPointInPolygon_def
    using fold_toggle [of "\<lambda>(i, j). intersect p (polygon ! i) (polygon ! j)" "loopIndices (length polygon)" False]
    by (simp add: case_prod_unfold)
  ultimately show ?thesis by simp
qed


lemma fold_add_sum_list:
  fixes z :: real
  shows "fold (\<lambda>c s. s + g c) xs z = z + sum_list (map g xs)"
  by (induction xs arbitrary: z) simp_all

lemma fold_outer_rings:
  "fold (\<lambda>polygon acc. case polygon of [] \<Rightarrow> acc
                          | ring # _ \<Rightarrow> acc @ filter P ring) coords acc0
   = acc0 @ filter P (concat (concat (map (take 1) coords)))"
proof (induction coords arbitrary: acc0)
  case Nil
  show ?case by simp
next
  case (Cons polygon coords)
  show ?case by (cases polygon) (simp_all add: Cons.IH)
qed

lemma allCoords_Polygon:
  "(case coords of [] \<Rightarrow> [] | ring # _ \<Rightarrow> filter P ring) = filter P (concat (take 1 coords))"
  by (cases coords) simp_all

lemma calculateFeatureCentroid_centroid: "calculateFeatureCentroid f = centroid f"
proof (cases "geometry f")
  case None
  then show ?thesis
    by (simp add: calculateFeatureCentroid_def centroid_def vertices_def outerRings_def)
next
  case (Some g)
  show ?thesis
  proof (cases g)
    case (Polygon coords)
    then show ?thesis
      by (simp add: calculateFeatureCentroid_def centroid_def vertices_def outerRings_def Some
            allCoords_Polygon fold_add_sum_list Let_def)
  next
    case (MultiPolygon coords)
    then show ?thesis
      by (simp add: calculateFeatureCentroid_def centroid_def vertices_def outerRings_def Some
            fold_outer_rings fold_add_sum_list Let_def)
  next
    case OtherGeometry
    then show ?thesis
      by (simp add: calculateFeatureCentroid_def centroid_def vertices_def outerRings_def Some)
  qed
qed

lemma list_ex_outer_rings:
  "list_ex (\<lambda>polygon. case polygon of [] \<Rightarrow> False | ring # _ \<Rightarrow> Q ring) coords
   = list_ex Q (concat (map (take 1) coords))"
proof (induction coords)
  case Nil
  show ?case by simp
next
  case (Cons polygon coords)
  show ?case by (cases polygon) (simp_all add: Cons.IH)
qed

lemma isPointInFeature_even_odd: "isPointInFeature p f = insideEvenOdd p f"
proof (cases "geometry f")
  case None
  then show ?thesis by (simp add: isPointInFeature_def insideEvenOdd_def outerRings_def)
next
  case (Some g)
  show ?thesis
  proof (cases g)
    case (Polygon coords)
    then show ?thesis
      by (cases coords)
         (simp_all add: isPointInFeature_def insideEvenOdd_def outerRings_def Some
            isPointInPolygon_even_odd)
  next
    case (MultiPolygon coords)
    then show ?thesis
      by (simp add: isPointInFeature_def insideEvenOdd_def outerRings_def Some
            list_ex_outer_rings isPointInPolygon_even_odd)
  next
    case OtherGeometry
    then show ?thesis by (simp add: isPointInFeature_def insideEvenOdd_def outerRings_def Some)
  qed
qed

lemma district_filter_centroidInState:
  "(case calculateFeatureCentroid d of None \<Rightarrow> False
    | Some c \<Rightarrow> list_ex (isPointInFeature c) stateFeatures)
   = centroidInState stateFeatures d"
proof -
  have "isPointInFeature c = insideEvenOdd c" for c
    by (rule ext) (rule isPointInFeature_even_odd)
  then show ?thesis
    by (simp add: centroidInState_def calculateFeatureCentroid_centroid cong: option.case_cong)
qed

lemma loadDistricts_spec:
  assumes "outputGeoJson e = Parsed allDistricts"
  shows "loadDistricts e g =
     (case (features allDistricts, features g) of
        (Some ds, Some ss) \<Rightarrow>
          (if filter (centroidInState ss) ds = [] then None
           else Some \<lparr>features = Some (filter (centroidInState ss) ds)\<rparr>)
      | _ \<Rightarrow> None)"
  by (auto simp: loadDistricts_def assms district_filter_centroidInState Let_def
           split: option.splits)


lemma centroidInState_Nil: "centroidInState [] d = False"
  by (simp add: centroidInState_def split: option.splits)

lemma loadDistricts_featureList:
  assumes "outputGeoJson e = Parsed allDistricts"
  shows "loadDistricts e g =
     (let matching = filter (centroidInState (featureList g)) (featureList allDistricts)
      in if matching = [] then None else Some \<lparr>features = Some matching\<rparr>)"
  unfolding loadDistricts_spec [OF assms]
  by (simp add: featureList_def centroidInState_Nil Let_def split: option.splits)

text \<open>
  Claim C1. For a request with \<^verbatim>\<open>state\<close> set and \<^verbatim>\<open>district\<close> unset (and not the request
  for all of India) for which an outline is found, with \<^verbatim>\<open>output.geojson\<close> readable, the
  response has status 200 and its \<^verbatim>\<open>districtsGeoJson\<close> holds exactly the features of
  \<^verbatim>\<open>output.geojson\<close>, in the order of the file, whose centroid (the arithmetic mean of
  the vertices of the outer rings) lies inside the outer ring of some feature of the
  outline by the even-odd rule; \<^verbatim>\<open>districtsGeoJson\<close> is omitted when there is none.
\<close>

theorem GET_state_districts:
  assumes "truthy (state req)" and "\<not> truthy (district req)"
    and "allstates req \<noteq> Some (lit ''true'')"
    and "resolveOutline lc e req = Resolved (Some g)"
    and "outputGeoJson e = Parsed allDistricts"
  shows "GET lc e req =
     \<lparr>httpStatus = 200, geoJson = Some g,
      districtsGeoJson =
        (let matching = filter (centroidInState (featureList g)) (featureList allDistricts)
         in if matching = [] then None else Some \<lparr>features = Some matching\<rparr>),
      error = None\<rparr>"
  using assms(1-4) by (simp add: GET_def loadDistricts_featureList [OF assms(5)])

theorem GET_state_districts_witness:
  "GET asciiLower
     \<lparr>localState = (\<lambda>_. Parsed \<lparr>features = Some
        [\<lparr>geometry = Some (Polygon [[[0, 0], [4, 0], [4, 4], [0, 4], [0, 0]]]), properties = []\<rparr>]\<rparr>),
      localDistrict = (\<lambda>_. Missing),
      outputGeoJson = Parsed \<lparr>features = Some
        [\<lparr>geometry = Some (Polygon [[[1, 1], [2, 1], [2, 2], [1, 2], [1, 1]]]), properties = []\<rparr>,
         \<lparr>geometry = Some (MultiPolygon [[[[5, 1], [6, 1], [6, 2], [5, 1]]]]), properties = []\<rparr>]\<rparr>,
      remoteStates = Rejected\<rparr>
     \<lparr>state = Some (lit ''Goa''), district = None, allstates = None\<rparr>
   = \<lparr>httpStatus = 200,
      geoJson = Some \<lparr>features = Some
        [\<lparr>geometry = Some (Polygon [[[0, 0], [4, 0], [4, 4], [0, 4], [0, 0]]]), properties = []\<rparr>]\<rparr>,
      districtsGeoJson = Some \<lparr>features = Some
        [\<lparr>geometry = Some (Polygon [[[1, 1], [2, 1], [2, 2], [1, 2], [1, 1]]]), properties = []\<rparr>]\<rparr>,
      error = None\<rparr>"
  using GET_state_districts [of "\<lparr>state = Some (lit ''Goa''), district = None, allstates = None\<rparr>"
      asciiLower
      "\<lparr>localState = (\<lambda>_. Parsed \<lparr>features = Some
        [\<lparr>geometry = Some (Polygon [[[0, 0], [4, 0], [4, 4], [0, 4], [0, 0]]]), properties = []\<rparr>]\<rparr>),
      localDistrict = (\<lambda>_. Missing),
      outputGeoJson = Parsed \<lparr>features = Some
        [\<lparr>geometry = Some (Polygon [[[1, 1], [2, 1], [2, 2], [1, 2], [1, 1]]]), properties = []\<rparr>,
         \<lparr>geometry = Some (MultiPolygon [[[[5, 1], [6, 1], [6, 2], [5, 1]]]]), properties = []\<rparr>]\<rparr>,
      remoteStates = Rejected\<rparr>"
      "\<lparr>features = Some
        [\<lparr>geometry = Some (Polygon [[[0, 0], [4, 0], [4, 4], [0, 4], [0, 0]]]), properties = []\<rparr>]\<rparr>"
      "\<lparr>features = Some
        [\<lparr>geometry = Some (Polygon [[[1, 1], [2, 1], [2, 2], [1, 2], [1, 1]]]), properties = []\<rparr>,
         \<lparr>geometry = Some (MultiPolygon [[[[5, 1], [6, 1], [6, 2], [5, 1]]]]), properties = []\<rparr>]\<rparr>"]
  by (simp add: truthy_def lit_def resolveOutline_def featureList_def centroidInState_def
        centroid_def vertices_def outerRings_def insideEvenOdd_def crossings_def edges_def
        intersect_def)

subsection \<open>Chat transcript\<close>

text \<open>
  Claim C8. \<^verbatim>\<open>sendMessage\<close> with a text to send (the argument, or the input field when
  the argument is absent or empty) that is empty or only white space, or while
  \<^verbatim>\<open>isLoading\<close>, leaves the state as it is and sends nothing. Otherwise it appends the
  user message, posts the question to \<^verbatim>\<open>/query\<close>, and appends exactly one assistant
  message: the answer of the API when the query succeeds, the fixed apology when the fetch
  rejects, the status is not ok or the body does not parse. The transcript grows by exactly
  two messages.
\<close>

theorem sendMessage_transcript:
  "(trim (textToSend messageText st) = [] \<or> isLoading st \<longrightarrow>
      sendMessage messageText io st = (st, []))
   \<and> (t \<noteq> [] \<and> trim t = [] \<longrightarrow> sendMessage (Some t) io st = (st, []))
   \<and> (trim (textToSend messageText st) \<noteq> [] \<and> \<not> isLoading st \<longrightarrow>
        (\<exists>user assistant.
           messages (fst (sendMessage messageText io st)) = messages st @ [user, assistant]
           \<and> mrole user = User \<and> content user = textToSend messageText st
           \<and> mrole assistant = Assistant
           \<and> content assistant =
                 (case queryAnswer io of QueryOk d \<Rightarrow> response d | _ \<Rightarrow> apology)
           \<and> mdata assistant = (case queryAnswer io of QueryOk d \<Rightarrow> rdata d | _ \<Rightarrow> None)
           \<and> chart assistant = (case queryAnswer io of QueryOk d \<Rightarrow> rchart d | _ \<Rightarrow> None))
        \<and> hd (snd (sendMessage messageText io st))
            = PostQuery (apiUrl st @ lit ''/query'') (textToSend messageText st)
                (latitude st) (longitude st)
        \<and> length (messages (fst (sendMessage messageText io st))) = length (messages st) + 2
        \<and> \<not> isLoading (fst (sendMessage messageText io st)))"
proof (intro conjI impI)
  assume "trim (textToSend messageText st) = [] \<or> isLoading st"
  then show "sendMessage messageText io st = (st, [])"
    by (auto simp: sendMessage_def)
next
  assume "t \<noteq> [] \<and> trim t = []"
  then show "sendMessage (Some t) io st = (st, [])"
    by (simp add: sendMessage_def textToSend_def)
next
  assume a: "trim (textToSend messageText st) \<noteq> [] \<and> \<not> isLoading st"
  show "\<exists>user assistant.
           messages (fst (sendMessage messageText io st)) = messages st @ [user, assistant]
           \<and> mrole user = User \<and> content user = textToSend messageText st
           \<and> mrole assistant = Assistant
           \<and> content assistant =
                 (case queryAnswer io of QueryOk d \<Rightarrow> response d | _ \<Rightarrow> apology)
           \<and> mdata assistant = (case queryAnswer io of QueryOk d \<Rightarrow> rdata d | _ \<Rightarrow> None)
           \<and> chart assistant = (case queryAnswer io of QueryOk d \<Rightarrow> rchart d | _ \<Rightarrow> None)"
    using a by (cases "queryAnswer io"; cases "detectAnswer io") (simp_all add: sendMessage_def Let_def)
  show "hd (snd (sendMessage messageText io st))
            = PostQuery (apiUrl st @ lit ''/query'') (textToSend messageText st)
                (latitude st) (longitude st)"
    using a by (cases "queryAnswer io"; cases "detectAnswer io") (simp_all add: sendMessage_def Let_def)
  show "length (messages (fst (sendMessage messageText io st))) = length (messages st) + 2"
    using a by (cases "queryAnswer io"; cases "detectAnswer io") (simp_all add: sendMessage_def Let_def)
  show "\<not> isLoading (fst (sendMessage messageText io st))"
    using a by (cases "queryAnswer io"; cases "detectAnswer io") (simp_all add: sendMessage_def Let_def)
qed

theorem sendMessage_transcript_witness:
  "sendMessage (Some (lit '' ''))
     \<lparr>nowUser = 5, queryAnswer = (HttpError 500 :: unit queryResult),
      detectAnswer = DetectFailed, nowAssistant = 9\<rparr>
     \<lparr>messages = [], input = lit ''hi'', isLoading = False, latitude = None, longitude = None,
      apiUrl = lit ''https://neersetu.onrender.com''\<rparr>
   = (\<lparr>messages = [], input = lit ''hi'', isLoading = False, latitude = None, longitude = None,
       apiUrl = lit ''https://neersetu.onrender.com''\<rparr>, [])
   \<and> length (messages (fst (sendMessage None
         \<lparr>nowUser = 5, queryAnswer = (HttpError 500 :: unit queryResult),
          detectAnswer = DetectFailed, nowAssistant = 9\<rparr>
         \<lparr>messages = [], input = lit ''hi'', isLoading = False, latitude = None,
          longitude = None, apiUrl = lit ''https://neersetu.onrender.com''\<rparr>))) = 2"
  using sendMessage_transcript [where messageText = None
      and st = "\<lparr>messages = [], input = lit ''hi'', isLoading = False, latitude = None,
        longitude = None, apiUrl = lit ''https://neersetu.onrender.com''\<rparr>"
      and t = "lit '' ''"
      and io = "\<lparr>nowUser = 5, queryAnswer = (HttpError 500 :: unit queryResult),
        detectAnswer = DetectFailed, nowAssistant = 9\<rparr>"]
  by (simp add: textToSend_def trim_def isWhiteSpace_def lit_def)

subsection \<open>Hover and zoom\<close>

lemmas comp_eval = step_def shown_def handleFeatureHoverStart_def handleFeatureHoverEnd_def
  debounceFired_def dwellFired_def animate_def animateHover_def handleReset_def zoomEffect_def
  zoomDeps_def setTimeout_def clearTimeout_def requestAnimationFrame_def cancelAnimationFrame_def
  hoverRendered_def isIndiaView_def Let_def DEBOUNCE_DELAY_def HOVER_DELAY_def
  rawProgress_def eased_def duration_def

lemma clearTimeout_fields:
  "timeouts (clearTimeout ref s) = filter (\<lambda>(i, _, _). Some i \<noteq> ref) (timeouts s)"
  "frames (clearTimeout ref s) = frames s"
  "debounceTimeoutRef (clearTimeout ref s) = debounceTimeoutRef s"
  "hoverTimeoutRef (clearTimeout ref s) = hoverTimeoutRef s"
  "animationFrameRef (clearTimeout ref s) = animationFrameRef s"
  "hoverAnimationRef (clearTimeout ref s) = hoverAnimationRef s"
  "zoomCleanup (clearTimeout ref s) = zoomCleanup s"
  "zoomedFeature (clearTimeout ref s) = zoomedFeature s"
  "viewLevel (clearTimeout ref s) = viewLevel s"
  "allStatesGeoJson (clearTimeout ref s) = allStatesGeoJson s"
  "districtsGeoJsonSt (clearTimeout ref s) = districtsGeoJsonSt s"
  "nextHandle (clearTimeout ref s) = nextHandle s"
  "zoomStartTimeRef (clearTimeout ref s) = zoomStartTimeRef s"
  "currentHoveredRef (clearTimeout ref s) = currentHoveredRef s"
  by (cases ref; simp add: clearTimeout_def)+

lemma cancelAnimationFrame_fields:
  "frames (cancelAnimationFrame ref s) = filter (\<lambda>(i, _). Some i \<noteq> ref) (frames s)"
  "timeouts (cancelAnimationFrame ref s) = timeouts s"
  "debounceTimeoutRef (cancelAnimationFrame ref s) = debounceTimeoutRef s"
  "hoverTimeoutRef (cancelAnimationFrame ref s) = hoverTimeoutRef s"
  "animationFrameRef (cancelAnimationFrame ref s) = animationFrameRef s"
  "hoverAnimationRef (cancelAnimationFrame ref s) = hoverAnimationRef s"
  "zoomCleanup (cancelAnimationFrame ref s) = zoomCleanup s"
  "zoomedFeature (cancelAnimationFrame ref s) = zoomedFeature s"
  "viewLevel (cancelAnimationFrame ref s) = viewLevel s"
  "allStatesGeoJson (cancelAnimationFrame ref s) = allStatesGeoJson s"
  "districtsGeoJsonSt (cancelAnimationFrame ref s) = districtsGeoJsonSt s"
  "nextHandle (cancelAnimationFrame ref s) = nextHandle s"
  "zoomStartTimeRef (cancelAnimationFrame ref s) = zoomStartTimeRef s"
  "currentHoveredRef (cancelAnimationFrame ref s) = currentHoveredRef s"
  by (cases ref; simp add: cancelAnimationFrame_def)+


lemma hoverInv_timeouts_cases:
  assumes "hoverInv cur s"
  shows "timeouts s = [] \<or> (\<exists>p. timeouts s = [p] \<and> pendingOk cur s p)"
proof (cases "timeouts s")
  case Nil
  then show ?thesis by simp
next
  case (Cons p ps)
  with assms have "ps = []" by (simp add: hoverInv_def)
  with assms Cons show ?thesis by (simp add: hoverInv_def)
qed

lemma hoverInv_find:
  assumes "hoverInv cur s" and "find (\<lambda>(i, _, _). i = h) (timeouts s) = Some (h', due, cb)"
  shows "timeouts s = [(h, due, cb)] \<and> h' = h \<and> pendingOk cur s (h, due, cb)"
  using hoverInv_timeouts_cases [OF assms(1)] assms(2)
  by (auto split: if_splits)

lemma hoverInv_clear_both:
  assumes "hoverInv cur s"
  shows "filter (\<lambda>(i, _, _). Some i \<noteq> hoverTimeoutRef s)
           (filter (\<lambda>(i, _, _). Some i \<noteq> debounceTimeoutRef s) (timeouts s)) = []"
proof -
  from hoverInv_timeouts_cases [OF assms] show ?thesis
  proof
    assume "timeouts s = []"
    then show ?thesis by simp
  next
    assume "\<exists>p. timeouts s = [p] \<and> pendingOk cur s p"
    then obtain h due cb where p: "timeouts s = [(h, due, cb)]" "pendingOk cur s (h, due, cb)"
      by (metis prod_cases3)
    then show ?thesis by (cases cb) (auto simp: pendingOk_def)
  qed
qed

lemma hoverInv_MouseEnter:
  assumes "hoverInv cur s"
  shows "timeouts (handleFeatureHoverStart f ty now s)
           = [(nextHandle s, now + DEBOUNCE_DELAY, DebounceCallback f ty)]"
    and "hoverInv (Some (now, f, ty)) (handleFeatureHoverStart f ty now s)"
proof -
  have t: "timeouts (handleFeatureHoverStart f ty now s)
      = filter (\<lambda>(i, _, _). Some i \<noteq> hoverTimeoutRef s)
         (filter (\<lambda>(i, _, _). Some i \<noteq> debounceTimeoutRef s) (timeouts s))
       @ [(nextHandle s, now + DEBOUNCE_DELAY, DebounceCallback f ty)]"
    and r: "debounceTimeoutRef (handleFeatureHoverStart f ty now s) = Some (nextHandle s)"
    by (simp_all add: handleFeatureHoverStart_def Let_def setTimeout_def
          clearTimeout_fields cancelAnimationFrame_fields)
  show 1: "timeouts (handleFeatureHoverStart f ty now s)
           = [(nextHandle s, now + DEBOUNCE_DELAY, DebounceCallback f ty)]"
    unfolding t hoverInv_clear_both [OF assms] by simp
  show "hoverInv (Some (now, f, ty)) (handleFeatureHoverStart f ty now s)"
    unfolding hoverInv_def 1 by (simp add: pendingOk_def r)
qed

lemma hoverInv_MouseLeave:
  assumes "hoverInv cur s"
  shows "timeouts (handleFeatureHoverEnd s) = []"
    and "hoverInv None (handleFeatureHoverEnd s)"
proof -
  have t: "timeouts (handleFeatureHoverEnd s)
      = filter (\<lambda>(i, _, _). Some i \<noteq> hoverTimeoutRef s)
         (filter (\<lambda>(i, _, _). Some i \<noteq> debounceTimeoutRef s) (timeouts s))"
    by (simp add: handleFeatureHoverEnd_def Let_def clearTimeout_fields cancelAnimationFrame_fields)
  show 1: "timeouts (handleFeatureHoverEnd s) = []"
    unfolding t by (rule hoverInv_clear_both [OF assms])
  show "hoverInv None (handleFeatureHoverEnd s)"
    unfolding hoverInv_def 1 by simp
qed

lemma debounceFired_timeouts:
  "timeouts (debounceFired f ty now s) = timeouts s @ [(Suc (nextHandle s), now + HOVER_DELAY, DwellCallback f ty)]"
  "hoverTimeoutRef (debounceFired f ty now s) = Some (Suc (nextHandle s))"
  by (simp_all add: debounceFired_def Let_def setTimeout_def requestAnimationFrame_def)

lemma zoomEffect_timeouts:
  "timeouts (zoomEffect deps now s) = timeouts s"
  "debounceTimeoutRef (zoomEffect deps now s) = debounceTimeoutRef s"
  "hoverTimeoutRef (zoomEffect deps now s) = hoverTimeoutRef s"
  by (simp_all add: zoomEffect_def Let_def requestAnimationFrame_def cancelAnimationFrame_fields
        split: prod.splits)

lemma dwellFired_timeouts:
  "timeouts (dwellFired f ty now s) = timeouts s"
  "debounceTimeoutRef (dwellFired f ty now s) = debounceTimeoutRef s"
  "hoverTimeoutRef (dwellFired f ty now s) = hoverTimeoutRef s"
  by (simp_all add: dwellFired_def zoomEffect_timeouts)

lemma animate_timeouts:
  "timeouts (animate c now s) = timeouts s"
  "debounceTimeoutRef (animate c now s) = debounceTimeoutRef s"
  "hoverTimeoutRef (animate c now s) = hoverTimeoutRef s"
  by (simp_all add: animate_def Let_def requestAnimationFrame_def
        split: option.splits LocationType.splits)

lemma animateHover_timeouts:
  "timeouts (animateHover now s) = timeouts s"
  "debounceTimeoutRef (animateHover now s) = debounceTimeoutRef s"
  "hoverTimeoutRef (animateHover now s) = hoverTimeoutRef s"
  by (simp_all add: animateHover_def Let_def requestAnimationFrame_def)

lemma handleReset_timeouts:
  "timeouts (handleReset L now s) = filter (\<lambda>(i, _, _). Some i \<noteq> hoverTimeoutRef s) (timeouts s)"
  "debounceTimeoutRef (handleReset L now s) = debounceTimeoutRef s"
  "hoverTimeoutRef (handleReset L now s) = hoverTimeoutRef s"
  by (simp_all add: handleReset_def Let_def zoomEffect_timeouts clearTimeout_fields
        cancelAnimationFrame_fields)


lemma pendingOk_cong:
  assumes "debounceTimeoutRef s' = debounceTimeoutRef s" "hoverTimeoutRef s' = hoverTimeoutRef s"
  shows "pendingOk cur s' = pendingOk cur s"
  by (rule ext) (simp add: pendingOk_def assms split: prod.splits timeoutCallback.splits)

lemma hoverInv_cong:
  assumes "timeouts s' = timeouts s"
    "debounceTimeoutRef s' = debounceTimeoutRef s" "hoverTimeoutRef s' = hoverTimeoutRef s"
  shows "hoverInv cur s' = hoverInv cur s"
  by (simp add: hoverInv_def assms(1) pendingOk_cong [OF assms(2,3)])

lemma hoverInv_filter:
  assumes "hoverInv cur s" "timeouts s' = filter P (timeouts s)"
    "debounceTimeoutRef s' = debounceTimeoutRef s" "hoverTimeoutRef s' = hoverTimeoutRef s"
  shows "hoverInv cur s'"
proof -
  have "length (filter P (timeouts s)) \<le> length (timeouts s)" by simp
  with assms(1) have "length (filter P (timeouts s)) \<le> 1"
    unfolding hoverInv_def by linarith
  moreover have "list_all (pendingOk cur s) (filter P (timeouts s))"
    using assms(1) by (simp add: hoverInv_def list_all_iff)
  ultimately show ?thesis
    by (simp add: hoverInv_def assms(2) pendingOk_cong [OF assms(3,4)])
qed

lemma hoverInv_debounce:
  assumes "hoverTimeoutRef s1 = hoverTimeoutRef s" "timeouts s1 = []"
    and "pendingOk cur s (h, due, DebounceCallback f ty)" and "due \<le> now"
  shows "hoverInv cur (debounceFired f ty now s1)"
proof -
  from assms(3) have cur: "cur = Some (due - DEBOUNCE_DELAY, f, ty)" by (simp add: pendingOk_def)
  show ?thesis
    using assms(4)
    by (simp add: hoverInv_def debounceFired_timeouts assms(2) pendingOk_def cur)
qed

lemma step_MouseEnter:
  assumes "step L (now, MouseEnter f ty) s = Some s'"
  shows "clock s \<le> now \<and> hoverRendered (s\<lparr>clock := now\<rparr>) f ty
         \<and> s' = handleFeatureHoverStart f ty now (s\<lparr>clock := now\<rparr>)"
  using assms by (simp add: step_def Let_def split: if_splits)

lemma step_MouseLeave:
  assumes "step L (now, MouseLeave) s = Some s'"
  shows "clock s \<le> now \<and> s' = handleFeatureHoverEnd (s\<lparr>clock := now\<rparr>)"
  using assms by (simp add: step_def Let_def split: if_splits)

lemma step_Reset:
  assumes "step L (now, Reset) s = Some s'"
  shows "clock s \<le> now \<and> s' = handleReset L now (s\<lparr>clock := now\<rparr>)"
  using assms by (simp add: step_def Let_def split: if_splits)

lemma step_Timeout:
  assumes "step L (now, Timeout h) s = Some s'"
  shows "\<exists>h' due cb. find (\<lambda>(i, _, _). i = h) (timeouts s) = Some (h', due, cb)
           \<and> clock s \<le> now \<and> due \<le> now
           \<and> s' = (case cb of
                 DebounceCallback f ty \<Rightarrow> debounceFired f ty now
                   (s\<lparr>clock := now, timeouts := filter (\<lambda>(i, _, _). i \<noteq> h) (timeouts s)\<rparr>)
               | DwellCallback f ty \<Rightarrow> dwellFired f ty now
                   (s\<lparr>clock := now, timeouts := filter (\<lambda>(i, _, _). i \<noteq> h) (timeouts s)\<rparr>))"
  using assms
  apply (auto simp: step_def Let_def split: if_splits option.splits prod.splits)
  subgoal for a b cb by (cases cb) auto
  done

lemma step_Frame:
  assumes "step L (now, Frame h) s = Some s'"
  shows "\<exists>h' cb. find (\<lambda>(i, _). i = h) (frames s) = Some (h', cb)
           \<and> clock s \<le> now
           \<and> s' = (case cb of
                 Animate c \<Rightarrow> animate c now
                   (s\<lparr>clock := now, frames := filter (\<lambda>(i, _). i \<noteq> h) (frames s)\<rparr>)
               | AnimateHover \<Rightarrow> animateHover now
                   (s\<lparr>clock := now, frames := filter (\<lambda>(i, _). i \<noteq> h) (frames s)\<rparr>))"
  using assms
  apply (auto simp: step_def Let_def split: if_splits option.splits prod.splits)
  subgoal for a cb by (cases cb) auto
  done

lemma step_hoverInv:
  assumes inv: "hoverInv cur s" and st: "step L te s = Some s'"
  shows "hoverInv (hoverAfter cur te) s'"
proof -
  obtain now ev where te: "te = (now, ev)" by (cases te)
  let ?s = "s\<lparr>clock := now\<rparr>"
  have inv': "hoverInv cur ?s" using inv by (simp add: hoverInv_cong [of ?s s])
  show ?thesis
  proof (cases ev)
    case (MouseEnter f ty)
    have "s' = handleFeatureHoverStart f ty now ?s"
      using step_MouseEnter [OF st [unfolded te MouseEnter]] by simp
    then show ?thesis using hoverInv_MouseEnter(2) [OF inv'] by (simp add: te MouseEnter)
  next
    case MouseLeave
    have "s' = handleFeatureHoverEnd ?s"
      using step_MouseLeave [OF st [unfolded te MouseLeave]] by simp
    then show ?thesis using hoverInv_MouseLeave(2) [OF inv'] by (simp add: te MouseLeave)
  next
    case (Timeout h)
    let ?s1 = "s\<lparr>clock := now, timeouts := filter (\<lambda>(i, _, _). i \<noteq> h) (timeouts s)\<rparr>"
    from step_Timeout [OF st [unfolded te Timeout]] obtain h' due cb where
      f: "find (\<lambda>(i, _, _). i = h) (timeouts s) = Some (h', due, cb)" and due: "due \<le> now"
      and s': "s' = (case cb of
                 DebounceCallback f ty \<Rightarrow> debounceFired f ty now ?s1
               | DwellCallback f ty \<Rightarrow> dwellFired f ty now ?s1)"
      by blast
    from hoverInv_find [OF inv f]
    have ts: "timeouts s = [(h, due, cb)]" and ok: "pendingOk cur s (h, due, cb)" by simp_all
    have e: "timeouts ?s1 = []" using ts by simp
    show ?thesis
    proof (cases cb)
      case (DebounceCallback f ty)
      have "hoverInv cur (debounceFired f ty now ?s1)"
        by (rule hoverInv_debounce [OF _ e ok [unfolded DebounceCallback] due]) simp
      then show ?thesis by (simp add: s' DebounceCallback te Timeout)
    next
      case (DwellCallback f ty)
      have "timeouts (dwellFired f ty now ?s1) = []"
        unfolding dwellFired_timeouts by (rule e)
      then have "hoverInv cur (dwellFired f ty now ?s1)" by (simp add: hoverInv_def)
      then show ?thesis by (simp add: s' DwellCallback te Timeout)
    qed
  next
    case (Frame h)
    let ?s1 = "s\<lparr>clock := now, frames := filter (\<lambda>(i, _). i \<noteq> h) (frames s)\<rparr>"
    from step_Frame [OF st [unfolded te Frame]] obtain cb where
      s': "s' = (case cb of Animate c \<Rightarrow> animate c now ?s1 | AnimateHover \<Rightarrow> animateHover now ?s1)"
      by blast
    have "hoverInv cur s' = hoverInv cur s"
      unfolding s' by (cases cb; rule hoverInv_cong; simp add: animate_timeouts animateHover_timeouts)
    then show ?thesis using inv by (simp add: te Frame)
  next
    case Reset
    have s': "s' = handleReset L now ?s"
      using step_Reset [OF st [unfolded te Reset]] by simp
    have "hoverInv cur s'"
      by (rule hoverInv_filter [OF inv', where P = "\<lambda>(i, _, _). Some i \<noteq> hoverTimeoutRef ?s"])
         (simp_all add: s' handleReset_timeouts)
    then show ?thesis by (simp add: te Reset)
  qed
qed

lemma run_hoverInv:
  assumes "hoverInv cur s" and "run L tr s = Some s'"
  shows "hoverInv (foldl hoverAfter cur tr) s'"
  using assms
proof (induction tr arbitrary: cur s)
  case Nil
  then show ?case by simp
next
  case (Cons te tr)
  from Cons.prems(2) obtain s1 where 1: "step L te s = Some s1" and 2: "run L tr s1 = Some s'"
    by (auto split: option.splits)
  from Cons.IH [OF step_hoverInv [OF Cons.prems(1) 1] 2] show ?case by simp
qed

lemma shown_hoverInv: "hoverInv None (shown L fs ds t0)"
  by (simp add: hoverInv_def shown_def)


lemma zoomEffect_zoomedFeature: "zoomedFeature (zoomEffect deps now s) = zoomedFeature s"
  by (simp add: zoomEffect_def Let_def requestAnimationFrame_def cancelAnimationFrame_fields
        split: prod.splits)

lemma zfeature_unchanged:
  "zfeature (zoomedFeature (handleFeatureHoverStart f ty now s)) = zfeature (zoomedFeature s)"
  "zfeature (zoomedFeature (handleFeatureHoverEnd s)) = zfeature (zoomedFeature s)"
  "zfeature (zoomedFeature (debounceFired f ty now s)) = zfeature (zoomedFeature s)"
  "zfeature (zoomedFeature (animateHover now s)) = zfeature (zoomedFeature s)"
  "zfeature (zoomedFeature (animate c now s)) = zfeature (zoomedFeature s)"
  "zfeature (zoomedFeature (handleReset L now s)) = None"
  by (simp_all add: handleFeatureHoverStart_def handleFeatureHoverEnd_def debounceFired_def
        animateHover_def animate_def handleReset_def zoomEffect_zoomedFeature Let_def
        setTimeout_def requestAnimationFrame_def clearTimeout_fields cancelAnimationFrame_fields
        split: option.splits LocationType.splits)

lemma dwellFired_zoomedFeature:
  "zoomedFeature (dwellFired f ty now s) = zoomedFeature s
   \<or> zoomedFeature (dwellFired f ty now s) = \<lparr>zfeature = Some f, ztype = Some ty, progress = 0\<rparr>"
  by (simp add: dwellFired_def zoomEffect_zoomedFeature)

text \<open>
  What holds of every run of the component from the state in which the map is first shown:
  when the dwell timeout of a hover on a feature fires, the last \<^verbatim>\<open>mouseenter\<close> or
  \<^verbatim>\<open>mouseleave\<close> delivered before it was the \<^verbatim>\<open>mouseenter\<close> on that feature, at least
  \<^verbatim>\<open>DEBOUNCE_DELAY\<close> + \<^verbatim>\<open>HOVER_DELAY\<close> earlier; only the firing of a dwell timeout makes
  a feature the zoomed one; and \<^verbatim>\<open>handleFeatureHoverEnd\<close> leaves no timeout pending,
  \<^verbatim>\<open>handleFeatureHoverStart\<close> only the debounce of the new hover, so that no timeout of
  the earlier hover is left to trigger a zoom. That no \<^verbatim>\<open>mouseleave\<close> was delivered does
  not mean that the pointer stayed on the feature: see the run that follows.
\<close>

lemma hover_zoom_after_dwell:
  assumes r: "run L tr (shown L fs ds t0) = Some s" and st: "step L (now, e) s = Some s'"
  shows "(\<forall>h due f ty.
            e = Timeout h \<and> find (\<lambda>(i, _, _). i = h) (timeouts s) = Some (h, due, DwellCallback f ty)
            \<longrightarrow> (\<exists>t0. lastHover tr = Some (t0, f, ty) \<and> t0 + DEBOUNCE_DELAY + HOVER_DELAY \<le> now))
       \<and> (zfeature (zoomedFeature s') \<noteq> None
           \<and> zfeature (zoomedFeature s') \<noteq> zfeature (zoomedFeature s)
           \<longrightarrow> (\<exists>h due f ty.
                  e = Timeout h
                  \<and> find (\<lambda>(i, _, _). i = h) (timeouts s) = Some (h, due, DwellCallback f ty)
                  \<and> zoomedFeature s' = \<lparr>zfeature = Some f, ztype = Some ty, progress = 0\<rparr>))
       \<and> (e = MouseLeave \<longrightarrow> timeouts s' = [])
       \<and> (\<forall>g ty'. e = MouseEnter g ty'
            \<longrightarrow> timeouts s' = [(nextHandle s, now + DEBOUNCE_DELAY, DebounceCallback g ty')])"
proof -
  have inv: "hoverInv (lastHover tr) s"
    unfolding lastHover_def by (rule run_hoverInv [OF shown_hoverInv r])
  let ?s = "s\<lparr>clock := now\<rparr>"
  have inv': "hoverInv (lastHover tr) ?s" using inv by (simp add: hoverInv_cong [of ?s s])
  have A: "\<exists>t0. lastHover tr = Some (t0, f, ty) \<and> t0 + DEBOUNCE_DELAY + HOVER_DELAY \<le> now"
    if e: "e = Timeout h"
      and f: "find (\<lambda>(i, _, _). i = h) (timeouts s) = Some (h, due, DwellCallback f ty)"
    for h due f ty
  proof -
    from step_Timeout [OF st [unfolded e]] f have due: "due \<le> now" by auto
    from hoverInv_find [OF inv f] have "pendingOk (lastHover tr) s (h, due, DwellCallback f ty)"
      by simp
    then show ?thesis using due by (auto simp: pendingOk_def split: option.splits)
  qed
  have B: "\<exists>h due f ty.
                  e = Timeout h
                  \<and> find (\<lambda>(i, _, _). i = h) (timeouts s) = Some (h, due, DwellCallback f ty)
                  \<and> zoomedFeature s' = \<lparr>zfeature = Some f, ztype = Some ty, progress = 0\<rparr>"
    if z: "zfeature (zoomedFeature s') \<noteq> None"
          "zfeature (zoomedFeature s') \<noteq> zfeature (zoomedFeature s)"
  proof (cases e)
    case (MouseEnter f ty)
    from step_MouseEnter [OF st [unfolded MouseEnter]] z show ?thesis
      by (simp add: zfeature_unchanged)
  next
    case MouseLeave
    from step_MouseLeave [OF st [unfolded MouseLeave]] z show ?thesis
      by (simp add: zfeature_unchanged)
  next
    case (Timeout h)
    let ?s1 = "s\<lparr>clock := now, timeouts := filter (\<lambda>(i, _, _). i \<noteq> h) (timeouts s)\<rparr>"
    from step_Timeout [OF st [unfolded Timeout]] obtain h' due cb where
      f: "find (\<lambda>(i, _, _). i = h) (timeouts s) = Some (h', due, cb)"
      and s': "s' = (case cb of
                 DebounceCallback f ty \<Rightarrow> debounceFired f ty now ?s1
               | DwellCallback f ty \<Rightarrow> dwellFired f ty now ?s1)"
      by blast
    from hoverInv_find [OF inv f] have h': "h' = h" by simp
    show ?thesis
    proof (cases cb)
      case (DebounceCallback f ty)
      with s' z show ?thesis by (simp add: zfeature_unchanged)
    next
      case (DwellCallback f ty)
      with s' have s'': "s' = dwellFired f ty now ?s1" by simp
      from dwellFired_zoomedFeature [of f ty now ?s1] z
      have "zoomedFeature s' = \<lparr>zfeature = Some f, ztype = Some ty, progress = 0\<rparr>"
        unfolding s'' by auto
      with f h' DwellCallback Timeout show ?thesis by blast
    qed
  next
    case (Frame h)
    let ?s1 = "s\<lparr>clock := now, frames := filter (\<lambda>(i, _). i \<noteq> h) (frames s)\<rparr>"
    from step_Frame [OF st [unfolded Frame]] obtain cb where
      s': "s' = (case cb of Animate c \<Rightarrow> animate c now ?s1 | AnimateHover \<Rightarrow> animateHover now ?s1)"
      by blast
    with z show ?thesis by (cases cb) (simp_all add: zfeature_unchanged)
  next
    case Reset
    from step_Reset [OF st [unfolded Reset]] z show ?thesis
      by (simp add: zfeature_unchanged)
  qed
  have C: "timeouts s' = []" if e: "e = MouseLeave"
    using step_MouseLeave [OF st [unfolded e]] hoverInv_MouseLeave(1) [OF inv'] by simp
  have D: "timeouts s' = [(nextHandle s, now + DEBOUNCE_DELAY, DebounceCallback g ty')]"
    if e: "e = MouseEnter g ty'" for g ty'
    using step_MouseEnter [OF st [unfolded e]] hoverInv_MouseEnter(1) [OF inv', of g ty' now]
    by simp
  from A B C D show ?thesis by blast
qed

text \<open>
  Claim C3 says that a hover triggers a zoom only after the pointer has remained on the
  feature for \<^verbatim>\<open>DEBOUNCE_DELAY\<close> + \<^verbatim>\<open>HOVER_DELAY\<close>. The code zooms on a feature that the
  pointer left long before. The paths of the districts are rendered only while the view
  level is \<^verbatim>\<open>'state'\<close>; at the end of a zoom on a district the view level becomes
  \<^verbatim>\<open>'district'\<close> and they are unmounted, which delivers no \<^verbatim>\<open>mouseleave\<close>, and nothing
  clears the timers of a hover that was on one of them. In this run the pointer enters
  district 1 at 0 ms, and district 1 is zoomed at 2040 ms; during the zoom animation the
  pointer moves on to district 2, whose hover starts at 2140 ms; the animation ends at
  2640 ms, and from then on no district path is rendered. The dwell timeout of the hover
  on district 2 is still pending, and when it fires at 4140 ms district 2 becomes the
  zoomed feature, although its path was under the pointer for 540 ms at most.
\<close>

theorem dwell_fires_after_unmount:
  "\<exists>s s'. run State
         [(0, MouseEnter 1 DistrictType), (40, Timeout 1), (2040, Timeout 3), (2056, Frame 4),
          (2100, MouseLeave), (2100, MouseEnter 2 DistrictType), (2140, Timeout 6),
          (2640, Frame 5)]
         (shown State [] (Some [1::nat, 2]) 0) = Some s
     \<and> clock s = 2640 \<and> viewLevel s = District
     \<and> \<not> hoverRendered s 1 DistrictType \<and> \<not> hoverRendered s 2 DistrictType
     \<and> timeouts s = [(8, 4140, DwellCallback 2 DistrictType)]
     \<and> step State (4140, Timeout 8) s = Some s'
     \<and> zoomedFeature s' = \<lparr>zfeature = Some 2, ztype = Some DistrictType, progress = 0\<rparr>"
  by (simp add: comp_eval hoverRendered_def isIndiaView_def)

subsection \<open>View level\<close>

lemma frameOk_cong:
  assumes "animationFrameRef s' = animationFrameRef s" "zoomCleanup s' = zoomCleanup s"
    "ztype (zoomedFeature s') = ztype (zoomedFeature s)"
  shows "frameOk s' = frameOk s"
  by (rule ext) (simp add: frameOk_def assms split: prod.splits frameCallback.splits)

lemma zoomInv_I:
  assumes "list_all (\<lambda>(h, due, cb). callbackType cb = hoverType L) (timeouts s)"
    and "list_all (frameOk s) (frames s)"
    and "ztype (zoomedFeature s) = None \<or> ztype (zoomedFeature s) = Some (hoverType L)"
    and "if L = Country
         then (viewLevel s = Country \<or> viewLevel s = State) \<and> districtsGeoJsonSt s = None
         else (viewLevel s = State \<or> viewLevel s = District) \<and> allStatesGeoJson s = None"
  shows "zoomInv L s"
  using assms unfolding zoomInv_def by blast

lemma zoomInv_D:
  assumes "zoomInv L s"
  shows "list_all (\<lambda>(h, due, cb). callbackType cb = hoverType L) (timeouts s)"
    and "list_all (frameOk s) (frames s)"
    and "ztype (zoomedFeature s) = None \<or> ztype (zoomedFeature s) = Some (hoverType L)"
    and "if L = Country
         then (viewLevel s = Country \<or> viewLevel s = State) \<and> districtsGeoJsonSt s = None
         else (viewLevel s = State \<or> viewLevel s = District) \<and> allStatesGeoJson s = None"
  using assms unfolding zoomInv_def by blast+

lemma zoomInv_hover_only:
  assumes inv: "zoomInv L s"
    and t: "list_all (\<lambda>(h, due, cb). callbackType cb = hoverType L) (timeouts s')"
    and fr: "\<forall>p \<in> set (frames s'). p \<in> set (frames s) \<or> snd p = AnimateHover"
    and same: "animationFrameRef s' = animationFrameRef s" "zoomCleanup s' = zoomCleanup s"
      "zoomedFeature s' = zoomedFeature s" "viewLevel s' = viewLevel s"
      "allStatesGeoJson s' = allStatesGeoJson s" "districtsGeoJsonSt s' = districtsGeoJsonSt s"
  shows "zoomInv L s'"
proof (rule zoomInv_I)
  show "list_all (\<lambda>(h, due, cb). callbackType cb = hoverType L) (timeouts s')" by (rule t)
  have eq: "frameOk s' = frameOk s" by (rule frameOk_cong) (simp_all add: same)
  have "frameOk s p" if "p \<in> set (frames s')" for p
  proof -
    from fr that have "p \<in> set (frames s) \<or> snd p = AnimateHover" by blast
    then show ?thesis
    proof
      assume "p \<in> set (frames s)"
      with zoomInv_D(2) [OF inv] show ?thesis by (simp add: list_all_iff)
    next
      assume "snd p = AnimateHover"
      then show ?thesis by (cases p) (simp add: frameOk_def)
    qed
  qed
  then show "list_all (frameOk s') (frames s')" by (simp add: list_all_iff eq)
  show "ztype (zoomedFeature s') = None \<or> ztype (zoomedFeature s') = Some (hoverType L)"
    using zoomInv_D(3) [OF inv] by (simp add: same)
  show "if L = Country
         then (viewLevel s' = Country \<or> viewLevel s' = State) \<and> districtsGeoJsonSt s' = None
         else (viewLevel s' = State \<or> viewLevel s' = District) \<and> allStatesGeoJson s' = None"
    using zoomInv_D(4) [OF inv] by (simp add: same)
qed


lemma handleFeatureHoverStart_zoom_fields:
  "timeouts (handleFeatureHoverStart f ty now s)
     = filter (\<lambda>(i, _, _). Some i \<noteq> hoverTimeoutRef s)
         (filter (\<lambda>(i, _, _). Some i \<noteq> debounceTimeoutRef s) (timeouts s))
       @ [(nextHandle s, now + DEBOUNCE_DELAY, DebounceCallback f ty)]"
  "frames (handleFeatureHoverStart f ty now s)
     = filter (\<lambda>(i, _). Some i \<noteq> hoverAnimationRef s) (frames s)"
  "animationFrameRef (handleFeatureHoverStart f ty now s) = animationFrameRef s"
  "zoomCleanup (handleFeatureHoverStart f ty now s) = zoomCleanup s"
  "zoomedFeature (handleFeatureHoverStart f ty now s) = zoomedFeature s"
  "viewLevel (handleFeatureHoverStart f ty now s) = viewLevel s"
  "allStatesGeoJson (handleFeatureHoverStart f ty now s) = allStatesGeoJson s"
  "districtsGeoJsonSt (handleFeatureHoverStart f ty now s) = districtsGeoJsonSt s"
  by (simp_all add: handleFeatureHoverStart_def Let_def setTimeout_def
        clearTimeout_fields cancelAnimationFrame_fields)

lemma handleFeatureHoverEnd_zoom_fields:
  "timeouts (handleFeatureHoverEnd s)
     = filter (\<lambda>(i, _, _). Some i \<noteq> hoverTimeoutRef s)
         (filter (\<lambda>(i, _, _). Some i \<noteq> debounceTimeoutRef s) (timeouts s))"
  "frames (handleFeatureHoverEnd s)
     = filter (\<lambda>(i, _). Some i \<noteq> hoverAnimationRef s) (frames s)"
  "animationFrameRef (handleFeatureHoverEnd s) = animationFrameRef s"
  "zoomCleanup (handleFeatureHoverEnd s) = zoomCleanup s"
  "zoomedFeature (handleFeatureHoverEnd s) = zoomedFeature s"
  "viewLevel (handleFeatureHoverEnd s) = viewLevel s"
  "allStatesGeoJson (handleFeatureHoverEnd s) = allStatesGeoJson s"
  "districtsGeoJsonSt (handleFeatureHoverEnd s) = districtsGeoJsonSt s"
  by (simp_all add: handleFeatureHoverEnd_def Let_def clearTimeout_fields
        cancelAnimationFrame_fields)

lemma debounceFired_zoom_fields:
  "timeouts (debounceFired f ty now s)
     = timeouts s @ [(Suc (nextHandle s), now + HOVER_DELAY, DwellCallback f ty)]"
  "frames (debounceFired f ty now s) = frames s @ [(nextHandle s, AnimateHover)]"
  "animationFrameRef (debounceFired f ty now s) = animationFrameRef s"
  "zoomCleanup (debounceFired f ty now s) = zoomCleanup s"
  "zoomedFeature (debounceFired f ty now s) = zoomedFeature s"
  "viewLevel (debounceFired f ty now s) = viewLevel s"
  "allStatesGeoJson (debounceFired f ty now s) = allStatesGeoJson s"
  "districtsGeoJsonSt (debounceFired f ty now s) = districtsGeoJsonSt s"
  by (simp_all add: debounceFired_def Let_def setTimeout_def requestAnimationFrame_def)

lemma animateHover_zoom_fields:
  "timeouts (animateHover now s) = timeouts s"
  "frames (animateHover now s) = frames s
   \<or> frames (animateHover now s) = frames s @ [(nextHandle s, AnimateHover)]"
  "animationFrameRef (animateHover now s) = animationFrameRef s"
  "zoomCleanup (animateHover now s) = zoomCleanup s"
  "zoomedFeature (animateHover now s) = zoomedFeature s"
  "viewLevel (animateHover now s) = viewLevel s"
  "allStatesGeoJson (animateHover now s) = allStatesGeoJson s"
  "districtsGeoJsonSt (animateHover now s) = districtsGeoJsonSt s"
  by (simp_all add: animateHover_def Let_def requestAnimationFrame_def)

lemma list_all_callbackType_filter:
  assumes "list_all (\<lambda>(h, due, cb). callbackType cb = ty) ts"
  shows "list_all (\<lambda>(h, due, cb). callbackType cb = ty) (filter P ts)"
  using assms by (simp add: list_all_iff)

lemma rendered_hoverType:
  assumes "zoomInv L s" and "hoverRendered s f ty"
  shows "ty = hoverType L"
proof (cases ty)
  case StateType
  with assms(2) have "allStatesGeoJson s \<noteq> None"
    by (simp add: hoverRendered_def isIndiaView_def)
  with zoomInv_D(4) [OF assms(1)] have "L = Country" by (auto split: if_splits)
  then show ?thesis by (simp add: hoverType_def StateType)
next
  case DistrictType
  with assms(2) have "districtsGeoJsonSt s \<noteq> None"
    by (auto simp: hoverRendered_def split: option.splits)
  with zoomInv_D(4) [OF assms(1)] have "L \<noteq> Country" by (auto split: if_splits)
  then show ?thesis by (simp add: hoverType_def DistrictType)
qed

lemma zoomInv_clock: "zoomInv L (s\<lparr>clock := now\<rparr>) = zoomInv L s"
proof -
  have "frameOk (s\<lparr>clock := now\<rparr>) = frameOk s" by (rule frameOk_cong) simp_all
  then show ?thesis by (simp add: zoomInv_def)
qed

lemma zoomInv_MouseEnter:
  assumes inv: "zoomInv L s" and r: "hoverRendered s f ty"
  shows "zoomInv L (handleFeatureHoverStart f ty now s)"
proof (rule zoomInv_hover_only [OF inv])
  show "list_all (\<lambda>(h, due, cb). callbackType cb = hoverType L)
          (timeouts (handleFeatureHoverStart f ty now s))"
    unfolding handleFeatureHoverStart_zoom_fields
    using list_all_callbackType_filter [OF list_all_callbackType_filter [OF zoomInv_D(1) [OF inv]]]
      rendered_hoverType [OF inv r]
    by (simp add: callbackType_def)
  show "\<forall>p \<in> set (frames (handleFeatureHoverStart f ty now s)).
          p \<in> set (frames s) \<or> snd p = AnimateHover"
    by (simp add: handleFeatureHoverStart_zoom_fields)
qed (simp_all add: handleFeatureHoverStart_zoom_fields)

lemma zoomInv_MouseLeave:
  assumes inv: "zoomInv L s"
  shows "zoomInv L (handleFeatureHoverEnd s)"
proof (rule zoomInv_hover_only [OF inv])
  show "list_all (\<lambda>(h, due, cb). callbackType cb = hoverType L)
          (timeouts (handleFeatureHoverEnd s))"
    unfolding handleFeatureHoverEnd_zoom_fields
    by (rule list_all_callbackType_filter [OF list_all_callbackType_filter [OF zoomInv_D(1) [OF inv]]])
  show "\<forall>p \<in> set (frames (handleFeatureHoverEnd s)). p \<in> set (frames s) \<or> snd p = AnimateHover"
    by (simp add: handleFeatureHoverEnd_zoom_fields)
qed (simp_all add: handleFeatureHoverEnd_zoom_fields)

lemma zoomInv_debounceFired:
  assumes inv: "zoomInv L s" and ty: "ty = hoverType L"
  shows "zoomInv L (debounceFired f ty now s)"
proof (rule zoomInv_hover_only [OF inv])
  show "list_all (\<lambda>(h, due, cb). callbackType cb = hoverType L)
          (timeouts (debounceFired f ty now s))"
    unfolding debounceFired_zoom_fields
    using zoomInv_D(1) [OF inv] ty by (simp add: callbackType_def)
  show "\<forall>p \<in> set (frames (debounceFired f ty now s)). p \<in> set (frames s) \<or> snd p = AnimateHover"
    by (auto simp: debounceFired_zoom_fields)
qed (simp_all add: debounceFired_zoom_fields)

lemma zoomInv_animateHover:
  assumes inv: "zoomInv L s"
  shows "zoomInv L (animateHover now s)"
proof (rule zoomInv_hover_only [OF inv])
  show "list_all (\<lambda>(h, due, cb). callbackType cb = hoverType L) (timeouts (animateHover now s))"
    unfolding animateHover_zoom_fields by (rule zoomInv_D(1) [OF inv])
  show "\<forall>p \<in> set (frames (animateHover now s)). p \<in> set (frames s) \<or> snd p = AnimateHover"
    using animateHover_zoom_fields(2) [of now s] by auto
qed (simp_all add: animateHover_zoom_fields)


lemma animate_zoom_fields:
  "timeouts (animate c now s) = timeouts s"
  "frames (animate c now s)
     = (if rawProgress (now - zoomStartTimeRef s) < 1
        then frames s @ [(nextHandle s, Animate c)] else frames s)"
  "animationFrameRef (animate c now s)
     = (if rawProgress (now - zoomStartTimeRef s) < 1
        then Some (nextHandle s) else animationFrameRef s)"
  "zoomCleanup (animate c now s) = zoomCleanup s"
  "zfeature (zoomedFeature (animate c now s)) = zfeature (zoomedFeature s)"
  "ztype (zoomedFeature (animate c now s)) = ztype (zoomedFeature s)"
  "progress (zoomedFeature (animate c now s)) = eased (rawProgress (now - zoomStartTimeRef s))"
  "viewLevel (animate c now s)
     = (if rawProgress (now - zoomStartTimeRef s) < 1 then viewLevel s
        else case c of None \<Rightarrow> viewLevel s | Some ty \<Rightarrow> levelOf ty)"
  "allStatesGeoJson (animate c now s) = allStatesGeoJson s"
  "districtsGeoJsonSt (animate c now s) = districtsGeoJsonSt s"
  by (simp_all add: animate_def Let_def requestAnimationFrame_def levelOf_def
        split: option.splits LocationType.splits)

lemma zoomEffect_zoom_fields:
  "timeouts (zoomEffect deps now s) = timeouts s"
  "zoomedFeature (zoomEffect deps now s) = zoomedFeature s"
  "viewLevel (zoomEffect deps now s) = viewLevel s"
  "allStatesGeoJson (zoomEffect deps now s) = allStatesGeoJson s"
  "districtsGeoJsonSt (zoomEffect deps now s) = districtsGeoJsonSt s"
  by (simp_all add: zoomEffect_def Let_def requestAnimationFrame_def cancelAnimationFrame_fields
        split: prod.splits)

lemma frameOk_Animate_handle:
  assumes "list_all (frameOk s) (frames s)" and "(h, Animate c) \<in> set (frames s)"
  shows "animationFrameRef s = Some h \<and> zoomCleanup s \<and> c = ztype (zoomedFeature s)"
  using assms by (auto simp: list_all_iff frameOk_def)

lemma zoomEffect_frameOk:
  assumes ok: "list_all (frameOk s0) (frames s0)"
    and sub: "set (frames s) \<subseteq> set (frames s0)"
    and same: "animationFrameRef s = animationFrameRef s0" "zoomCleanup s = zoomCleanup s0"
  shows "list_all (frameOk (zoomEffect (zoomDeps s0) now s)) (frames (zoomEffect (zoomDeps s0) now s))"
proof (cases "zoomDeps s = zoomDeps s0")
  case True
  then have "ztype (zoomedFeature s) = ztype (zoomedFeature s0)" by (simp add: zoomDeps_def)
  then have "frameOk s = frameOk s0" by (intro frameOk_cong same)
  moreover have "zoomEffect (zoomDeps s0) now s = s" using True by (simp add: zoomEffect_def)
  ultimately show ?thesis using ok sub by (auto simp: list_all_iff)
next
  case False
  define s1 where "s1 = (if zoomCleanup s then cancelAnimationFrame (animationFrameRef s) s else s)"
  have hov: "snd p = AnimateHover" if p: "p \<in> set (frames s1)" for p
  proof (cases p)
    case (Pair h cb)
    show ?thesis
    proof (cases cb)
      case (Animate c)
      from p have in0: "(h, Animate c) \<in> set (frames s0)"
        using sub by (auto simp: s1_def Pair Animate cancelAnimationFrame_fields split: if_splits)
      from frameOk_Animate_handle [OF ok in0]
      have "animationFrameRef s = Some h" "zoomCleanup s" by (simp_all add: same)
      with p show ?thesis by (simp add: s1_def Pair Animate cancelAnimationFrame_fields)
    next
      case AnimateHover
      then show ?thesis by (simp add: Pair)
    qed
  qed
  have hovOk: "frameOk t p" if "p \<in> set (frames s1)" for p t
    using hov [OF that] by (cases p) (simp add: frameOk_def)
  have z1: "zoomedFeature s1 = zoomedFeature s"
    by (simp add: s1_def cancelAnimationFrame_fields)
  consider (start) "zfeature (zoomedFeature s) \<noteq> None \<and> progress (zoomedFeature s) < 1"
    | (none) "\<not> (zfeature (zoomedFeature s) \<noteq> None \<and> progress (zoomedFeature s) < 1)"
        "zfeature (zoomedFeature s) = None"
    | (other) "\<not> (zfeature (zoomedFeature s) \<noteq> None \<and> progress (zoomedFeature s) < 1)"
        "zfeature (zoomedFeature s) \<noteq> None"
    by blast
  then show ?thesis
  proof cases
    case start
    let ?r = "zoomEffect (zoomDeps s0) now s"
    have fr: "frames ?r = frames s1 @ [(nextHandle s1, Animate (ztype (zoomedFeature s)))]"
      and ref: "animationFrameRef ?r = Some (nextHandle s1)" and cl: "zoomCleanup ?r"
      and zt: "ztype (zoomedFeature ?r) = ztype (zoomedFeature s)"
      using False start
      by (simp_all add: zoomEffect_def Let_def requestAnimationFrame_def s1_def [symmetric] z1)
    show ?thesis
      unfolding list_all_iff fr
    proof
      fix p
      assume "p \<in> set (frames s1 @ [(nextHandle s1, Animate (ztype (zoomedFeature s)))])"
      then consider "p \<in> set (frames s1)"
        | "p = (nextHandle s1, Animate (ztype (zoomedFeature s)))" by auto
      then show "frameOk ?r p"
      proof cases
        case 1
        then show ?thesis by (rule hovOk)
      next
        case 2
        then show ?thesis by (simp add: frameOk_def ref cl zt)
      qed
    qed
  next
    case none
    have "frames (zoomEffect (zoomDeps s0) now s) = frames s1"
      using False none by (simp add: zoomEffect_def Let_def s1_def [symmetric] z1)
    then show ?thesis using hovOk by (auto simp: list_all_iff)
  next
    case other
    have "frames (zoomEffect (zoomDeps s0) now s) = frames s1"
      using False other by (simp add: zoomEffect_def Let_def s1_def [symmetric] z1)
    then show ?thesis using hovOk by (auto simp: list_all_iff)
  qed
qed


lemma zoomInv_dwellFired:
  assumes inv: "zoomInv L s" and ty: "ty = hoverType L"
  shows "zoomInv L (dwellFired f ty now s)"
proof (cases "fst (currentHoveredRef s) = Some f")
  case False
  then show ?thesis using inv by (simp add: dwellFired_def)
next
  case True
  let ?m = "s\<lparr>zoomedFeature := \<lparr>zfeature = Some f, ztype = Some ty, progress = 0\<rparr>,
             hoveredFeature := None, hoverProgress := 0, currentHoveredRef := (None, None)\<rparr>"
  have r: "dwellFired f ty now s = zoomEffect (zoomDeps s) now ?m"
    using True by (simp add: dwellFired_def)
  show ?thesis
    unfolding r
  proof (rule zoomInv_I)
    show "list_all (\<lambda>(h, due, cb). callbackType cb = hoverType L)
            (timeouts (zoomEffect (zoomDeps s) now ?m))"
      using zoomInv_D(1) [OF inv] by (simp add: zoomEffect_zoom_fields)
    show "list_all (frameOk (zoomEffect (zoomDeps s) now ?m)) (frames (zoomEffect (zoomDeps s) now ?m))"
      by (rule zoomEffect_frameOk [OF zoomInv_D(2) [OF inv]]) simp_all
    show "ztype (zoomedFeature (zoomEffect (zoomDeps s) now ?m)) = None
          \<or> ztype (zoomedFeature (zoomEffect (zoomDeps s) now ?m)) = Some (hoverType L)"
      by (simp add: zoomEffect_zoom_fields ty)
    show "if L = Country
          then (viewLevel (zoomEffect (zoomDeps s) now ?m) = Country
                \<or> viewLevel (zoomEffect (zoomDeps s) now ?m) = State)
               \<and> districtsGeoJsonSt (zoomEffect (zoomDeps s) now ?m) = None
          else (viewLevel (zoomEffect (zoomDeps s) now ?m) = State
                \<or> viewLevel (zoomEffect (zoomDeps s) now ?m) = District)
               \<and> allStatesGeoJson (zoomEffect (zoomDeps s) now ?m) = None"
      using zoomInv_D(4) [OF inv] by (simp add: zoomEffect_zoom_fields)
  qed
qed

lemma zoomInv_handleReset:
  assumes inv: "zoomInv L s"
  shows "zoomInv L (handleReset L now s)"
proof -
  let ?s2 = "cancelAnimationFrame (hoverAnimationRef (clearTimeout (hoverTimeoutRef s) s))
               (clearTimeout (hoverTimeoutRef s) s)"
  let ?m = "?s2\<lparr>zoomedFeature := \<lparr>zfeature = None, ztype = None, progress = 0\<rparr>,
               hoveredFeature := None, hoverProgress := 0, zoomStartTimeRef := 0,
               viewLevel := (if L = Country then Country else State)\<rparr>"
  have r: "handleReset L now s = zoomEffect (zoomDeps s) now ?m"
    by (simp add: handleReset_def Let_def)
  show ?thesis
    unfolding r
  proof (rule zoomInv_I)
    show "list_all (\<lambda>(h, due, cb). callbackType cb = hoverType L)
            (timeouts (zoomEffect (zoomDeps s) now ?m))"
      using list_all_callbackType_filter [OF zoomInv_D(1) [OF inv]]
      by (simp add: zoomEffect_zoom_fields clearTimeout_fields cancelAnimationFrame_fields)
    show "list_all (frameOk (zoomEffect (zoomDeps s) now ?m)) (frames (zoomEffect (zoomDeps s) now ?m))"
      by (rule zoomEffect_frameOk [OF zoomInv_D(2) [OF inv]])
         (auto simp: clearTimeout_fields cancelAnimationFrame_fields)
    show "ztype (zoomedFeature (zoomEffect (zoomDeps s) now ?m)) = None
          \<or> ztype (zoomedFeature (zoomEffect (zoomDeps s) now ?m)) = Some (hoverType L)"
      by (simp add: zoomEffect_zoom_fields)
    show "if L = Country
          then (viewLevel (zoomEffect (zoomDeps s) now ?m) = Country
                \<or> viewLevel (zoomEffect (zoomDeps s) now ?m) = State)
               \<and> districtsGeoJsonSt (zoomEffect (zoomDeps s) now ?m) = None
          else (viewLevel (zoomEffect (zoomDeps s) now ?m) = State
                \<or> viewLevel (zoomEffect (zoomDeps s) now ?m) = District)
               \<and> allStatesGeoJson (zoomEffect (zoomDeps s) now ?m) = None"
      using zoomInv_D(4) [OF inv]
      by (simp add: zoomEffect_zoom_fields clearTimeout_fields cancelAnimationFrame_fields)
  qed
qed

lemma levelOf_hoverType:
  "levelOf (hoverType L) = (if L = Country then State else District)"
  by (simp add: levelOf_def hoverType_def)

lemma zoomInv_animate:
  assumes inv: "zoomInv L s" and fr: "(h, Animate c) \<in> set (frames s)"
  shows "zoomInv L (animate c now (s\<lparr>clock := now, frames := filter (\<lambda>(i, _). i \<noteq> h) (frames s)\<rparr>))"
proof -
  let ?s1 = "s\<lparr>clock := now, frames := filter (\<lambda>(i, _). i \<noteq> h) (frames s)\<rparr>"
  let ?r = "animate c now ?s1"
  from frameOk_Animate_handle [OF zoomInv_D(2) [OF inv] fr]
  have ref: "animationFrameRef s = Some h" and cl: "zoomCleanup s"
    and c: "c = ztype (zoomedFeature s)" by simp_all
  have hov: "snd p = AnimateHover" if p: "p \<in> set (frames ?s1)" for p
  proof (cases p)
    case (Pair h' cb)
    show ?thesis
    proof (cases cb)
      case (Animate c')
      from p have "(h', Animate c') \<in> set (frames s)" "h' \<noteq> h" by (simp_all add: Pair Animate)
      with frameOk_Animate_handle [OF zoomInv_D(2) [OF inv], of h' c'] ref show ?thesis by simp
    next
      case AnimateHover
      then show ?thesis by (simp add: Pair)
    qed
  qed
  show ?thesis
  proof (rule zoomInv_I)
    show "list_all (\<lambda>(h, due, cb). callbackType cb = hoverType L) (timeouts ?r)"
      using zoomInv_D(1) [OF inv] by (simp add: animate_zoom_fields)
    show "list_all (frameOk ?r) (frames ?r)"
      unfolding list_all_iff
    proof
      fix p
      assume "p \<in> set (frames ?r)"
      then consider "p \<in> set (frames ?s1)"
        | "rawProgress (now - zoomStartTimeRef ?s1) < 1" "p = (nextHandle ?s1, Animate c)"
        by (auto simp: animate_zoom_fields split: if_splits)
      then show "frameOk ?r p"
      proof cases
        case 1
        from hov [OF 1] show ?thesis by (cases p) (simp add: frameOk_def)
      next
        case 2
        then show ?thesis by (simp add: frameOk_def animate_zoom_fields cl c)
      qed
    qed
    show "ztype (zoomedFeature ?r) = None \<or> ztype (zoomedFeature ?r) = Some (hoverType L)"
      using zoomInv_D(3) [OF inv] by (simp add: animate_zoom_fields)
    show "if L = Country
          then (viewLevel ?r = Country \<or> viewLevel ?r = State) \<and> districtsGeoJsonSt ?r = None
          else (viewLevel ?r = State \<or> viewLevel ?r = District) \<and> allStatesGeoJson ?r = None"
      using zoomInv_D(4) [OF inv] zoomInv_D(3) [OF inv]
      by (auto simp: animate_zoom_fields c levelOf_hoverType split: option.splits)
  qed
qed

lemma find_frames_mem:
  assumes "find (\<lambda>(i, _). i = h) fs = Some (h', cb)"
  shows "(h, cb) \<in> set fs \<and> h' = h"
  using assms by (induction fs) (auto split: if_splits)

lemma find_timeouts_mem:
  assumes "find (\<lambda>(i, _, _). i = h) ts = Some (h', due, cb)"
  shows "(h, due, cb) \<in> set ts \<and> h' = h"
  using assms by (induction ts) (auto split: if_splits)

lemma step_zoomInv:
  assumes inv: "zoomInv L s" and st: "step L te s = Some s'"
  shows "zoomInv L s'"
proof -
  obtain now ev where te: "te = (now, ev)" by (cases te)
  let ?s = "s\<lparr>clock := now\<rparr>"
  have inv': "zoomInv L ?s" using inv by (simp add: zoomInv_clock)
  show ?thesis
  proof (cases ev)
    case (MouseEnter f ty)
    from step_MouseEnter [OF st [unfolded te MouseEnter]] zoomInv_MouseEnter [OF inv']
    show ?thesis by simp
  next
    case MouseLeave
    from step_MouseLeave [OF st [unfolded te MouseLeave]] zoomInv_MouseLeave [OF inv']
    show ?thesis by simp
  next
    case (Timeout h)
    let ?s1 = "s\<lparr>clock := now, timeouts := filter (\<lambda>(i, _, _). i \<noteq> h) (timeouts s)\<rparr>"
    from step_Timeout [OF st [unfolded te Timeout]] obtain h' due cb where
      f: "find (\<lambda>(i, _, _). i = h) (timeouts s) = Some (h', due, cb)"
      and s': "s' = (case cb of
                 DebounceCallback f ty \<Rightarrow> debounceFired f ty now ?s1
               | DwellCallback f ty \<Rightarrow> dwellFired f ty now ?s1)"
      by blast
    from find_timeouts_mem [OF f] zoomInv_D(1) [OF inv]
    have cbt: "callbackType cb = hoverType L" by (auto simp: list_all_iff)
    have "frameOk ?s1 = frameOk s" by (rule frameOk_cong) simp_all
    then have inv1: "zoomInv L ?s1"
      using inv list_all_callbackType_filter [OF zoomInv_D(1) [OF inv]]
      by (simp add: zoomInv_def)
    show ?thesis
    proof (cases cb)
      case (DebounceCallback f ty)
      with cbt have "ty = hoverType L" by (simp add: callbackType_def)
      from zoomInv_debounceFired [OF inv1 this] show ?thesis by (simp add: s' DebounceCallback)
    next
      case (DwellCallback f ty)
      with cbt have "ty = hoverType L" by (simp add: callbackType_def)
      from zoomInv_dwellFired [OF inv1 this] show ?thesis by (simp add: s' DwellCallback)
    qed
  next
    case (Frame h)
    let ?s1 = "s\<lparr>clock := now, frames := filter (\<lambda>(i, _). i \<noteq> h) (frames s)\<rparr>"
    from step_Frame [OF st [unfolded te Frame]] obtain h' cb where
      f: "find (\<lambda>(i, _). i = h) (frames s) = Some (h', cb)"
      and s': "s' = (case cb of Animate c \<Rightarrow> animate c now ?s1 | AnimateHover \<Rightarrow> animateHover now ?s1)"
      by blast
    show ?thesis
    proof (cases cb)
      case (Animate c)
      from find_frames_mem [OF f] have "(h, Animate c) \<in> set (frames s)" by (simp add: Animate)
      from zoomInv_animate [OF inv this] show ?thesis by (simp add: s' Animate)
    next
      case AnimateHover
      have "frameOk ?s1 = frameOk s" by (rule frameOk_cong) simp_all
      then have inv1: "zoomInv L ?s1"
        using inv by (simp add: zoomInv_def list_all_iff)
      from zoomInv_animateHover [OF inv1] show ?thesis by (simp add: s' AnimateHover)
    qed
  next
    case Reset
    from step_Reset [OF st [unfolded te Reset]] zoomInv_handleReset [OF inv']
    show ?thesis by simp
  qed
qed

lemma run_zoomInv:
  assumes "zoomInv L s" and "run L tr s = Some s'"
  shows "zoomInv L s'"
  using assms
proof (induction tr arbitrary: s)
  case Nil
  then show ?case by simp
next
  case (Cons te tr)
  from Cons.prems(2) obtain s1 where 1: "step L te s = Some s1" and 2: "run L tr s1 = Some s'"
    by (auto split: option.splits)
  from Cons.IH [OF step_zoomInv [OF Cons.prems(1) 1] 2] show ?case .
qed

lemma shown_zoomInv: "zoomInv L (shown L fs ds t0)"
  by (cases L) (simp_all add: zoomInv_def shown_def)


lemma dwellFired_viewLevel: "viewLevel (dwellFired f ty now s) = viewLevel s"
  by (simp add: dwellFired_def zoomEffect_zoom_fields)

lemma rawProgress_le_1: "rawProgress x \<le> 1"
  by (simp add: rawProgress_def)

text \<open>
  Claim C6. In every run of the component from the state in which the map is first shown:
  when an \<^verbatim>\<open>animate\<close> frame finds the raw progress at 1, the type its closure captured is
  the type of the zoomed feature and the view level becomes that type, \<^verbatim>\<open>'state'\<close> for a
  state and \<^verbatim>\<open>'district'\<close> for a district; and no event but the reset button changes the
  view level otherwise than from country to state or from state to district, which happens
  only at such a completion.
\<close>

theorem zoom_completion_view_level:
  assumes r: "run L tr (shown L fs ds t0) = Some s" and st: "step L (now, e) s = Some s'"
  shows "(\<forall>h c. e = Frame h \<and> find (\<lambda>(i, _). i = h) (frames s) = Some (h, Animate c)
              \<and> rawProgress (now - zoomStartTimeRef s) = 1
            \<longrightarrow> c = ztype (zoomedFeature s)
                \<and> (ztype (zoomedFeature s) = Some StateType \<longrightarrow> viewLevel s' = State)
                \<and> (ztype (zoomedFeature s) = Some DistrictType \<longrightarrow> viewLevel s' = District))
       \<and> (e \<noteq> Reset
            \<longrightarrow> viewLevel s' = viewLevel s
                \<or> (viewLevel s = Country \<and> viewLevel s' = State)
                \<or> (viewLevel s = State \<and> viewLevel s' = District))
       \<and> (e \<noteq> Reset \<and> viewLevel s' \<noteq> viewLevel s
            \<longrightarrow> (\<exists>h c. e = Frame h \<and> find (\<lambda>(i, _). i = h) (frames s) = Some (h, Animate c)
                       \<and> rawProgress (now - zoomStartTimeRef s) = 1))"
proof -
  have inv: "zoomInv L s" by (rule run_zoomInv [OF shown_zoomInv r])
  have frame: "c = ztype (zoomedFeature s)
      \<and> viewLevel s' = (if rawProgress (now - zoomStartTimeRef s) < 1 then viewLevel s
                         else case c of None \<Rightarrow> viewLevel s | Some ty \<Rightarrow> levelOf ty)"
    if e: "e = Frame h" and f: "find (\<lambda>(i, _). i = h) (frames s) = Some (h', Animate c)"
    for h h' c
  proof -
    from step_Frame [OF st [unfolded e]] f
    have s': "s' = animate c now (s\<lparr>clock := now, frames := filter (\<lambda>(i, _). i \<noteq> h) (frames s)\<rparr>)"
      by auto
    from find_frames_mem [OF f] have "(h, Animate c) \<in> set (frames s)" by simp
    from frameOk_Animate_handle [OF zoomInv_D(2) [OF inv] this]
    have "c = ztype (zoomedFeature s)" by simp
    then show ?thesis by (simp add: s' animate_zoom_fields split: option.splits)
  qed
  have A: "c = ztype (zoomedFeature s)
                \<and> (ztype (zoomedFeature s) = Some StateType \<longrightarrow> viewLevel s' = State)
                \<and> (ztype (zoomedFeature s) = Some DistrictType \<longrightarrow> viewLevel s' = District)"
    if "e = Frame h" "find (\<lambda>(i, _). i = h) (frames s) = Some (h, Animate c)"
       "rawProgress (now - zoomStartTimeRef s) = 1" for h c
    using frame [OF that(1,2)] that(3) by (auto simp: levelOf_def)
  have B: "(viewLevel s' = viewLevel s
            \<or> (viewLevel s = Country \<and> viewLevel s' = State)
            \<or> (viewLevel s = State \<and> viewLevel s' = District))
          \<and> (viewLevel s' \<noteq> viewLevel s
            \<longrightarrow> (\<exists>h c. e = Frame h \<and> find (\<lambda>(i, _). i = h) (frames s) = Some (h, Animate c)
                       \<and> rawProgress (now - zoomStartTimeRef s) = 1))"
    if ne: "e \<noteq> Reset"
  proof (cases e)
    case (MouseEnter f ty)
    from step_MouseEnter [OF st [unfolded MouseEnter]] show ?thesis
      by (simp add: handleFeatureHoverStart_zoom_fields)
  next
    case MouseLeave
    from step_MouseLeave [OF st [unfolded MouseLeave]] show ?thesis
      by (simp add: handleFeatureHoverEnd_zoom_fields)
  next
    case (Timeout h)
    from step_Timeout [OF st [unfolded Timeout]] obtain cb where
      "s' = (case cb of
                 DebounceCallback f ty \<Rightarrow> debounceFired f ty now
                   (s\<lparr>clock := now, timeouts := filter (\<lambda>(i, _, _). i \<noteq> h) (timeouts s)\<rparr>)
               | DwellCallback f ty \<Rightarrow> dwellFired f ty now
                   (s\<lparr>clock := now, timeouts := filter (\<lambda>(i, _, _). i \<noteq> h) (timeouts s)\<rparr>))"
      by blast
    then show ?thesis
      by (cases cb) (simp_all add: debounceFired_zoom_fields dwellFired_viewLevel)
  next
    case (Frame h)
    from step_Frame [OF st [unfolded Frame]] obtain h' cb where
      f: "find (\<lambda>(i, _). i = h) (frames s) = Some (h', cb)"
      and s': "s' = (case cb of
                 Animate c \<Rightarrow> animate c now
                   (s\<lparr>clock := now, frames := filter (\<lambda>(i, _). i \<noteq> h) (frames s)\<rparr>)
               | AnimateHover \<Rightarrow> animateHover now
                   (s\<lparr>clock := now, frames := filter (\<lambda>(i, _). i \<noteq> h) (frames s)\<rparr>))"
      by blast
    show ?thesis
    proof (cases cb)
      case AnimateHover
      then show ?thesis by (simp add: s' animateHover_zoom_fields)
    next
      case (Animate c)
      from find_frames_mem [OF f] have h': "h' = h" by simp
      from frame [OF Frame f [unfolded Animate]]
      have c: "c = ztype (zoomedFeature s)"
        and v: "viewLevel s' = (if rawProgress (now - zoomStartTimeRef s) < 1 then viewLevel s
                         else case c of None \<Rightarrow> viewLevel s | Some ty \<Rightarrow> levelOf ty)"
        by simp_all
      have fin: "rawProgress (now - zoomStartTimeRef s) = 1"
        if "\<not> rawProgress (now - zoomStartTimeRef s) < 1"
        using that rawProgress_le_1 [of "now - zoomStartTimeRef s"] by simp
      from zoomInv_D(3) [OF inv] c have cs: "c = None \<or> c = Some (hoverType L)" by simp
      have lv: "viewLevel s' = viewLevel s
            \<or> (viewLevel s = Country \<and> viewLevel s' = State)
            \<or> (viewLevel s = State \<and> viewLevel s' = District)"
        using cs zoomInv_D(4) [OF inv] v
        by (auto simp: levelOf_hoverType split: if_splits)
      have "\<exists>h c. e = Frame h \<and> find (\<lambda>(i, _). i = h) (frames s) = Some (h, Animate c)
                       \<and> rawProgress (now - zoomStartTimeRef s) = 1"
        if "viewLevel s' \<noteq> viewLevel s"
      proof -
        from that v have "\<not> rawProgress (now - zoomStartTimeRef s) < 1" by auto
        from fin [OF this] f h' Animate Frame show ?thesis by blast
      qed
      with lv show ?thesis by blast
    qed
  next
    case Reset
    with ne show ?thesis by simp
  qed
  from A B show ?thesis by blast
qed

theorem zoom_completion_view_level_witness:
  "\<exists>s s'. run State [(0, MouseEnter 1 DistrictType), (40, Timeout 1), (2040, Timeout 3)]
              (shown State [] (Some [1::nat]) 0) = Some s
         \<and> step State (2640, Frame 4) s = Some s'
         \<and> rawProgress (2640 - zoomStartTimeRef s) = 1
         \<and> ztype (zoomedFeature s) = Some DistrictType
         \<and> viewLevel s = State \<and> viewLevel s' = District"
proof -
  have "\<exists>s s'. run State [(0, MouseEnter 1 DistrictType), (40, Timeout 1), (2040, Timeout 3)]
              (shown State [] (Some [1::nat]) 0) = Some s
         \<and> step State (2640, Frame 4) s = Some s'
         \<and> find (\<lambda>(i, _). i = 4) (frames s) = Some (4, Animate (Some DistrictType))
         \<and> rawProgress (2640 - zoomStartTimeRef s) = 1
         \<and> ztype (zoomedFeature s) = Some DistrictType
         \<and> viewLevel s = State"
    by (simp add: comp_eval)
  then obtain s s' where
    r: "run State [(0, MouseEnter 1 DistrictType), (40, Timeout 1), (2040, Timeout 3)]
              (shown State [] (Some [1::nat]) 0) = Some s"
    and st: "step State (2640, Frame 4) s = Some s'"
    and f: "find (\<lambda>(i, _). i = 4) (frames s) = Some (4, Animate (Some DistrictType))"
    and p: "rawProgress (2640 - zoomStartTimeRef s) = 1"
    and z: "ztype (zoomedFeature s) = Some DistrictType" and v: "viewLevel s = State"
    by blast
  from zoom_completion_view_level [OF r st] f p z have "viewLevel s' = District" by blast
  with r st p z v show ?thesis by blast
qed

subsection \<open>Zoom animation\<close>

text \<open>
  The easing is 0 at 0 and 1 at 1 and monotone, the raw progress is 1 exactly from an
  elapsed time of 600 ms on, and a zoom that starts with no feature zoomed records its own
  start.
\<close>

lemma eased_endpoints: "eased 0 = 0" "eased 1 = 1" "eased (1 / 2) = 1 / 2"
  by (simp_all add: eased_def power3_eq_cube)

lemma cube_mono:
  fixes a b :: real
  assumes "a \<le> b"
  shows "a ^ 3 \<le> b ^ 3"
  using assms by (rule power_mono_odd [rotated]) simp

lemma eased_mono:
  assumes "p \<le> q"
  shows "eased p \<le> eased q"
proof -
  have lo: "eased x = 4 * x ^ 3" if "x < 1 / 2" for x :: real
    using that by (simp add: eased_def power3_eq_cube)
  have hi: "eased x = 1 - (2 - 2 * x) ^ 3 / 2" if "\<not> x < 1 / 2" for x :: real
    using that by (simp add: eased_def)
  have lo_le: "4 * x ^ 3 \<le> 1 / 2" if "x \<le> 1 / 2" for x :: real
    using cube_mono [OF that] by (simp add: power3_eq_cube)
  have hi_ge: "1 / 2 \<le> 1 - (2 - 2 * x) ^ 3 / 2" if "1 / 2 \<le> x" for x :: real
  proof -
    from that have "2 - 2 * x \<le> 1" by simp
    from cube_mono [OF this] show ?thesis by simp
  qed
  consider "q < 1 / 2" | "p < 1 / 2" "\<not> q < 1 / 2" | "\<not> p < 1 / 2"
    by linarith
  then show ?thesis
  proof cases
    case 1
    with assms have "p < 1 / 2" by simp
    with 1 cube_mono [OF assms] show ?thesis by (simp add: lo)
  next
    case 2
    from lo_le [of p] hi_ge [of q] 2 show ?thesis by (simp add: lo hi)
  next
    case 3
    with assms have q: "\<not> q < 1 / 2" by simp
    from assms have "2 - 2 * q \<le> 2 - 2 * p" by simp
    from cube_mono [OF this] 3 q show ?thesis by (simp add: hi)
  qed
qed

lemma rawProgress_eq_1_iff: "rawProgress elapsed = 1 \<longleftrightarrow> 600 \<le> elapsed"
  by (auto simp: rawProgress_def duration_def min_def)

lemma dwellFired_fresh_start:
  assumes "fst (currentHoveredRef s) = Some f" and "zoomStartTimeRef s = 0"
    and "zfeature (zoomedFeature s) = None"
  shows "zoomStartTimeRef (dwellFired f ty now s) = now"
  using assms
  by (simp add: dwellFired_def zoomEffect_def zoomDeps_def Let_def requestAnimationFrame_def
        cancelAnimationFrame_fields)

text \<open>
  Claim C5. The animation computes the raw progress as the time elapsed since the zoom
  started over 600 ms, clamped to 1, and eases it. The elapsed time is measured from
  \<^verbatim>\<open>zoomStartTimeRef\<close>, which the effect sets only when it is 0 and resets only when no
  feature is zoomed. In the run below the map of a state shows two districts; the pointer
  dwells on district 1, which is zoomed at 2040 ms, and moves to district 2 while that
  zoom is animated; the zoom completes at 2640 ms and the district paths are no longer
  rendered, so no \<^verbatim>\<open>mouseleave\<close> follows; the dwell timeout of district 2 fires at
  4140 ms and starts the second zoom. \<^verbatim>\<open>zoomStartTimeRef\<close> is still 2040, and the first
  frame of the second zoom, 16 ms after it started, finds the raw progress at 1.
\<close>

theorem zoom_restart_stale_start:
  "\<exists>s s'. run State
             [(0, MouseEnter 1 DistrictType), (40, Timeout 1), (2040, Timeout 3), (2056, Frame 4),
              (2100, MouseLeave), (2100, MouseEnter 2 DistrictType), (2140, Timeout 6),
              (2640, Frame 5), (4140, Timeout 8)]
             (shown State [] (Some [1::nat, 2]) 0) = Some s
         \<and> zoomedFeature s = \<lparr>zfeature = Some 2, ztype = Some DistrictType, progress = 0\<rparr>
         \<and> clock s = 4140
         \<and> zoomStartTimeRef s = 2040
         \<and> step State (4156, Frame 9) s = Some s'
         \<and> rawProgress (4156 - zoomStartTimeRef s) = 1
         \<and> progress (zoomedFeature s') = 1
         \<and> 4156 - clock s < 600"
  by (simp add: comp_eval)

end
